theory Spec2Isabelle
  imports Complex_Main "HOL-Library.AList"
begin

section \<open>Python values and errors\<close>

text \<open>
  The converter is Python. Every exception the modelled code can raise is a value of
  \<open>py_error\<close>, and a function that can raise returns \<open>py_error + 'a\<close> with \<open>Inl\<close> for
  the exception. Frame numbers are Python integers (\<open>int\<close>); the quotient \<open>frame / fps\<close>
  is a Python float, idealised here as an exact rational. Track values (floats, booleans,
  colours, matrices) are an arbitrary type \<open>'v\<close> compared with HOL equality, which is
  Python's \<open>==\<close> on exactly representable values.
\<close>

datatype py_error =
  IndexError | ZeroDivisionError | AttributeError | KeyError | UnboundLocalError
  | TypeError | ReferenceError

definition py_truediv :: "int \<Rightarrow> int \<Rightarrow> py_error + rat" where
  "py_truediv a b = (if b = 0 then Inl ZeroDivisionError else Inr (of_int a / of_int b))"

definition py_index :: "'a list \<Rightarrow> nat \<Rightarrow> py_error + 'a" where
  "py_index xs i = (if i < length xs then Inr (xs ! i) else Inl IndexError)"

definition NEAREST_INTERPOLATION :: nat where
  "NEAREST_INTERPOLATION = 0"

definition LINEAR_INTERPOLATION :: nat where
  "LINEAR_INTERPOLATION = 1"

definition BAKING_SUFFIX :: string where
  "BAKING_SUFFIX = ''--being-baking''"

section \<open>Tracks\<close>

text \<open>
  \<open>NodePath(base, target, attribute)\<close> of the structures module: the path of the node the
  player is rooted at, the path of the animated node and the animated property (empty when
  the constructor gets two arguments).
\<close>

datatype node_path = NodePath string string string

fun new_copy :: "node_path \<Rightarrow> string \<Rightarrow> node_path" where
  "new_copy (NodePath base target attr) attribute = NodePath base target attribute"

record 'v track =
  ttype :: string
  tpath :: node_path
  interp :: nat
  frames :: "int list"
  tvalues :: "'v list"

definition Track :: "string \<Rightarrow> node_path \<Rightarrow> int list \<Rightarrow> 'v list \<Rightarrow> 'v track" where
  "Track track_type track_path fs vs =
     \<lparr>ttype = track_type, tpath = track_path, interp = LINEAR_INTERPOLATION,
      frames = [] @ fs, tvalues = [] @ vs\<rparr>"

definition add_frame_data :: "'v track \<Rightarrow> int \<Rightarrow> 'v \<Rightarrow> 'v track" where
  "add_frame_data t frame v = t\<lparr>frames := frames t @ [frame], tvalues := tvalues t @ [v]\<rparr>"

definition frame_end :: "'v track \<Rightarrow> int" where
  "frame_end t = (if frames t = [] then 0 else last (frames t))"

definition frame_begin :: "'v track \<Rightarrow> int" where
  "frame_begin t = (if frames t = [] then 0 else hd (frames t))"

section \<open>Serialising keyframes\<close>

record vec3 =
  vx :: rat
  vy :: rat
  vz :: rat

record quat =
  qw :: rat
  qx :: rat
  qy :: rat
  qz :: rat

text \<open>
  What the serialisers ask of the values of a track, taken as parameters: of the matrix
  library and of \<open>structures.fix_matrix\<close> (the change from z-up to y-up) for a transform
  track, and for every track the \<open>==\<close> of its values. The values of a track are not typed:
  \<open>==\<close> is Python's comparison of floats for a float and the comparison the library
  defines for a \<open>mathutils.Matrix\<close> or a \<open>mathutils.Color\<close>, which the repository does not
  contain.
\<close>

record 'v mathutils =
  fix_matrix :: "'v \<Rightarrow> 'v"
  to_translation :: "'v \<Rightarrow> vec3"
  to_quaternion :: "'v \<Rightarrow> quat"
  to_scale :: "'v \<Rightarrow> vec3"
  values_equal :: "'v \<Rightarrow> 'v \<Rightarrow> bool"

datatype 'v keys =
  ValueKeys (k_times: "rat list") (k_transitions: "rat list") (k_update: nat)
    (k_values: "'v list")
  | TransformKeys (k_array: "rat list")

text \<open>
  The test at the head of both loops:
  \<open>interp == LINEAR_INTERPOLATION and index > 0 and value_list[index] == value_list[index - 1]\<close>.
\<close>

definition same_as_previous ::
  "'v mathutils \<Rightarrow> nat \<Rightarrow> 'v list \<Rightarrow> nat \<Rightarrow> py_error + bool" where
  "same_as_previous mx ip value_list index =
     (if ip = LINEAR_INTERPOLATION \<and> index > 0 then
        (case py_index value_list index of
           Inl e \<Rightarrow> Inl e
         | Inr cur \<Rightarrow>
             (case py_index value_list (index - 1) of
                Inl e \<Rightarrow> Inl e
              | Inr prev \<Rightarrow> Inr (values_equal mx cur prev)))
      else Inr False)"

fun value_frames_loop ::
  "'v mathutils \<Rightarrow> int \<Rightarrow> nat \<Rightarrow> 'v list \<Rightarrow> nat \<Rightarrow> int list \<Rightarrow> rat list \<times> rat list \<times> 'v list
   \<Rightarrow> py_error + rat list \<times> rat list \<times> 'v list" where
  "value_frames_loop mx fps ip value_list index [] arrays = Inr arrays"
| "value_frames_loop mx fps ip value_list index (frame # rest)
     (time_array, transition_array, value_array) =
     (case same_as_previous mx ip value_list index of
        Inl e \<Rightarrow> Inl e
      | Inr skip \<Rightarrow>
          if skip then
            value_frames_loop mx fps ip value_list (Suc index) rest
              (time_array, transition_array, value_array)
          else
            (case py_truediv frame fps of
               Inl e \<Rightarrow> Inl e
             | Inr time \<Rightarrow>
                 (case py_index value_list index of
                    Inl e \<Rightarrow> Inl e
                  | Inr v \<Rightarrow>
                      value_frames_loop mx fps ip value_list (Suc index) rest
                        (time_array @ [time], transition_array @ [1], value_array @ [v]))))"

definition value_frames_to_keys ::
  "'v mathutils \<Rightarrow> int \<Rightarrow> int list \<Rightarrow> 'v list \<Rightarrow> nat \<Rightarrow> py_error + 'v keys" where
  "value_frames_to_keys mx fps frame_list value_list ip =
     (case value_frames_loop mx fps ip value_list 0 frame_list ([], [], []) of
        Inl e \<Rightarrow> Inl e
      | Inr (time_array, transition_array, value_array) \<Rightarrow>
          Inr (ValueKeys time_array transition_array 0 value_array))"

definition transform_key :: "'v mathutils \<Rightarrow> rat \<Rightarrow> 'v \<Rightarrow> rat list" where
  "transform_key mx time mat =
     (let transform_mat = fix_matrix mx mat;
          location = to_translation mx transform_mat;
          quaternion = to_quaternion mx transform_mat;
          scale = to_scale mx transform_mat
      in [time, 1,
          vx location, vy location, vz location,
          qx quaternion, qy quaternion, qz quaternion, qw quaternion,
          vx scale, vy scale, vz scale])"

fun transform_frames_loop ::
  "'v mathutils \<Rightarrow> int \<Rightarrow> nat \<Rightarrow> 'v list \<Rightarrow> nat \<Rightarrow> int list \<Rightarrow> rat list
   \<Rightarrow> py_error + rat list" where
  "transform_frames_loop mx fps ip value_list index [] array = Inr array"
| "transform_frames_loop mx fps ip value_list index (frame # rest) array =
     (case same_as_previous mx ip value_list index of
        Inl e \<Rightarrow> Inl e
      | Inr skip \<Rightarrow>
          if skip then transform_frames_loop mx fps ip value_list (Suc index) rest array
          else
            (case py_truediv frame fps of
               Inl e \<Rightarrow> Inl e
             | Inr time \<Rightarrow>
                 (case py_index value_list index of
                    Inl e \<Rightarrow> Inl e
                  | Inr mat \<Rightarrow>
                      transform_frames_loop mx fps ip value_list (Suc index) rest
                        (array @ transform_key mx time mat))))"

definition transform_frames_to_keys ::
  "'v mathutils \<Rightarrow> int \<Rightarrow> int list \<Rightarrow> 'v list \<Rightarrow> nat \<Rightarrow> py_error + 'v keys" where
  "transform_frames_to_keys mx fps frame_list value_list ip =
     (case transform_frames_loop mx fps ip value_list 0 frame_list [] of
        Inl e \<Rightarrow> Inl e
      | Inr array \<Rightarrow> Inr (TransformKeys array))"

section \<open>Animation resources\<close>

record 'v track_entry =
  e_type :: string
  e_path :: node_path
  e_interp :: nat
  e_keys :: "'v keys option"

text \<open>
  The resource's dictionary: \<open>step\<close>, \<open>length\<close> and, for the track numbered \<open>i\<close>, the four
  entries \<open>tracks/i/type\<close>, \<open>tracks/i/path\<close>, \<open>tracks/i/interp\<close> and \<open>tracks/i/keys\<close>, kept as
  one association from \<open>i\<close> to the four values.
\<close>

record 'v animation_resource =
  res_type :: string
  res_name :: string
  step :: rat
  anim_length :: rat
  track_count :: nat
  tracks :: "(nat \<times> 'v track_entry) list"

definition AnimationResource :: "string \<Rightarrow> 'v animation_resource" where
  "AnimationResource name =
     \<lparr>res_type = ''Animation'', res_name = name, step = 1 / 10, anim_length = 0,
      track_count = 0, tracks = []\<rparr>"

definition add_track ::
  "'v mathutils \<Rightarrow> int \<Rightarrow> 'v animation_resource \<Rightarrow> 'v track
   \<Rightarrow> py_error + 'v animation_resource" where
  "add_track mx fps self t =
     (case py_truediv (frame_end t) fps of
        Inl e \<Rightarrow> Inl e
      | Inr track_length \<Rightarrow>
          (let self1 = (if track_length > anim_length self
                        then self\<lparr>anim_length := track_length\<rparr> else self);
               track_id = track_count self1;
               self2 = self1\<lparr>track_count := track_count self1 + 1\<rparr>;
               entry = \<lparr>e_type = ''\"'' @ ttype t @ ''\"'', e_path = tpath t,
                        e_interp = interp t, e_keys = None\<rparr>
           in if ttype t = ''transform'' then
                (case transform_frames_to_keys mx fps (frames t) (tvalues t) (interp t) of
                   Inl e \<Rightarrow> Inl e
                 | Inr ks \<Rightarrow>
                     Inr (self2\<lparr>tracks :=
                       AList.update track_id (entry\<lparr>e_keys := Some ks\<rparr>) (tracks self2)\<rparr>))
              else if ttype t = ''value'' then
                (case value_frames_to_keys mx fps (frames t) (tvalues t) (interp t) of
                   Inl e \<Rightarrow> Inl e
                 | Inr ks \<Rightarrow>
                     Inr (self2\<lparr>tracks :=
                       AList.update track_id (entry\<lparr>e_keys := Some ks\<rparr>) (tracks self2)\<rparr>))
              else Inr (self2\<lparr>tracks := AList.update track_id entry (tracks self2)\<rparr>)))"

text \<open>A sequence of \<open>add_track\<close> calls on one resource; an exception ends it.\<close>

fun add_tracks ::
  "'v mathutils \<Rightarrow> int \<Rightarrow> 'v animation_resource \<Rightarrow> 'v track list
   \<Rightarrow> py_error + 'v animation_resource" where
  "add_tracks mx fps self [] = Inr self"
| "add_tracks mx fps self (t # ts) =
     (case add_track mx fps self t of
        Inl e \<Rightarrow> Inl e
      | Inr self' \<Rightarrow> add_tracks mx fps self' ts)"

section \<open>What the claims speak of\<close>

text \<open>
  Definitions that follow the wording of the specification, for comparison with the code:
  the indices a serialiser keeps, the keyframes it emits, and the time of a track's last
  frame. \<open>stub_mathutils\<close> stands in for the matrix library in closed examples; its
  \<open>==\<close> is equality.
\<close>

definition kept :: "'v mathutils \<Rightarrow> nat \<Rightarrow> 'v list \<Rightarrow> nat \<Rightarrow> bool" where
  "kept mx ip value_list index \<longleftrightarrow>
     \<not> (ip = LINEAR_INTERPOLATION \<and> index > 0 \<and>
        values_equal mx (value_list ! index) (value_list ! (index - 1)))"

definition emitted_indices :: "'v mathutils \<Rightarrow> nat \<Rightarrow> 'v list \<Rightarrow> nat \<Rightarrow> nat list" where
  "emitted_indices mx ip value_list n = filter (kept mx ip value_list) [0..<n]"

definition emitted_keyframes ::
  "'v mathutils \<Rightarrow> nat \<Rightarrow> int list \<Rightarrow> 'v list \<Rightarrow> (int \<times> 'v) list" where
  "emitted_keyframes mx ip frame_list value_list =
     map (\<lambda>i. (frame_list ! i, value_list ! i))
       (emitted_indices mx ip value_list (length frame_list))"

definition last_frame_time :: "int \<Rightarrow> 'v track \<Rightarrow> rat" where
  "last_frame_time fps t = of_int (frame_end t) / of_int fps"

definition stub_mathutils :: "'v mathutils" where
  "stub_mathutils =
     \<lparr>fix_matrix = (\<lambda>m. m),
      to_translation = (\<lambda>m. \<lparr>vx = 0, vy = 0, vz = 0\<rparr>),
      to_quaternion = (\<lambda>m. \<lparr>qw = 1, qx = 0, qy = 0, qz = 0\<rparr>),
      to_scale = (\<lambda>m. \<lparr>vx = 1, vy = 1, vz = 1\<rparr>),
      values_equal = (=)\<rparr>"

text \<open>
  A comparison with a tolerance, for closed examples: two values are equal when they are
  at most one step apart. The values are integers here, standing for the positions of
  floats in their order; the library compares the entries of two matrices or colours in
  this way, up to one unit in the last place. Such a comparison is not transitive.
\<close>

definition close_values :: "int \<Rightarrow> int \<Rightarrow> bool" where
  "close_values a b \<longleftrightarrow> \<bar>a - b\<bar> \<le> 1"

definition tolerant_mathutils :: "int mathutils" where
  "tolerant_mathutils = stub_mathutils\<lparr>values_equal := close_values\<rparr>"

definition example_path :: node_path where
  "example_path = NodePath ''.'' ''Cube'' ''''"

section \<open>Matrices\<close>

text \<open>
  A matrix is the list of its rows. \<open>a * b\<close> on two matrices is the matrix product of the
  library the file was written for (Blender 2.79), \<open>Matrix.Translation\<close> and \<open>to_4x4\<close> are
  the library's constructors. The conversions between rotations and matrices are left to
  the library, in \<open>transform_lib\<close>.
\<close>

type_synonym mat = "rat list list"

datatype mat3 = Mat3 rat rat rat rat rat rat rat rat rat

definition mat_mul :: "mat \<Rightarrow> mat \<Rightarrow> mat" where
  "mat_mul a b = map (\<lambda>row. map (\<lambda>col. sum_list (map2 (*) row col)) (transpose b)) a"

definition Translation :: "vec3 \<Rightarrow> mat" where
  "Translation v = [[1, 0, 0, vx v], [0, 1, 0, vy v], [0, 0, 1, vz v], [0, 0, 0, 1]]"

fun to_4x4 :: "mat3 \<Rightarrow> mat" where
  "to_4x4 (Mat3 a b c d e f g h i) =
     [[a, b, c, 0], [d, e, f, 0], [g, h, i, 0], [0, 0, 0, 1]]"

record euler =
  order :: string
  ex :: rat
  ey :: rat
  ez :: rat

record transform_lib =
  mat_to_euler :: "mat \<Rightarrow> string \<Rightarrow> euler"
  quaternion_to_matrix :: "quat \<Rightarrow> mat3"
  euler_to_matrix :: "euler \<Rightarrow> mat3"
  fix_directional_transform :: "mat \<Rightarrow> mat"

text \<open>Assignment to one component, \<open>v[i] = x\<close>; a quaternion is indexed w, x, y, z.\<close>

definition vec3_set :: "vec3 \<Rightarrow> nat \<Rightarrow> rat \<Rightarrow> py_error + vec3" where
  "vec3_set v i x =
     (if i = 0 then Inr (v\<lparr>vx := x\<rparr>) else if i = 1 then Inr (v\<lparr>vy := x\<rparr>)
      else if i = 2 then Inr (v\<lparr>vz := x\<rparr>) else Inl IndexError)"

definition quat_set :: "quat \<Rightarrow> nat \<Rightarrow> rat \<Rightarrow> py_error + quat" where
  "quat_set q i x =
     (if i = 0 then Inr (q\<lparr>qw := x\<rparr>) else if i = 1 then Inr (q\<lparr>qx := x\<rparr>)
      else if i = 2 then Inr (q\<lparr>qy := x\<rparr>) else if i = 3 then Inr (q\<lparr>qz := x\<rparr>)
      else Inl IndexError)"

definition euler_set :: "euler \<Rightarrow> nat \<Rightarrow> rat \<Rightarrow> py_error + euler" where
  "euler_set v i x =
     (if i = 0 then Inr (v\<lparr>ex := x\<rparr>) else if i = 1 then Inr (v\<lparr>ey := x\<rparr>)
      else if i = 2 then Inr (v\<lparr>ez := x\<rparr>) else Inl IndexError)"

section \<open>Transform frames\<close>

record transform_frame =
  location :: vec3
  scale :: vec3
  rotation_mode :: string
  rotation_quaternion :: quat
  rotation_euler :: euler

definition ATTRIBUTES :: "string set" where
  "ATTRIBUTES = {''location'', ''scale'', ''rotation_quaternion'', ''rotation_euler''}"

definition TransformFrame ::
  "mat mathutils \<Rightarrow> transform_lib \<Rightarrow> mat \<Rightarrow> string \<Rightarrow> transform_frame" where
  "TransformFrame mx lib default_transform mode =
     \<lparr>location = to_translation mx default_transform,
      scale = to_scale mx default_transform,
      rotation_mode = mode,
      rotation_quaternion = to_quaternion mx default_transform,
      rotation_euler =
        (if mode = ''QUATERNION'' then mat_to_euler lib default_transform ''XYZ''
         else mat_to_euler lib default_transform mode)\<rparr>"

definition update :: "transform_frame \<Rightarrow> string \<Rightarrow> nat \<Rightarrow> rat \<Rightarrow> py_error + transform_frame" where
  "update self attribute array_index v =
     (if attribute = ''location'' then
        map_sum id (\<lambda>l. self\<lparr>location := l\<rparr>) (vec3_set (location self) array_index v)
      else if attribute = ''scale'' then
        map_sum id (\<lambda>l. self\<lparr>scale := l\<rparr>) (vec3_set (scale self) array_index v)
      else if attribute = ''rotation_quaternion'' then
        map_sum id (\<lambda>q. self\<lparr>rotation_quaternion := q\<rparr>)
          (quat_set (rotation_quaternion self) array_index v)
      else if attribute = ''rotation_euler'' then
        map_sum id (\<lambda>e. self\<lparr>rotation_euler := e\<rparr>)
          (euler_set (rotation_euler self) array_index v)
      else Inr self)"

definition to_matrix :: "transform_lib \<Rightarrow> transform_frame \<Rightarrow> mat" where
  "to_matrix lib self =
     (let rot_mat =
            (if rotation_mode self = ''QUATERNION''
             then to_4x4 (quaternion_to_matrix lib (rotation_quaternion self))
             else to_4x4 (euler_to_matrix lib (rotation_euler self)));
          loc_mat = Translation (location self);
          sca_mat = to_4x4 (Mat3 (vx (scale self)) 0 0
                                 0 (vy (scale self)) 0
                                 0 0 (vz (scale self)))
      in mat_mul (mat_mul loc_mat rot_mat) sca_mat)"

section \<open>Curves, actions and the objects they animate\<close>

record fcurve =
  data_path :: string
  array_index :: nat
  evaluate :: "int \<Rightarrow> rat"

record action =
  action_name :: string
  frame_range :: "rat \<times> rat"
  fcurves :: "fcurve list"

record pose_bone =
  bone_name :: string
  bone_matrix_basis :: mat
  bone_rotation_mode :: string
  bone_constraints :: "string list"

text \<open>
  What the exporters read of a Blender object: \<open>pose_bones\<close> is \<open>None\<close> when the object has
  no pose, \<open>is_object\<close> and \<open>is_armature\<close> are the two \<open>isinstance\<close> tests of the constraint
  checks.
\<close>

record blender_object =
  object_name :: string
  is_object :: bool
  is_armature :: bool
  matrix_basis :: mat
  object_rotation_mode :: string
  matrix_parent_inverse :: mat
  constraints :: "string list"
  pose_bones :: "pose_bone list option"

text \<open>
  What the exporters read of the Godot node: its type and path, its parent's type (\<open>None\<close>
  at the root), and the two bone lookups of a skeleton node.
\<close>

record godot_node =
  get_type :: string
  get_path :: string
  parent_type :: "string option"
  find_bone_id :: "string \<Rightarrow> int"
  find_bone_name :: "string \<Rightarrow> string"

section \<open>Curve paths\<close>

definition startswith :: "string \<Rightarrow> string \<Rightarrow> bool" where
  "startswith s prefix \<longleftrightarrow> take (length prefix) s = prefix"

text \<open>\<open>data_path.rsplit('.', 1)\<close>: split at the last full stop, if there is one.\<close>

definition split_fcurve_data_path :: "string \<Rightarrow> string \<times> string" where
  "split_fcurve_data_path path =
     (let r = rev path;
          attribute = takeWhile (\<lambda>c. c \<noteq> CHR ''.'') r;
          rest = dropWhile (\<lambda>c. c \<noteq> CHR ''.'') r
      in if rest = [] then ('''', path) else (rev (tl rest), rev attribute))"

text \<open>
  The regular expression \<open>pose.bones\["([^"]+)"\]\<close> matched at the head of a string: the
  word \<open>pose\<close>, any character but a newline, \<open>bones["\<close>, the longest run of characters other
  than a double quote (at least one), and \<open>"]\<close>. \<open>re.search\<close> tries every position from the
  left; \<open>.group(1)\<close> on a failed search raises \<open>AttributeError\<close>.
\<close>

definition match_bone :: "string \<Rightarrow> string option" where
  "match_bone s =
     (if take 4 s = ''pose'' \<and> 4 < length s \<and> s ! 4 \<noteq> CHR 0x0A
         \<and> take 7 (drop 5 s) = ''bones[\"''
      then (let rest = drop 12 s;
                bone = takeWhile (\<lambda>c. c \<noteq> CHR ''\"'') rest;
                after = dropWhile (\<lambda>c. c \<noteq> CHR ''\"'') rest
            in if bone \<noteq> [] \<and> take 2 after = ''\"]'' then Some bone else None)
      else None)"

fun search_bone :: "string \<Rightarrow> string option" where
  "search_bone [] = match_bone []"
| "search_bone (c # s) =
     (case match_bone (c # s) of Some bone \<Rightarrow> Some bone | None \<Rightarrow> search_bone s)"

definition blender_path_to_bone_name :: "string \<Rightarrow> py_error + string" where
  "blender_path_to_bone_name blender_object_path =
     (case search_bone blender_object_path of
        None \<Rightarrow> Inl AttributeError
      | Some bone \<Rightarrow> Inr bone)"

text \<open>\<open>int(x)\<close> on a float rounds towards zero.\<close>

definition py_int :: "rat \<Rightarrow> int" where
  "py_int x = (if 0 \<le> x then \<lfloor>x\<rfloor> else \<lceil>x\<rceil>)"

definition get_action_frame_range :: "action \<Rightarrow> int \<times> int" where
  "get_action_frame_range a =
     (py_int (fst (frame_range a)), py_int (snd (frame_range a)) + 1)"

section \<open>Exporting a transform action\<close>

text \<open>
  \<open>bones.find(name)\<close> is the index of the bone of that name or -1, and \<open>bones[i]\<close> counts a
  negative index from the end.
\<close>

fun find_index_of :: "string \<Rightarrow> pose_bone list \<Rightarrow> nat \<Rightarrow> int" where
  "find_index_of bname [] i = - 1"
| "find_index_of bname (b # bs) i =
     (if bone_name b = bname then int i else find_index_of bname bs (Suc i))"

definition py_getitem :: "'a list \<Rightarrow> int \<Rightarrow> py_error + 'a" where
  "py_getitem xs i =
     (let n = int (length xs); j = (if i < 0 then n + i else i)
      in if 0 \<le> j \<and> j < n then Inr (xs ! nat j) else Inl IndexError)"

definition skip_bone_warning :: "blender_object \<Rightarrow> string" where
  "skip_bone_warning blender_obj =
     ''Skip a bone fcurve in a non-armature object '' @ [CHR 0x27] @ object_name blender_obj
       @ [CHR 0x27]"

text \<open>
  The result of \<open>init_transform_frame_values\<close> is the list of frames, or \<open>None\<close>, together
  with the warnings it logged.
\<close>

definition init_transform_frame_values ::
  "mat mathutils \<Rightarrow> transform_lib \<Rightarrow> string \<Rightarrow> blender_object \<Rightarrow> godot_node \<Rightarrow> int \<Rightarrow> int
   \<Rightarrow> py_error + (transform_frame list option \<times> string list)" where
  "init_transform_frame_values mx lib object_path blender_obj node first_frame last_frame =
     (if startswith object_path ''pose'' then
        (case blender_path_to_bone_name object_path of
           Inl e \<Rightarrow> Inl e
         | Inr bname \<Rightarrow>
             if get_type node \<noteq> ''Skeleton'' then
               Inr (None, [skip_bone_warning blender_obj])
             else if find_bone_id node bname = - 1 then Inr (None, [])
             else
               (case pose_bones blender_obj of
                  None \<Rightarrow> Inl AttributeError
                | Some bones \<Rightarrow>
                    (case py_getitem bones (find_index_of bname bones 0) of
                       Inl e \<Rightarrow> Inl e
                     | Inr pbone \<Rightarrow>
                         Inr (Some (replicate (nat (last_frame - first_frame))
                                (TransformFrame mx lib (bone_matrix_basis pbone)
                                   (bone_rotation_mode pbone))), []))))
      else
        Inr (Some (replicate (nat (last_frame - first_frame))
               (TransformFrame mx lib (matrix_basis blender_obj)
                  (object_rotation_mode blender_obj))), []))"

text \<open>
  \<open>for frame in range(first_frame, last_frame): frames[frame - first_frame].update(...)\<close>,
  over the offsets \<open>frame - first_frame\<close>.
\<close>

fun update_each ::
  "fcurve \<Rightarrow> string \<Rightarrow> int \<Rightarrow> nat list \<Rightarrow> transform_frame list
   \<Rightarrow> py_error + transform_frame list" where
  "update_each fc attribute first_frame [] frame_values = Inr frame_values"
| "update_each fc attribute first_frame (k # ks) frame_values =
     (case py_index frame_values k of
        Inl e \<Rightarrow> Inl e
      | Inr f \<Rightarrow>
          (case update f attribute (array_index fc) (evaluate fc (first_frame + int k)) of
             Inl e \<Rightarrow> Inl e
           | Inr f' \<Rightarrow> update_each fc attribute first_frame ks (frame_values[k := f'])))"

type_synonym frame_values_map = "(string \<times> transform_frame list) list"

text \<open>
  The first loop of \<open>export_transform_action\<close>, over the curves of the action. The ordered
  dictionary is an association list in insertion order; the warnings logged so far are
  carried along.
\<close>

definition evaluate_fcurve ::
  "fcurve \<Rightarrow> string \<Rightarrow> string \<Rightarrow> int \<Rightarrow> int \<Rightarrow> frame_values_map
   \<Rightarrow> py_error + frame_values_map" where
  "evaluate_fcurve fc object_path attribute first_frame last_frame m =
     (case map_of m object_path of
        None \<Rightarrow> Inl KeyError
      | Some frame_values \<Rightarrow>
          (case update_each fc attribute first_frame [0..<nat (last_frame - first_frame)]
                  frame_values of
             Inl e \<Rightarrow> Inl e
           | Inr frame_values' \<Rightarrow> Inr (AList.update object_path frame_values' m)))"

fun collect_frame_values ::
  "mat mathutils \<Rightarrow> transform_lib \<Rightarrow> blender_object \<Rightarrow> godot_node \<Rightarrow> int \<Rightarrow> int
   \<Rightarrow> fcurve list \<Rightarrow> frame_values_map \<times> string list
   \<Rightarrow> py_error + (frame_values_map \<times> string list)" where
  "collect_frame_values mx lib blender_obj node first_frame last_frame [] state = Inr state"
| "collect_frame_values mx lib blender_obj node first_frame last_frame (fc # rest) (m, logged) =
     (case split_fcurve_data_path (data_path fc) of
        (object_path, attribute) \<Rightarrow>
          if map_of m object_path = None \<and> attribute \<in> ATTRIBUTES then
            (case init_transform_frame_values mx lib object_path blender_obj node
                    first_frame last_frame of
               Inl e \<Rightarrow> Inl e
             | Inr (frame_values, warnings) \<Rightarrow>
                 if frame_values = None \<or> frame_values = Some [] then
                   collect_frame_values mx lib blender_obj node first_frame last_frame rest
                     (m, logged @ warnings)
                 else
                   (case evaluate_fcurve fc object_path attribute first_frame last_frame
                           (AList.update object_path (the frame_values) m) of
                      Inl e \<Rightarrow> Inl e
                    | Inr m' \<Rightarrow>
                        collect_frame_values mx lib blender_obj node first_frame last_frame
                          rest (m', logged @ warnings)))
          else if attribute \<in> ATTRIBUTES then
            (case evaluate_fcurve fc object_path attribute first_frame last_frame m of
               Inl e \<Rightarrow> Inl e
             | Inr m' \<Rightarrow>
                 collect_frame_values mx lib blender_obj node first_frame last_frame rest
                   (m', logged))
          else
            collect_frame_values mx lib blender_obj node first_frame last_frame rest
              (m, logged))"

text \<open>
  The second loop, over the entries of the dictionary. \<open>track_path\<close> and
  \<open>transform_mtx_list\<close> are assigned in the two branches only; for any other object path
  they keep the values of the previous round (\<open>bound\<close>), or are unbound in the first.
  In the \<open>BoneAttachment\<close> branch the source multiplies a matrix by the method
  \<open>x.to_matrix\<close> without calling it, which raises \<open>TypeError\<close>.
\<close>

fun emit_tracks ::
  "mat mathutils \<Rightarrow> transform_lib \<Rightarrow> int \<Rightarrow> godot_node \<Rightarrow> string \<Rightarrow> blender_object
   \<Rightarrow> int \<Rightarrow> int \<Rightarrow> frame_values_map \<Rightarrow> (node_path \<times> mat list) option
   \<Rightarrow> mat animation_resource \<Rightarrow> py_error + mat animation_resource" where
  "emit_tracks mx lib fps node player_parent_path blender_obj first_frame last_frame []
     bound res = Inr res"
| "emit_tracks mx lib fps node player_parent_path blender_obj first_frame last_frame
     ((object_path, frame_value_list) # rest) bound res =
     (case
        (if object_path = '''' then
           (case parent_type node of
              None \<Rightarrow> Inl AttributeError
            | Some ptype \<Rightarrow>
                (case (if ptype = ''BoneAttachment'' then
                         (if frame_value_list = [] then Inr [] else Inl TypeError)
                       else
                         Inr (map (\<lambda>x. mat_mul (matrix_parent_inverse blender_obj)
                                          (to_matrix lib x)) frame_value_list)) of
                   Inl e \<Rightarrow> Inl e
                 | Inr transform_mtx_list \<Rightarrow>
                     Inr (NodePath player_parent_path (get_path node) '''',
                          if get_type node \<in> {''SpotLight'', ''DirectionalLight'', ''Camera''}
                          then map (fix_directional_transform lib) transform_mtx_list
                          else transform_mtx_list)))
         else if startswith object_path ''pose'' then
           (case blender_path_to_bone_name object_path of
              Inl e \<Rightarrow> Inl e
            | Inr bname \<Rightarrow>
                Inr (NodePath player_parent_path (get_path node) (find_bone_name node bname),
                     map (to_matrix lib) frame_value_list))
         else
           (case bound of None \<Rightarrow> Inl UnboundLocalError | Some b \<Rightarrow> Inr b)) of
        Inl e \<Rightarrow> Inl e
      | Inr (track_path, transform_mtx_list) \<Rightarrow>
          (case add_track mx fps res
                  (Track ''transform'' track_path [first_frame..last_frame - 1]
                     transform_mtx_list) of
             Inl e \<Rightarrow> Inl e
           | Inr res' \<Rightarrow>
               emit_tracks mx lib fps node player_parent_path blender_obj first_frame
                 last_frame rest (Some (track_path, transform_mtx_list)) res'))"

text \<open>
  The exporter returns the resource with the tracks added and the warnings logged.
  \<open>player_parent_path\<close> is \<open>animation_player.parent.get_path()\<close>.
\<close>

definition export_transform_action ::
  "mat mathutils \<Rightarrow> transform_lib \<Rightarrow> int \<Rightarrow> godot_node \<Rightarrow> string \<Rightarrow> blender_object
   \<Rightarrow> action \<Rightarrow> mat animation_resource
   \<Rightarrow> py_error + (mat animation_resource \<times> string list)" where
  "export_transform_action mx lib fps node player_parent_path blender_obj act res =
     (case get_action_frame_range act of
        (first_frame, last_frame) \<Rightarrow>
          (case collect_frame_values mx lib blender_obj node first_frame last_frame
                  (fcurves act) ([], []) of
             Inl e \<Rightarrow> Inl e
           | Inr (m, logged) \<Rightarrow>
               (case emit_tracks mx lib fps node player_parent_path blender_obj first_frame
                       last_frame m None res of
                  Inl e \<Rightarrow> Inl e
                | Inr res' \<Rightarrow> Inr (res', logged))))"

section \<open>Example data\<close>

definition stub_transform_lib :: transform_lib where
  "stub_transform_lib =
     \<lparr>mat_to_euler = (\<lambda>m ord. \<lparr>order = ord, ex = 0, ey = 0, ez = 0\<rparr>),
      quaternion_to_matrix = (\<lambda>q. Mat3 1 0 0 0 1 0 0 0 1),
      euler_to_matrix = (\<lambda>e. Mat3 1 0 0 0 1 0 0 0 1),
      fix_directional_transform = (\<lambda>m. m)\<rparr>"

definition identity_matrix :: mat where
  "identity_matrix = [[1, 0, 0, 0], [0, 1, 0, 0], [0, 0, 1, 0], [0, 0, 0, 1]]"

definition example_object :: blender_object where
  "example_object =
     \<lparr>object_name = ''Cube'', is_object = True, is_armature = False,
      matrix_basis = identity_matrix, object_rotation_mode = ''QUATERNION'',
      matrix_parent_inverse = identity_matrix, constraints = [], pose_bones = None\<rparr>"

definition example_spatial :: godot_node where
  "example_spatial =
     \<lparr>get_type = ''Spatial'', get_path = ''Cube'', parent_type = Some ''Spatial'',
      find_bone_id = (\<lambda>b. - 1), find_bone_name = (\<lambda>b. b)\<rparr>"

definition example_skeleton :: godot_node where
  "example_skeleton =
     \<lparr>get_type = ''Skeleton'', get_path = ''Armature'', parent_type = Some ''Spatial'',
      find_bone_id = (\<lambda>b. - 1), find_bone_name = (\<lambda>b. b)\<rparr>"

definition example_bone_action :: action where
  "example_bone_action =
     \<lparr>action_name = ''Wave'', frame_range = (1, 2),
      fcurves = [\<lparr>data_path = ''pose.bones[\"Arm\"].location'', array_index = 0,
                  evaluate = (\<lambda>frame. of_int frame)\<rparr>]\<rparr>"

section \<open>The scene tree and the output file\<close>

text \<open>
  A Godot node with its type, its name, the two properties an animation player carries
  (\<open>default_animation\<close>, an index into the file's resources, and the \<open>anims/...\<close> entries)
  and its children. A reference to a node is the path from the node up to the root: the
  index of the node among its parent's children, then the reference of the parent; the
  root is \<open>[]\<close>, and \<open>node.parent\<close> is the tail.
\<close>

datatype scene_node =
  SceneNode (sn_type: string) (sn_name: string) (default_animation: "nat option")
    (anims: "(string \<times> nat) list") (children: "scene_node list")

type_synonym node_ref = "nat list"

fun node_at :: "scene_node \<Rightarrow> node_ref \<Rightarrow> scene_node option" where
  "node_at scene [] = Some scene"
| "node_at scene (i # parent) =
     (case node_at scene parent of
        None \<Rightarrow> None
      | Some p \<Rightarrow> if i < length (children p) then Some (children p ! i) else None)"

definition set_child :: "nat \<Rightarrow> (scene_node \<Rightarrow> scene_node) \<Rightarrow> scene_node \<Rightarrow> scene_node" where
  "set_child i f p =
     SceneNode (sn_type p) (sn_name p) (default_animation p) (anims p)
       ((children p)[i := f (children p ! i)])"

fun update_at :: "scene_node \<Rightarrow> node_ref \<Rightarrow> (scene_node \<Rightarrow> scene_node) \<Rightarrow> scene_node" where
  "update_at scene [] f = f scene"
| "update_at scene (i # parent) f = update_at scene parent (set_child i f)"

definition add_child :: "scene_node \<Rightarrow> scene_node \<Rightarrow> scene_node" where
  "add_child child p =
     SceneNode (sn_type p) (sn_name p) (default_animation p) (anims p) (children p @ [child])"

record 'v escn_file =
  tree :: scene_node
  nodes :: "node_ref list"
  internal_resources :: "'v animation_resource list"

text \<open>
  Modelled from the spec: the constructor of \<open>NodeTemplate\<close> (module \<open>structures\<close>), which
  \<open>AnimationPlayer.__init__\<close> calls, is not in the source. A scope is "attached" to its
  parent and is found again among the parent's children, so the constructor is taken to
  append the new node to the children of its parent. \<open>escn_file.add_node\<close> is taken to
  record the node in the file.
\<close>

definition AnimationPlayer :: "string \<Rightarrow> scene_node" where
  "AnimationPlayer name = SceneNode ''AnimationPlayer'' name None [] []"

definition add_node :: "'v escn_file \<Rightarrow> node_ref \<Rightarrow> 'v escn_file" where
  "add_node escn ref = escn\<lparr>nodes := nodes escn @ [ref]\<rparr>"

text \<open>
  Modelled from the spec: \<open>escn_file.force_add_internal_resource\<close> is not in the source. It
  "registers a resource into the output document" without looking for an equal one and
  "returns a stable reference": the resource is appended and its number returned.
\<close>

definition force_add_internal_resource ::
  "'v escn_file \<Rightarrow> 'v animation_resource \<Rightarrow> nat \<times> 'v escn_file" where
  "force_add_internal_resource escn res =
     (Suc (length (internal_resources escn)),
      escn\<lparr>internal_resources := internal_resources escn @ [res]\<rparr>)"

section \<open>Choosing the animation player\<close>

text \<open>\<open>for child in children: if child.get_type() == 'AnimationPlayer': ...; break\<close>\<close>

fun find_player_from :: "nat \<Rightarrow> scene_node list \<Rightarrow> nat option" where
  "find_player_from i [] = None"
| "find_player_from i (child # rest) =
     (if sn_type child = ''AnimationPlayer'' then Some i else find_player_from (Suc i) rest)"

text \<open>\<open>while node_ptr.parent is not None: node_ptr = node_ptr.parent\<close>\<close>

fun scene_root_of :: "node_ref \<Rightarrow> node_ref" where
  "scene_root_of [] = []"
| "scene_root_of (i # parent) = scene_root_of parent"

text \<open>
  The loop of the third mode: look among the children of the node, then of its parent,
  and so on up to the root.
\<close>

fun search_up :: "scene_node \<Rightarrow> node_ref \<Rightarrow> py_error + node_ref option" where
  "search_up scene [] =
     (case find_player_from 0 (children scene) of
        Some i \<Rightarrow> Inr (Some [i])
      | None \<Rightarrow> Inr None)"
| "search_up scene (k # parent) =
     (case node_at scene (k # parent) of
        None \<Rightarrow> Inl ReferenceError
      | Some n \<Rightarrow>
          (case find_player_from 0 (children n) of
             Some i \<Rightarrow> Inr (Some (i # k # parent))
           | None \<Rightarrow> search_up scene parent))"

definition get_animation_player ::
  "'v escn_file \<Rightarrow> string \<Rightarrow> node_ref \<Rightarrow> py_error + (node_ref \<times> 'v escn_file)" where
  "get_animation_player escn animation_modes node =
     (case
        (if animation_modes = ''ACTIONS'' then Inr (node, None)
         else if animation_modes = ''SCENE_ANIMATION'' then
           (let scene_root = scene_root_of node
            in case node_at (tree escn) scene_root of
                 None \<Rightarrow> Inl ReferenceError
               | Some r \<Rightarrow>
                   Inr (scene_root,
                        map_option (\<lambda>i. i # scene_root) (find_player_from 0 (children r))))
         else
           (case search_up (tree escn) node of
              Inl e \<Rightarrow> Inl e
            | Inr found \<Rightarrow> Inr (node, found))) of
        Inl e \<Rightarrow> Inl e
      | Inr (animation_base, Some animation_player) \<Rightarrow> Inr (animation_player, escn)
      | Inr (animation_base, None) \<Rightarrow>
          (case node_at (tree escn) animation_base of
             None \<Rightarrow> Inl ReferenceError
           | Some base \<Rightarrow>
               (let animation_player = length (children base) # animation_base
                in Inr (animation_player,
                        add_node
                          (escn\<lparr>tree := update_at (tree escn) animation_base
                                            (add_child (AnimationPlayer ''AnimationPlayer''))\<rparr>)
                          animation_player))))"

section \<open>What the claims speak of: players\<close>

fun count_players :: "scene_node \<Rightarrow> nat" where
  "count_players (SceneNode t n d a cs) =
     (if t = ''AnimationPlayer'' then 1 else 0) + sum_list (map count_players cs)"

definition has_player :: "scene_node \<Rightarrow> bool" where
  "has_player n \<longleftrightarrow> list_ex (\<lambda>c. sn_type c = ''AnimationPlayer'') (children n)"

fun ancestors_and_self :: "node_ref \<Rightarrow> node_ref list" where
  "ancestors_and_self [] = [[]]"
| "ancestors_and_self (i # parent) = (i # parent) # ancestors_and_self parent"

text \<open>
  The search path of a mode, as the specification describes it: the node itself for
  per-object export, the root for the scene-wide player, the node and its ancestors for
  the nearest player.
\<close>

definition search_path :: "string \<Rightarrow> node_ref \<Rightarrow> node_ref list" where
  "search_path animation_modes node =
     (if animation_modes = ''ACTIONS'' then [node]
      else if animation_modes = ''SCENE_ANIMATION'' then [[]]
      else ancestors_and_self node)"

definition player_on_path :: "scene_node \<Rightarrow> string \<Rightarrow> node_ref \<Rightarrow> bool" where
  "player_on_path scene animation_modes node \<longleftrightarrow>
     list_ex (\<lambda>q. case node_at scene q of None \<Rightarrow> False | Some n \<Rightarrow> has_player n)
       (search_path animation_modes node)"

definition example_tree :: scene_node where
  "example_tree =
     SceneNode ''Spatial'' ''Scene'' None []
       [SceneNode ''Spatial'' ''Armature'' None []
          [SceneNode ''MeshInstance'' ''Cube'' None [] []]]"

definition example_escn :: "'v escn_file" where
  "example_escn = \<lparr>tree = example_tree, nodes = [], internal_resources = []\<rparr>"

definition example_escn_with_player :: "'v escn_file" where
  "example_escn_with_player =
     \<lparr>tree =
        SceneNode ''Spatial'' ''Scene'' None []
          [SceneNode ''Spatial'' ''Armature'' None []
             [SceneNode ''MeshInstance'' ''Cube'' None []
                [SceneNode ''AnimationPlayer'' ''AnimationPlayer'' None [] []]]],
      nodes = [[0, 0, 0]], internal_resources = []\<rparr>"

definition example_escn_two_players :: "'v escn_file" where
  "example_escn_two_players =
     \<lparr>tree =
        SceneNode ''Spatial'' ''Scene'' None []
          [SceneNode ''Spatial'' ''Armature'' None []
             [SceneNode ''MeshInstance'' ''Cube'' None []
                [SceneNode ''AnimationPlayer'' ''AnimationPlayer'' None [] [],
                 SceneNode ''AnimationPlayer'' ''AnimationPlayer'' None [] []]]],
      nodes = [[0, 0, 0], [1, 0, 0]], internal_resources = []\<rparr>"

section \<open>Blender's data and the baking library\<close>

text \<open>
  The part of Blender's state the dispatcher reads and writes: the actions of
  \<open>bpy.data.actions\<close>, each under a number that stands for the Python object; the
  animation data of the object being exported (\<open>None\<close> when it has none), with its active
  action and, for every NLA track, the actions of its strips; and the active object of the
  scene.
\<close>

record anim_data =
  ad_action :: "nat option"
  nla_tracks :: "nat option list list"

record blender_data =
  actions :: "nat \<Rightarrow> action option"
  animation_data :: "anim_data option"
  active_object :: "string option"

text \<open>The arguments of one call of \<open>bpy_extras.anim_utils.bake_action\<close>.\<close>

record bake_call =
  bc_obj :: "string option"
  bc_frame_start :: int
  bc_frame_end :: int
  bc_frame_step :: int
  bc_only_selected :: bool
  bc_action :: "nat option"
  bc_do_pose :: bool
  bc_do_object :: bool
  bc_do_visual_keying :: bool

text \<open>
  Blender's own library is not part of the repository and is a parameter: whether the
  version is at most 2.79, \<open>bake_action\<close>, which returns the action baked into and may
  change Blender's state in any way, and \<open>bpy.data.actions.remove\<close>.
\<close>

record bpy_library =
  version_le_2_79 :: bool
  bake_action :: "bake_call \<Rightarrow> blender_data \<Rightarrow> py_error + (nat \<times> blender_data)"
  actions_remove :: "nat \<Rightarrow> blender_data \<Rightarrow> py_error + blender_data"

text \<open>
  The state threaded through the dispatcher: Blender's data, and the calls of
  \<open>bake_action\<close> made so far, each with the state it was made in.
\<close>

record world =
  bpy :: blender_data
  trace :: "(bake_call \<times> blender_data) list"

definition has_object_constraint :: "blender_object \<Rightarrow> bool" where
  "has_object_constraint blender_obj =
     (if is_object blender_obj then (if constraints blender_obj \<noteq> [] then True else False)
      else False)"

definition has_pose_constraint :: "blender_object \<Rightarrow> py_error + bool" where
  "has_pose_constraint blender_obj =
     (if is_object blender_obj \<and> is_armature blender_obj then
        (case pose_bones blender_obj of
           None \<Rightarrow> Inl AttributeError
         | Some bones \<Rightarrow> Inr (list_ex (\<lambda>pbone. bone_constraints pbone \<noteq> []) bones))
      else Inr False)"

definition lookup_action :: "blender_data \<Rightarrow> nat \<Rightarrow> py_error + action" where
  "lookup_action s a = (case actions s a of None \<Rightarrow> Inl ReferenceError | Some act \<Rightarrow> Inr act)"

definition set_action_name :: "nat \<Rightarrow> string \<Rightarrow> blender_data \<Rightarrow> py_error + blender_data" where
  "set_action_name a new_name s =
     (case actions s a of
        None \<Rightarrow> Inl ReferenceError
      | Some act \<Rightarrow> Inr (s\<lparr>actions := (actions s)(a \<mapsto> act\<lparr>action_name := new_name\<rparr>)\<rparr>))"

text \<open>\<open>name[:-len(BAKING_SUFFIX)]\<close>\<close>

definition strip_suffix :: "string \<Rightarrow> string" where
  "strip_suffix s = take (length s - length BAKING_SUFFIX) s"

text \<open>\<open>action.name = action.name + BAKING_SUFFIX\<close> and \<open>action.name = action.name[:-len(BAKING_SUFFIX)]\<close>\<close>

definition add_baking_suffix :: "nat \<Rightarrow> blender_data \<Rightarrow> py_error + blender_data" where
  "add_baking_suffix a s =
     (case lookup_action s a of
        Inl e \<Rightarrow> Inl e
      | Inr act \<Rightarrow> set_action_name a (action_name act @ BAKING_SUFFIX) s)"

definition remove_baking_suffix :: "nat \<Rightarrow> blender_data \<Rightarrow> py_error + blender_data" where
  "remove_baking_suffix a s =
     (case lookup_action s a of
        Inl e \<Rightarrow> Inl e
      | Inr act \<Rightarrow> set_action_name a (strip_suffix (action_name act)) s)"

section \<open>Baking constraints into an action\<close>

definition bake_constraint_to_action ::
  "bpy_library \<Rightarrow> blender_object \<Rightarrow> nat option \<Rightarrow> string \<Rightarrow> bool \<Rightarrow> world
   \<Rightarrow> py_error + (nat option \<times> world)" where
  "bake_constraint_to_action lib blender_obj base_action bake_type in_place w =
     (case
        (case base_action of
           Some a \<Rightarrow>
             (case animation_data (bpy w) of
                None \<Rightarrow> Inl AttributeError
              | Some ad \<Rightarrow>
                  (let s1 = (bpy w)\<lparr>animation_data := Some (ad\<lparr>ad_action := Some a\<rparr>)\<rparr>
                   in case lookup_action s1 a of
                        Inl e \<Rightarrow> Inl e
                      | Inr act \<Rightarrow> Inr (s1, get_action_frame_range act)))
         | None \<Rightarrow> Inr (bpy w, (1, 250))) of
        Inl e \<Rightarrow> Inl e
      | Inr (s1, frame_span) \<Rightarrow>
          (let action_bake_into = (if in_place then base_action else None);
               do_pose = (bake_type = ''POSE'');
               do_object = (\<not> do_pose);
               call = \<lparr>bc_obj = (if version_le_2_79 lib then None
                                  else Some (object_name blender_obj)),
                       bc_frame_start = fst frame_span, bc_frame_end = snd frame_span,
                       bc_frame_step = 1, bc_only_selected = False,
                       bc_action = action_bake_into, bc_do_pose = do_pose,
                       bc_do_object = do_object, bc_do_visual_keying = True\<rparr>;
               s2 = (if version_le_2_79 lib
                     then s1\<lparr>active_object := Some (object_name blender_obj)\<rparr> else s1)
           in case bake_action lib call s2 of
                Inl e \<Rightarrow> Inl e
              | Inr (baked_action, s3) \<Rightarrow>
                  (let s4 = (if version_le_2_79 lib
                             then s3\<lparr>active_object := active_object s1\<rparr> else s3);
                       calls = trace w @ [(call, s2)]
                   in if in_place then Inr (action_bake_into, \<lparr>bpy = s4, trace = calls\<rparr>)
                      else
                        (case (case base_action of
                                 Some a \<Rightarrow>
                                   (case lookup_action s4 a of
                                      Inl e \<Rightarrow> Inl e
                                    | Inr act \<Rightarrow>
                                        set_action_name baked_action
                                          (strip_suffix (action_name act)) s4)
                               | None \<Rightarrow>
                                   set_action_name baked_action
                                     (object_name blender_obj @ ''Action'') s4) of
                           Inl e \<Rightarrow> Inl e
                         | Inr s5 \<Rightarrow> Inr (Some baked_action, \<lparr>bpy = s5, trace = calls\<rparr>)))))"

text \<open>
  \<open>action_baker\<close> of \<open>export_animation_data\<close>; the two flags are the variables
  \<open>has_obj_cst\<close> and \<open>has_pose_cst\<close> of the enclosing function. With neither flag set the
  source leaves \<open>ret\<close> unbound.
\<close>

definition action_baker ::
  "bpy_library \<Rightarrow> blender_object \<Rightarrow> bool \<Rightarrow> bool \<Rightarrow> nat option \<Rightarrow> world
   \<Rightarrow> py_error + (nat option \<times> world)" where
  "action_baker lib blender_obj has_obj_cst has_pose_cst action_to_bake w =
     (if has_obj_cst \<and> has_pose_cst then
        (case bake_constraint_to_action lib blender_obj action_to_bake ''OBJECT'' False w of
           Inl e \<Rightarrow> Inl e
         | Inr (tmp, w1) \<Rightarrow> bake_constraint_to_action lib blender_obj tmp ''POSE'' True w1)
      else if has_pose_cst then
        bake_constraint_to_action lib blender_obj action_to_bake ''POSE'' False w
      else if has_obj_cst then
        bake_constraint_to_action lib blender_obj action_to_bake ''POSE'' False w
      else Inl UnboundLocalError)"

section \<open>Animation players and their resources\<close>

definition set_anim :: "string \<Rightarrow> nat \<Rightarrow> scene_node \<Rightarrow> scene_node" where
  "set_anim resource_name resource_id p =
     SceneNode (sn_type p) (sn_name p) (default_animation p)
       (AList.update resource_name resource_id (anims p)) (children p)"

definition set_default_animation :: "nat \<Rightarrow> scene_node \<Rightarrow> scene_node" where
  "set_default_animation i p =
     SceneNode (sn_type p) (sn_name p) (Some i) (anims p) (children p)"

text \<open>
  \<open>create_animation_resource\<close> returns the new resource, here its index in the file's
  list of resources.
\<close>

definition create_animation_resource ::
  "node_ref \<Rightarrow> 'v escn_file \<Rightarrow> action \<Rightarrow> py_error + (nat \<times> 'v escn_file)" where
  "create_animation_resource self escn act =
     (let resource_name = action_name act;
          new_anim_resource = AnimationResource resource_name
      in case force_add_internal_resource escn new_anim_resource of
           (resource_id, escn1) \<Rightarrow>
             (case node_at (tree escn1) self of
                None \<Rightarrow> Inl ReferenceError
              | Some p \<Rightarrow>
                  Inr (length (internal_resources escn),
                       escn1\<lparr>tree := update_at (tree escn1) self
                                         (set_anim resource_name resource_id)\<rparr>)))"

definition add_default_animation_resource ::
  "node_ref \<Rightarrow> 'v escn_file \<Rightarrow> action \<Rightarrow> py_error + 'v escn_file" where
  "add_default_animation_resource self escn act =
     (case create_animation_resource self escn act of
        Inl e \<Rightarrow> Inl e
      | Inr (i, escn1) \<Rightarrow>
          Inr (escn1\<lparr>tree := update_at (tree escn1) self (set_default_animation i)\<rparr>))"

section \<open>The dispatcher\<close>

text \<open>
  An entry of \<open>ACTION_EXPORTER_MAP\<close>, called with the Godot node, the player, the Blender
  object, the action and the resource. The four exporters of the file reach the output
  only through \<open>add_track\<close> on that resource, so an exporter is a function from the
  resource to the resource with the tracks added, or an exception.
\<close>

type_synonym 'v exporter =
  "node_ref \<Rightarrow> node_ref \<Rightarrow> blender_object \<Rightarrow> action \<Rightarrow> 'v animation_resource
   \<Rightarrow> py_error + 'v animation_resource"

definition run_exporter ::
  "'v exporter \<Rightarrow> node_ref \<Rightarrow> node_ref \<Rightarrow> blender_object \<Rightarrow> action \<Rightarrow> nat \<Rightarrow> 'v escn_file
   \<Rightarrow> py_error + 'v escn_file" where
  "run_exporter exporter_func node player blender_obj act i escn =
     (case py_index (internal_resources escn) i of
        Inl e \<Rightarrow> Inl e
      | Inr res \<Rightarrow>
          (case exporter_func node player blender_obj act res of
             Inl e \<Rightarrow> Inl e
           | Inr res' \<Rightarrow>
               Inr (escn\<lparr>internal_resources := (internal_resources escn)[i := res']\<rparr>)))"

text \<open>The action a step exports; \<open>None\<close> has no \<open>name\<close> and no curves.\<close>

definition action_to_export :: "blender_data \<Rightarrow> nat option \<Rightarrow> py_error + action" where
  "action_to_export s chosen =
     (case chosen of None \<Rightarrow> Inl AttributeError | Some a \<Rightarrow> lookup_action s a)"

definition remove_baked :: "bpy_library \<Rightarrow> nat option \<Rightarrow> world \<Rightarrow> py_error + world" where
  "remove_baked lib chosen w =
     (case chosen of
        None \<Rightarrow> Inl TypeError
      | Some b \<Rightarrow>
          (case actions_remove lib b (bpy w) of
             Inl e \<Rightarrow> Inl e
           | Inr s \<Rightarrow> Inr (w\<lparr>bpy := s\<rparr>)))"

definition export_active_action ::
  "bpy_library \<Rightarrow> 'v exporter \<Rightarrow> node_ref \<Rightarrow> node_ref \<Rightarrow> blender_object \<Rightarrow> bool \<Rightarrow> bool
   \<Rightarrow> bool \<Rightarrow> nat option \<Rightarrow> world \<times> 'v escn_file \<times> nat set
   \<Rightarrow> py_error + (world \<times> 'v escn_file \<times> nat set)" where
  "export_active_action lib exporter_func node player blender_obj need_bake has_obj_cst
     has_pose_cst active_action st =
     (case st of (w, escn, exported_actions) \<Rightarrow>
      (case
         (if need_bake then
            (case (case active_action of
                     Some a \<Rightarrow>
                       (case add_baking_suffix a (bpy w) of
                          Inl e \<Rightarrow> Inl e
                        | Inr s \<Rightarrow> Inr (w\<lparr>bpy := s\<rparr>, insert a exported_actions))
                   | None \<Rightarrow> Inr (w, exported_actions)) of
               Inl e \<Rightarrow> Inl e
             | Inr (w0, exported0) \<Rightarrow>
                 (case action_baker lib blender_obj has_obj_cst has_pose_cst active_action w0 of
                    Inl e \<Rightarrow> Inl e
                  | Inr (baked, w1) \<Rightarrow> Inr (baked, w1, exported0)))
          else Inr (active_action, w, exported_actions)) of
         Inl e \<Rightarrow> Inl e
       | Inr (action_active_to_export, w1, exported1) \<Rightarrow>
           (case action_to_export (bpy w1) action_active_to_export of
              Inl e \<Rightarrow> Inl e
            | Inr act \<Rightarrow>
                (case node_at (tree escn) player of
                   None \<Rightarrow> Inl ReferenceError
                 | Some p \<Rightarrow>
                     (case (case default_animation p of
                              None \<Rightarrow>
                                (case add_default_animation_resource player escn act of
                                   Inl e \<Rightarrow> Inl e
                                 | Inr escn1 \<Rightarrow> Inr (length (internal_resources escn), escn1))
                            | Some i \<Rightarrow> Inr (i, escn)) of
                        Inl e \<Rightarrow> Inl e
                      | Inr (i, escn1) \<Rightarrow>
                          (case run_exporter exporter_func node player blender_obj act i escn1 of
                             Inl e \<Rightarrow> Inl e
                           | Inr escn2 \<Rightarrow>
                               if need_bake then
                                 (case remove_baked lib action_active_to_export w1 of
                                    Inl e \<Rightarrow> Inl e
                                  | Inr w2 \<Rightarrow>
                                      (case active_action of
                                         None \<Rightarrow> Inr (w2, escn2, exported1)
                                       | Some a \<Rightarrow>
                                           (case remove_baking_suffix a (bpy w2) of
                                              Inl e \<Rightarrow> Inl e
                                            | Inr s \<Rightarrow>
                                                Inr (w2\<lparr>bpy := s\<rparr>, escn2, exported1))))
                               else Inr (w1, escn2, exported1)))))))"

definition export_nla_action ::
  "bpy_library \<Rightarrow> 'v exporter \<Rightarrow> node_ref \<Rightarrow> node_ref \<Rightarrow> blender_object \<Rightarrow> bool \<Rightarrow> bool
   \<Rightarrow> bool \<Rightarrow> nat \<Rightarrow> world \<times> 'v escn_file \<times> nat set
   \<Rightarrow> py_error + (world \<times> 'v escn_file \<times> nat set)" where
  "export_nla_action lib exporter_func node player blender_obj need_bake has_obj_cst
     has_pose_cst nla_action st =
     (case st of (w, escn, exported_actions) \<Rightarrow>
      (case
         (if need_bake then
            (case add_baking_suffix nla_action (bpy w) of
               Inl e \<Rightarrow> Inl e
             | Inr s \<Rightarrow>
                 action_baker lib blender_obj has_obj_cst has_pose_cst (Some nla_action)
                   (w\<lparr>bpy := s\<rparr>))
          else Inr (Some nla_action, w)) of
         Inl e \<Rightarrow> Inl e
       | Inr (nla_action_to_export, w1) \<Rightarrow>
           (case action_to_export (bpy w1) nla_action_to_export of
              Inl e \<Rightarrow> Inl e
            | Inr act \<Rightarrow>
                (case create_animation_resource player escn act of
                   Inl e \<Rightarrow> Inl e
                 | Inr (anim_resource, escn1) \<Rightarrow>
                     (case run_exporter exporter_func node player blender_obj act
                             anim_resource escn1 of
                        Inl e \<Rightarrow> Inl e
                      | Inr escn2 \<Rightarrow>
                          if need_bake then
                            (case remove_baked lib nla_action_to_export w1 of
                               Inl e \<Rightarrow> Inl e
                             | Inr w2 \<Rightarrow>
                                 (case remove_baking_suffix nla_action (bpy w2) of
                                    Inl e \<Rightarrow> Inl e
                                  | Inr s \<Rightarrow>
                                      Inr (w2\<lparr>bpy := s\<rparr>, escn2,
                                           insert nla_action exported_actions)))
                          else Inr (w1, escn2, insert nla_action exported_actions))))))"

text \<open>
  The two nested loops over the NLA tracks and their strips, as one loop over the actions
  of the strips in that order. The tracks are read when the loop starts: the library is
  taken not to edit them while they are iterated.
\<close>

fun export_nla_strips ::
  "bpy_library \<Rightarrow> 'v exporter \<Rightarrow> node_ref \<Rightarrow> node_ref \<Rightarrow> blender_object \<Rightarrow> bool \<Rightarrow> bool
   \<Rightarrow> bool \<Rightarrow> nat option list \<Rightarrow> world \<times> 'v escn_file \<times> nat set
   \<Rightarrow> py_error + (world \<times> 'v escn_file \<times> nat set)" where
  "export_nla_strips lib exporter_func node player blender_obj need_bake has_obj_cst
     has_pose_cst [] st = Inr st"
| "export_nla_strips lib exporter_func node player blender_obj need_bake has_obj_cst
     has_pose_cst (strip_action # rest) st =
     (case strip_action of
        None \<Rightarrow>
          export_nla_strips lib exporter_func node player blender_obj need_bake has_obj_cst
            has_pose_cst rest st
      | Some a \<Rightarrow>
          if a \<in> snd (snd st) then
            export_nla_strips lib exporter_func node player blender_obj need_bake
              has_obj_cst has_pose_cst rest st
          else
            (case export_nla_action lib exporter_func node player blender_obj need_bake
                    has_obj_cst has_pose_cst a st of
               Inl e \<Rightarrow> Inl e
             | Inr st' \<Rightarrow>
                 export_nla_strips lib exporter_func node player blender_obj need_bake
                   has_obj_cst has_pose_cst rest st'))"

record export_settings =
  use_export_animation :: bool
  setting_animation_modes :: string

definition needs_bake :: "blender_object \<Rightarrow> string \<Rightarrow> bool \<Rightarrow> bool" where
  "needs_bake blender_obj action_type has_pose_cst \<longleftrightarrow>
     action_type = ''transform'' \<and> (has_object_constraint blender_obj \<or> has_pose_cst)"

definition active_action_of :: "blender_data \<Rightarrow> nat option" where
  "active_action_of s = (case animation_data s of Some ad \<Rightarrow> ad_action ad | None \<Rightarrow> None)"

definition export_animation_data ::
  "bpy_library \<Rightarrow> (string \<Rightarrow> 'v exporter option) \<Rightarrow> export_settings \<Rightarrow> node_ref
   \<Rightarrow> blender_object \<Rightarrow> string \<Rightarrow> world \<times> 'v escn_file
   \<Rightarrow> py_error + (world \<times> 'v escn_file)" where
  "export_animation_data lib exporter_map settings node blender_obj action_type st =
     (case st of (w, escn) \<Rightarrow>
      if \<not> use_export_animation settings then Inr (w, escn)
      else
        (case has_pose_constraint blender_obj of
           Inl e \<Rightarrow> Inl e
         | Inr has_pose_cst \<Rightarrow>
             (let has_obj_cst = has_object_constraint blender_obj;
                  need_bake = needs_bake blender_obj action_type has_pose_cst
              in if animation_data (bpy w) = None \<and> \<not> need_bake then Inr (w, escn)
                 else
                   (case get_animation_player escn (setting_animation_modes settings) node of
                      Inl e \<Rightarrow> Inl e
                    | Inr (player, escn1) \<Rightarrow>
                        (case exporter_map action_type of
                           None \<Rightarrow> Inl KeyError
                         | Some exporter_func \<Rightarrow>
                             (let active_action = active_action_of (bpy w)
                              in case
                                   (if active_action \<noteq> None
                                       \<or> (animation_data (bpy w) = None \<and> need_bake)
                                    then export_active_action lib exporter_func node player
                                           blender_obj need_bake has_obj_cst has_pose_cst
                                           active_action (w, escn1, {})
                                    else Inr (w, escn1, {})) of
                                   Inl e \<Rightarrow> Inl e
                                 | Inr (w2, escn2, exported2) \<Rightarrow>
                                     (case animation_data (bpy w2) of
                                        None \<Rightarrow> Inl AttributeError
                                      | Some ad2 \<Rightarrow>
                                          (case export_nla_strips lib exporter_func node
                                                  player blender_obj need_bake has_obj_cst
                                                  has_pose_cst (concat (nla_tracks ad2))
                                                  (w2, escn2, exported2) of
                                             Inl e \<Rightarrow> Inl e
                                           | Inr (w3, escn3, exported3) \<Rightarrow>
                                               (case active_action of
                                                  None \<Rightarrow> Inr (w3, escn3)
                                                | Some a \<Rightarrow>
                                                    (case animation_data (bpy w3) of
                                                       None \<Rightarrow> Inl AttributeError
                                                     | Some ad3 \<Rightarrow>
                                                         Inr (w3\<lparr>bpy := (bpy w3)
                                                                \<lparr>animation_data :=
                                                                   Some (ad3\<lparr>ad_action := Some a\<rparr>)\<rparr>\<rparr>,
                                                              escn3)))))))))))"

section \<open>A library and a scene for the examples\<close>

text \<open>
  A library for the closed examples. Its \<open>bake_action\<close> creates the action when it is given
  none (the source: "if action_bake_into is None, it would create a new one and baked into
  it") and bakes into the given one otherwise; its \<open>remove\<close> deletes the action from
  \<open>bpy.data.actions\<close>. Neither writes the animation data of the object. What Blender's own
  two functions do to the active action of the object is outside the repository.
\<close>

definition first_free :: "(nat \<Rightarrow> action option) \<Rightarrow> nat option" where
  "first_free acts = find (\<lambda>i. acts i = None) [0..<64]"

definition plain_bake_action :: "bake_call \<Rightarrow> blender_data \<Rightarrow> py_error + (nat \<times> blender_data)" where
  "plain_bake_action call s =
     (case bc_action call of
        Some t \<Rightarrow> (case actions s t of None \<Rightarrow> Inl ReferenceError | Some act \<Rightarrow> Inr (t, s))
      | None \<Rightarrow>
          (case first_free (actions s) of
             None \<Rightarrow> Inl ReferenceError
           | Some b \<Rightarrow>
               Inr (b, s\<lparr>actions := (actions s)(b \<mapsto>
                      \<lparr>action_name = ''Action'',
                       frame_range = (of_int (bc_frame_start call), of_int (bc_frame_end call)),
                       fcurves = []\<rparr>)\<rparr>)))"

definition plain_remove :: "nat \<Rightarrow> blender_data \<Rightarrow> py_error + blender_data" where
  "plain_remove b s = Inr (s\<lparr>actions := (actions s)(b := None)\<rparr>)"

definition plain_library :: bpy_library where
  "plain_library =
     \<lparr>version_le_2_79 = False, bake_action = plain_bake_action,
      actions_remove = plain_remove\<rparr>"

definition wave_action :: action where
  "wave_action = \<lparr>action_name = ''Wave'', frame_range = (1, 20), fcurves = []\<rparr>"

text \<open>
  An object with no active action and two NLA strips that both hold the action \<open>Wave\<close>
  (number 0).
\<close>

definition example_data :: blender_data where
  "example_data =
     \<lparr>actions = (\<lambda>a. None)(0 \<mapsto> wave_action),
      animation_data = Some \<lparr>ad_action = None, nla_tracks = [[Some 0], [Some 0]]\<rparr>,
      active_object = None\<rparr>"

definition example_world :: world where
  "example_world = \<lparr>bpy = example_data, trace = []\<rparr>"

definition constrained_object :: blender_object where
  "constrained_object = example_object\<lparr>constraints := [''Copy Location'']\<rparr>"

section \<open>What the claims speak of: the actions exported from the NLA strips\<close>

text \<open>
  The actions of the strips in the order of their first strip, without those already in
  the set of exported actions.
\<close>

fun first_new :: "nat set \<Rightarrow> nat option list \<Rightarrow> nat list" where
  "first_new exported [] = []"
| "first_new exported (None # rest) = first_new exported rest"
| "first_new exported (Some a # rest) =
     (if a \<in> exported then first_new exported rest
      else a # first_new (insert a exported) rest)"

text \<open>One call of \<open>export_nla_action\<close> after the other, for the actions of a list.\<close>

fun export_each ::
  "bpy_library \<Rightarrow> 'v exporter \<Rightarrow> node_ref \<Rightarrow> node_ref \<Rightarrow> blender_object \<Rightarrow> bool \<Rightarrow> bool
   \<Rightarrow> bool \<Rightarrow> nat list \<Rightarrow> world \<times> 'v escn_file \<times> nat set
   \<Rightarrow> py_error + (world \<times> 'v escn_file \<times> nat set)" where
  "export_each lib exporter_func node player blender_obj need_bake has_obj_cst has_pose_cst
     [] st = Inr st"
| "export_each lib exporter_func node player blender_obj need_bake has_obj_cst has_pose_cst
     (a # rest) st =
     (case export_nla_action lib exporter_func node player blender_obj need_bake has_obj_cst
             has_pose_cst a st of
        Inl e \<Rightarrow> Inl e
      | Inr st' \<Rightarrow>
          export_each lib exporter_func node player blender_obj need_bake has_obj_cst
            has_pose_cst rest st')"

text \<open>An exporter that adds no track, and the object of the examples with an active action.\<close>

definition no_tracks :: "'v exporter" where
  "no_tracks node player blender_obj act res = Inr res"

definition example_settings :: export_settings where
  "example_settings = \<lparr>use_export_animation = True, setting_animation_modes = ''ACTIONS''\<rparr>"

definition example_world_active :: world where
  "example_world_active =
     \<lparr>bpy = example_data\<lparr>animation_data :=
              Some \<lparr>ad_action = Some 0, nla_tracks = [[Some 0], [Some 0]]\<rparr>\<rparr>,
      trace = []\<rparr>"

section \<open>What the claims speak of: the names of the actions\<close>

definition action_names :: "blender_data \<Rightarrow> nat \<Rightarrow> string option" where
  "action_names s a = map_option action_name (actions s a)"

text \<open>
  What is asked of the library for the names to come back: \<open>bake_action\<close> returns the
  action it was given, or one that did not exist before when it was given none, and
  leaves the names of all other actions (and of the given one) alone; \<open>remove\<close> takes the
  action away and leaves the names of the others alone.
\<close>

definition library_keeps_names :: "bpy_library \<Rightarrow> bool" where
  "library_keeps_names lib \<longleftrightarrow>
     (\<forall>call s b s'. bake_action lib call s = Inr (b, s') \<longrightarrow>
        (case bc_action call of
           None \<Rightarrow> actions s b = None
         | Some t \<Rightarrow> b = t \<and> action_names s' b = action_names s b) \<and>
        (\<forall>a. a \<noteq> b \<longrightarrow> action_names s' a = action_names s a)) \<and>
     (\<forall>b s s'. actions_remove lib b s = Inr s' \<longrightarrow>
        action_names s' = (action_names s)(b := None))"


text \<open>
  What is asked of the library for an active action that was \<open>None\<close> to be \<open>None\<close> again:
  \<open>bake_action\<close> bakes into the action it was given when it was given one, and makes the
  action it baked into the active action of the object; \<open>remove\<close> unlinks the action it
  removes, so that the object has no active action when its active action is removed, and
  leaves the active action alone otherwise. The dispatcher relies on this: it writes the
  active action back itself only when there was one.
\<close>

definition library_unlinks :: "bpy_library \<Rightarrow> bool" where
  "library_unlinks lib \<longleftrightarrow>
     (\<forall>call s b s'. bake_action lib call s = Inr (b, s') \<longrightarrow>
        (case bc_action call of None \<Rightarrow> True | Some t \<Rightarrow> b = t) \<and>
        active_action_of s' = Some b) \<and>
     (\<forall>b s s'. actions_remove lib b s = Inr s' \<longrightarrow>
        active_action_of s' =
          (if active_action_of s = Some b then None else active_action_of s))"

text \<open>\<open>str.endswith\<close>\<close>

definition endswith :: "string \<Rightarrow> string \<Rightarrow> bool" where
  "endswith s suffix \<longleftrightarrow>
     length suffix \<le> length s \<and> drop (length s - length suffix) s = suffix"

text \<open>
  A library for closed examples that does both: it bakes as \<open>plain_library\<close> does and makes
  the baked action the active one, with new animation data when the object has none, and
  its \<open>remove\<close> unlinks.
\<close>

definition linking_bake_action ::
  "bake_call \<Rightarrow> blender_data \<Rightarrow> py_error + (nat \<times> blender_data)" where
  "linking_bake_action call s =
     (case plain_bake_action call s of
        Inl e \<Rightarrow> Inl e
      | Inr (b, s') \<Rightarrow>
          Inr (b, s'\<lparr>animation_data :=
                 Some (case animation_data s' of
                         None \<Rightarrow> \<lparr>ad_action = Some b, nla_tracks = []\<rparr>
                       | Some ad \<Rightarrow> ad\<lparr>ad_action := Some b\<rparr>)\<rparr>))"

definition unlinking_remove :: "nat \<Rightarrow> blender_data \<Rightarrow> py_error + blender_data" where
  "unlinking_remove b s =
     Inr (s\<lparr>actions := (actions s)(b := None),
            animation_data :=
              map_option (\<lambda>ad. if ad_action ad = Some b then ad\<lparr>ad_action := None\<rparr> else ad)
                (animation_data s)\<rparr>)"

definition linking_library :: bpy_library where
  "linking_library =
     \<lparr>version_le_2_79 = False, bake_action = linking_bake_action,
      actions_remove = unlinking_remove\<rparr>"

section \<open>Properties of the serialisers\<close>

lemma same_as_previous_in_range:
  "index < length value_list \<Longrightarrow>
     same_as_previous mx ip value_list index = Inr (\<not> kept mx ip value_list index)"
  by (auto simp add: same_as_previous_def kept_def py_index_def)

lemma value_frames_loop_kept:
  assumes "fps \<noteq> 0"
  shows "index + length fl \<le> length value_list \<Longrightarrow> fl = drop index frame_list \<Longrightarrow>
    value_frames_loop mx fps ip value_list index fl (ta, tra, va) =
      Inr (ta @ map (\<lambda>i. of_int (frame_list ! i) / of_int fps) (filter (kept mx ip value_list) [index..<index + length fl]),
           tra @ map (\<lambda>i. 1) (filter (kept mx ip value_list) [index..<index + length fl]),
           va @ map (\<lambda>i. value_list ! i) (filter (kept mx ip value_list) [index..<index + length fl]))"
proof (induction fl arbitrary: index ta tra va)
  case Nil
  then show ?case by simp
next
  case (Cons frame rest)
  from Cons.prems have lt: "index < length frame_list"
    by (metis drop_all list.distinct(1) not_le)
  have fr: "frame = frame_list ! index" and rs: "rest = drop (Suc index) frame_list"
    using Cons.prems(2) lt by (simp_all add: Cons_nth_drop_Suc[symmetric])
  have iv: "index < length value_list" using Cons.prems(1) by simp
  have up: "[index..<index + length (frame # rest)] = index # [Suc index..<Suc index + length rest]"
    by (simp add: upt_rec)
  have ih: "\<And>ta tra va. value_frames_loop mx fps ip value_list (Suc index) rest (ta, tra, va) =
      Inr (ta @ map (\<lambda>i. of_int (frame_list ! i) / of_int fps) (filter (kept mx ip value_list) [Suc index..<Suc index + length rest]),
           tra @ map (\<lambda>i. 1) (filter (kept mx ip value_list) [Suc index..<Suc index + length rest]),
           va @ map (\<lambda>i. value_list ! i) (filter (kept mx ip value_list) [Suc index..<Suc index + length rest]))"
    using Cons.IH[of "Suc index"] Cons.prems(1) rs by simp
  show ?case
    unfolding up
    by (simp add: same_as_previous_in_range[OF iv] ih py_truediv_def assms py_index_def iv fr)
qed

lemma transform_frames_loop_kept:
  assumes "fps \<noteq> 0"
  shows "index + length fl \<le> length value_list \<Longrightarrow> fl = drop index frame_list \<Longrightarrow>
    transform_frames_loop mx fps ip value_list index fl array =
      Inr (array @ concat (map (\<lambda>i. transform_key mx (of_int (frame_list ! i) / of_int fps) (value_list ! i))
             (filter (kept mx ip value_list) [index..<index + length fl])))"
proof (induction fl arbitrary: index array)
  case Nil
  then show ?case by simp
next
  case (Cons frame rest)
  from Cons.prems have lt: "index < length frame_list"
    by (metis drop_all list.distinct(1) not_le)
  have fr: "frame = frame_list ! index" and rs: "rest = drop (Suc index) frame_list"
    using Cons.prems(2) lt by (simp_all add: Cons_nth_drop_Suc[symmetric])
  have iv: "index < length value_list" using Cons.prems(1) by simp
  have up: "[index..<index + length (frame # rest)] = index # [Suc index..<Suc index + length rest]"
    by (simp add: upt_rec)
  have ih: "\<And>array. transform_frames_loop mx fps ip value_list (Suc index) rest array =
      Inr (array @ concat (map (\<lambda>i. transform_key mx (of_int (frame_list ! i) / of_int fps) (value_list ! i))
             (filter (kept mx ip value_list) [Suc index..<Suc index + length rest])))"
    using Cons.IH[of "Suc index"] Cons.prems(1) rs by simp
  show ?case
    unfolding up
    by (simp add: same_as_previous_in_range[OF iv] ih py_truediv_def assms py_index_def iv fr)
qed

text \<open>
  With a comparison that is symmetric and transitive, no value that is kept is equal, by
  that comparison, to the kept value before it.
\<close>

lemma kept_values_successively:
  assumes sy: "\<And>a b. values_equal mx a b \<Longrightarrow> values_equal mx b a"
    and tr: "\<And>a b c. values_equal mx a b \<Longrightarrow> values_equal mx b c \<Longrightarrow> values_equal mx a c"
  shows
  "successively (\<lambda>a b. \<not> values_equal mx a b)
     (map ((!) vl) (filter (kept mx LINEAR_INTERPOLATION vl) [i..<n])) \<and>
   (0 < i \<longrightarrow> successively (\<lambda>a b. \<not> values_equal mx a b)
     (vl ! (i - 1) # map ((!) vl) (filter (kept mx LINEAR_INTERPOLATION vl) [i..<n])))"
proof (induction "n - i" arbitrary: i)
  case 0
  then show ?case by simp
next
  case (Suc k)
  then have lt: "i < n" and k: "k = n - Suc i" by simp_all
  have up: "[i..<n] = i # [Suc i..<n]" using lt by (simp add: upt_rec)
  let ?rest = "map ((!) vl) (filter (kept mx LINEAR_INTERPOLATION vl) [Suc i..<n])"
  from Suc.hyps(1)[OF k]
  have ih1: "successively (\<lambda>a b. \<not> values_equal mx a b) ?rest"
    and ih2: "successively (\<lambda>a b. \<not> values_equal mx a b) (vl ! i # ?rest)"
    by simp_all
  show ?case
  proof (cases "kept mx LINEAR_INTERPOLATION vl i")
    case True
    then have "0 < i \<longrightarrow> \<not> values_equal mx (vl ! (i - 1)) (vl ! i)"
      using sy by (auto simp: kept_def)
    then show ?thesis using True ih2 by (simp add: up)
  next
    case False
    then have pos: "0 < i" and eq: "values_equal mx (vl ! i) (vl ! (i - 1))"
      by (auto simp: kept_def)
    have "successively (\<lambda>a b. \<not> values_equal mx a b) (vl ! (i - 1) # ?rest)"
    proof (cases ?rest)
      case Nil
      then show ?thesis by simp
    next
      case (Cons x r)
      with ih2 have nx: "\<not> values_equal mx (vl ! i) x"
        and r: "successively (\<lambda>a b. \<not> values_equal mx a b) (x # r)"
        by simp_all
      have "\<not> values_equal mx (vl ! (i - 1)) x"
        using nx tr[OF eq] by blast
      with r Cons show ?thesis by simp
    qed
    then show ?thesis using False ih1 by (simp add: up)
  qed
qed

lemma emitted_nearest:
  assumes "ip \<noteq> LINEAR_INTERPOLATION" "length frame_list \<le> length value_list"
  shows "emitted_keyframes mx ip frame_list value_list = zip frame_list value_list"
proof -
  have "filter (kept mx ip value_list) [0..<length frame_list] = [0..<length frame_list]"
    using assms(1) by (simp add: kept_def)
  then show ?thesis
    using assms(2) by (auto simp: emitted_keyframes_def emitted_indices_def intro!: nth_equalityI)
qed

text \<open>
  Claim C1, as amended. Both serialisers emit exactly the keyframes of
  \<open>emitted_keyframes\<close>: the value serialiser their times, a transition of 1 for each and
  their values; the transform serialiser, for each, the time, a transition of 1 and the
  translation, the quaternion (x, y, z, w) and the scale of the value's matrix after
  \<open>fix_matrix\<close>. The keyframe at index \<open>i\<close> is emitted iff the interpolation is not linear, or
  \<open>i = 0\<close>, or the \<open>==\<close> of the values says that its value differs from the input value
  before it. Under any interpolation but linear every (frame, value) pair is emitted. Under
  linear interpolation, when \<open>==\<close> is symmetric and transitive no emitted value is equal by
  \<open>==\<close> to the emitted value before it, and when \<open>==\<close> is equality, as it is for floats,
  no two adjacent emitted values are equal. The serialisers raise when the frame rate is 0
  or when there are fewer values than frames, hence the two assumptions.
\<close>

theorem keyframes_coalesced_when_linear:
  assumes "fps \<noteq> 0" and "length frame_list \<le> length value_list"
  shows
    "value_frames_to_keys mx fps frame_list value_list ip =
       Inr (ValueKeys
         (map (\<lambda>(f, v). of_int f / of_int fps) (emitted_keyframes mx ip frame_list value_list))
         (map (\<lambda>k. 1) (emitted_keyframes mx ip frame_list value_list)) 0
         (map snd (emitted_keyframes mx ip frame_list value_list))) \<and>
     transform_frames_to_keys mx fps frame_list value_list ip =
       Inr (TransformKeys (concat
         (map (\<lambda>(f, v).
                 [of_int f / of_int fps, 1,
                  vx (to_translation mx (fix_matrix mx v)),
                  vy (to_translation mx (fix_matrix mx v)),
                  vz (to_translation mx (fix_matrix mx v)),
                  qx (to_quaternion mx (fix_matrix mx v)),
                  qy (to_quaternion mx (fix_matrix mx v)),
                  qz (to_quaternion mx (fix_matrix mx v)),
                  qw (to_quaternion mx (fix_matrix mx v)),
                  vx (to_scale mx (fix_matrix mx v)),
                  vy (to_scale mx (fix_matrix mx v)),
                  vz (to_scale mx (fix_matrix mx v))])
            (emitted_keyframes mx ip frame_list value_list)))) \<and>
     emitted_keyframes mx ip frame_list value_list =
       map (\<lambda>i. (frame_list ! i, value_list ! i))
         (filter (\<lambda>i. ip \<noteq> LINEAR_INTERPOLATION \<or> i = 0 \<or>
                       \<not> values_equal mx (value_list ! i) (value_list ! (i - 1)))
            [0..<length frame_list]) \<and>
     (\<forall>i < length frame_list.
        i \<in> set (emitted_indices mx ip value_list (length frame_list)) \<longleftrightarrow>
        (ip \<noteq> LINEAR_INTERPOLATION \<or> i = 0 \<or>
         \<not> values_equal mx (value_list ! i) (value_list ! (i - 1)))) \<and>
     (ip = LINEAR_INTERPOLATION \<longrightarrow>
        (\<forall>a b. values_equal mx a b \<longrightarrow> values_equal mx b a) \<longrightarrow>
        (\<forall>a b c. values_equal mx a b \<longrightarrow> values_equal mx b c \<longrightarrow> values_equal mx a c) \<longrightarrow>
        successively (\<lambda>a b. \<not> values_equal mx a b)
          (map snd (emitted_keyframes mx ip frame_list value_list))) \<and>
     (ip = LINEAR_INTERPOLATION \<longrightarrow> (\<forall>a b. values_equal mx a b \<longleftrightarrow> a = b) \<longrightarrow>
        distinct_adj (map snd (emitted_keyframes mx ip frame_list value_list))) \<and>
     (ip \<noteq> LINEAR_INTERPOLATION \<longrightarrow>
        emitted_keyframes mx ip frame_list value_list = zip frame_list value_list)"
proof -
  have v: "value_frames_loop mx fps ip value_list 0 frame_list ([], [], []) =
      Inr (map (\<lambda>i. of_int (frame_list ! i) / of_int fps) (emitted_indices mx ip value_list (length frame_list)),
           map (\<lambda>i. 1) (emitted_indices mx ip value_list (length frame_list)),
           map (\<lambda>i. value_list ! i) (emitted_indices mx ip value_list (length frame_list)))"
    using value_frames_loop_kept[OF assms(1), where index = 0 and fl = frame_list
        and value_list = value_list and frame_list = frame_list and mx = mx and ip = ip
        and ta = "[]" and tra = "[]" and va = "[]"] assms(2)
    by (simp add: emitted_indices_def)
  have t: "transform_frames_loop mx fps ip value_list 0 frame_list [] =
      Inr (concat (map (\<lambda>i. transform_key mx (of_int (frame_list ! i) / of_int fps) (value_list ! i))
             (emitted_indices mx ip value_list (length frame_list))))"
    using transform_frames_loop_kept[OF assms(1), where index = 0 and fl = frame_list
        and value_list = value_list and frame_list = frame_list and mx = mx and ip = ip
        and array = "[]"] assms(2)
    by (simp add: emitted_indices_def)
  have c1: "value_frames_to_keys mx fps frame_list value_list ip =
       Inr (ValueKeys
         (map (\<lambda>(f, v). of_int f / of_int fps) (emitted_keyframes mx ip frame_list value_list))
         (map (\<lambda>k. 1) (emitted_keyframes mx ip frame_list value_list)) 0
         (map snd (emitted_keyframes mx ip frame_list value_list)))"
    by (simp add: value_frames_to_keys_def v emitted_keyframes_def comp_def)
  have c2: "transform_frames_to_keys mx fps frame_list value_list ip =
       Inr (TransformKeys (concat
         (map (\<lambda>(f, v).
                 [of_int f / of_int fps, 1,
                  vx (to_translation mx (fix_matrix mx v)),
                  vy (to_translation mx (fix_matrix mx v)),
                  vz (to_translation mx (fix_matrix mx v)),
                  qx (to_quaternion mx (fix_matrix mx v)),
                  qy (to_quaternion mx (fix_matrix mx v)),
                  qz (to_quaternion mx (fix_matrix mx v)),
                  qw (to_quaternion mx (fix_matrix mx v)),
                  vx (to_scale mx (fix_matrix mx v)),
                  vy (to_scale mx (fix_matrix mx v)),
                  vz (to_scale mx (fix_matrix mx v))])
            (emitted_keyframes mx ip frame_list value_list))))"
    by (simp add: transform_frames_to_keys_def t emitted_keyframes_def comp_def
        transform_key_def Let_def)
  have k: "kept mx ip value_list =
      (\<lambda>i. ip \<noteq> LINEAR_INTERPOLATION \<or> i = 0 \<or>
           \<not> values_equal mx (value_list ! i) (value_list ! (i - 1)))"
    by (auto simp: kept_def fun_eq_iff)
  have c3: "emitted_keyframes mx ip frame_list value_list =
       map (\<lambda>i. (frame_list ! i, value_list ! i))
         (filter (\<lambda>i. ip \<noteq> LINEAR_INTERPOLATION \<or> i = 0 \<or>
                       \<not> values_equal mx (value_list ! i) (value_list ! (i - 1)))
            [0..<length frame_list])"
    by (simp add: emitted_keyframes_def emitted_indices_def k)
  have c4: "\<forall>i < length frame_list.
        i \<in> set (emitted_indices mx ip value_list (length frame_list)) \<longleftrightarrow>
        (ip \<noteq> LINEAR_INTERPOLATION \<or> i = 0 \<or>
         \<not> values_equal mx (value_list ! i) (value_list ! (i - 1)))"
    by (simp add: emitted_indices_def k)
  have c5: "ip = LINEAR_INTERPOLATION \<longrightarrow>
        (\<forall>a b. values_equal mx a b \<longrightarrow> values_equal mx b a) \<longrightarrow>
        (\<forall>a b c. values_equal mx a b \<longrightarrow> values_equal mx b c \<longrightarrow> values_equal mx a c) \<longrightarrow>
        successively (\<lambda>a b. \<not> values_equal mx a b)
          (map snd (emitted_keyframes mx ip frame_list value_list))"
  proof (intro impI)
    assume l: "ip = LINEAR_INTERPOLATION"
      and sy: "\<forall>a b. values_equal mx a b \<longrightarrow> values_equal mx b a"
      and tr: "\<forall>a b c. values_equal mx a b \<longrightarrow> values_equal mx b c \<longrightarrow> values_equal mx a c"
    have "successively (\<lambda>a b. \<not> values_equal mx a b)
        (map ((!) value_list)
           (filter (kept mx LINEAR_INTERPOLATION value_list) [0..<length frame_list]))"
      using kept_values_successively[of mx value_list 0 "length frame_list"] sy tr by blast
    then show "successively (\<lambda>a b. \<not> values_equal mx a b)
          (map snd (emitted_keyframes mx ip frame_list value_list))"
      using l by (simp add: emitted_keyframes_def emitted_indices_def comp_def)
  qed
  have c6: "ip = LINEAR_INTERPOLATION \<longrightarrow> (\<forall>a b. values_equal mx a b \<longleftrightarrow> a = b) \<longrightarrow>
        distinct_adj (map snd (emitted_keyframes mx ip frame_list value_list))"
  proof (intro impI)
    assume l: "ip = LINEAR_INTERPOLATION" and ex: "\<forall>a b. values_equal mx a b \<longleftrightarrow> a = b"
    then have e: "values_equal mx = (=)" by (simp add: fun_eq_iff)
    have "successively (\<lambda>a b. \<not> values_equal mx a b)
          (map snd (emitted_keyframes mx ip frame_list value_list))"
      using c5 l ex by simp
    then show "distinct_adj (map snd (emitted_keyframes mx ip frame_list value_list))"
      by (simp add: distinct_adj_def e)
  qed
  show ?thesis
    using c1 c2 c3 c4 c5 c6 emitted_nearest[OF _ assms(2), of ip mx]
    by (intro conjI) blast+
qed

theorem keyframes_coalesced_when_linear_witness:
  "(24::int) \<noteq> 0 \<and> length [0, 1, 2, 3::int] \<le> length [5, 5, 7, 5::rat] \<and>
   value_frames_to_keys stub_mathutils 24 [0, 1, 2, 3] [5, 5, 7, 5::rat] LINEAR_INTERPOLATION =
     Inr (ValueKeys [0, 1 / 12, 1 / 8] [1, 1, 1] 0 [5, 7, 5]) \<and>
   distinct_adj [5, 7, 5::rat] \<and>
   transform_frames_to_keys stub_mathutils 24 [0, 1, 2, 3] [5, 5, 7, 5::rat] NEAREST_INTERPOLATION =
     Inr (TransformKeys
       [0, 1, 0, 0, 0, 0, 0, 0, 1, 1, 1, 1,
        1 / 24, 1, 0, 0, 0, 0, 0, 0, 1, 1, 1, 1,
        1 / 12, 1, 0, 0, 0, 0, 0, 0, 1, 1, 1, 1,
        1 / 8, 1, 0, 0, 0, 0, 0, 0, 1, 1, 1, 1])"
  using keyframes_coalesced_when_linear[of 24 "[0, 1, 2, 3]" "[5, 5, 7, 5::rat]" stub_mathutils LINEAR_INTERPOLATION]
    keyframes_coalesced_when_linear[of 24 "[0, 1, 2, 3]" "[5, 5, 7, 5::rat]" stub_mathutils NEAREST_INTERPOLATION]
  by (simp add: emitted_keyframes_def emitted_indices_def kept_def LINEAR_INTERPOLATION_def
      NEAREST_INTERPOLATION_def stub_mathutils_def upt_rec)

text \<open>
  Claim C1 as stated fails for a comparison with a tolerance. With the values 10, 11, 12
  and 10 under linear interpolation, 11 is equal to 10 and 12 to 11 within the tolerance,
  so both are skipped; the last 10 differs from the 12 before it and is emitted. The two
  emitted keyframes are adjacent and have the same value.
\<close>

theorem tolerant_comparison_emits_equal_neighbours_counterexample:
  "value_frames_to_keys tolerant_mathutils 1 [0, 1, 2, 3] [10, 11, 12, 10]
     LINEAR_INTERPOLATION = Inr (ValueKeys [0, 3] [1, 1] 0 [10, 10]) \<and>
   transform_frames_to_keys tolerant_mathutils 1 [0, 1, 2, 3] [10, 11, 12, 10]
     LINEAR_INTERPOLATION =
     Inr (TransformKeys [0, 1, 0, 0, 0, 0, 0, 0, 1, 1, 1, 1,
                         3, 1, 0, 0, 0, 0, 0, 0, 1, 1, 1, 1]) \<and>
   emitted_keyframes tolerant_mathutils LINEAR_INTERPOLATION [0, 1, 2, 3] [10, 11, 12, 10] =
     [(0, 10), (3, 10)] \<and>
   \<not> distinct_adj [10, 10 :: int]"
  by (simp add: value_frames_to_keys_def transform_frames_to_keys_def same_as_previous_def
      py_index_def py_truediv_def transform_key_def tolerant_mathutils_def stub_mathutils_def
      close_values_def emitted_keyframes_def emitted_indices_def kept_def upt_rec
      LINEAR_INTERPOLATION_def)

section \<open>Properties of animation resources\<close>

lemma values_equal_stub: "values_equal stub_mathutils = (=)"
  by (simp add: stub_mathutils_def)

lemma Max_insert_max:
  "finite S \<Longrightarrow> Max (insert (max a b) S) = Max (insert (a::rat) (insert b S))"
  by (cases "S = {}") (simp_all add: max.assoc)

lemma add_track_effect:
  assumes "add_track mx fps r t = Inr r'"
  shows "fps \<noteq> 0 \<and> anim_length r' = max (anim_length r) (last_frame_time fps t) \<and>
         track_count r' = Suc (track_count r) \<and> res_name r' = res_name r"
  using assms
  by (auto simp: add_track_def py_truediv_def last_frame_time_def Let_def max_def
      split: if_splits sum.splits)

lemma add_tracks_length:
  "add_tracks mx fps r ts = Inr r' \<Longrightarrow>
     anim_length r' = Max (insert (anim_length r) (last_frame_time fps ` set ts)) \<and>
     track_count r' = track_count r + length ts"
proof (induction ts arbitrary: r)
  case Nil
  then show ?case by simp
next
  case (Cons t ts)
  then obtain r1 where r1: "add_track mx fps r t = Inr r1" and rest: "add_tracks mx fps r1 ts = Inr r'"
    by (auto split: sum.splits)
  have e: "anim_length r1 = max (anim_length r) (last_frame_time fps t)" "track_count r1 = Suc (track_count r)"
    using add_track_effect[OF r1] by simp_all
  have "Max (insert (max (anim_length r) (last_frame_time fps t)) (last_frame_time fps ` set ts)) =
        Max (insert (anim_length r) (insert (last_frame_time fps t) (last_frame_time fps ` set ts)))"
    by (rule Max_insert_max) simp
  then show ?case using Cons.IH[OF rest] e by simp
qed

lemma add_tracks_snoc:
  "add_tracks mx fps r (ts @ [t]) =
     (case add_tracks mx fps r ts of Inl e \<Rightarrow> Inl e | Inr r1 \<Rightarrow> add_track mx fps r1 t)"
  by (induction ts arbitrary: r) (auto split: sum.splits)

text \<open>
  Claim C3, as amended. A resource starts with length 0, and \<open>add_track\<close> raises the length
  only when the new track ends later. After every successful sequence of calls the length
  is therefore the maximum of 0 and of the last-frame times of the tracks added (frame of
  the last keyframe over the frame rate): it is that maximum over the tracks alone only
  when some track ends at a frame that is not negative. No call lowers the length, and a
  track that does not end later than the current length leaves it unchanged.
\<close>

theorem resource_length_is_max_with_zero:
  assumes "add_tracks mx fps (AnimationResource name) (ts @ [t]) = Inr r'"
  shows "\<exists>r. add_tracks mx fps (AnimationResource name) ts = Inr r \<and>
           add_track mx fps r t = Inr r' \<and>
           anim_length r' = Max (insert 0 (last_frame_time fps ` set (ts @ [t]))) \<and>
           anim_length r \<le> anim_length r' \<and>
           (last_frame_time fps t \<le> anim_length r \<longrightarrow> anim_length r' = anim_length r)"
proof -
  from assms obtain r where r: "add_tracks mx fps (AnimationResource name) ts = Inr r"
    and t: "add_track mx fps r t = Inr r'"
    by (auto simp: add_tracks_snoc split: sum.splits)
  have "anim_length r' = Max (insert 0 (last_frame_time fps ` set (ts @ [t])))"
    using add_tracks_length[OF assms] by (simp add: AnimationResource_def)
  moreover have "anim_length r' = max (anim_length r) (last_frame_time fps t)"
    using add_track_effect[OF t] by simp
  ultimately show ?thesis using r t by auto
qed

theorem resource_length_is_max_with_zero_witness:
  "add_tracks stub_mathutils 24 (AnimationResource ''Action'')
     ([Track ''value'' example_path [0, 48] [1, 2::rat]] @ [Track ''value'' example_path [0, 24] [3, 4]])
     = Inr \<lparr>res_type = ''Animation'', res_name = ''Action'', step = 1 / 10, anim_length = 2,
         track_count = 2,
         tracks = [(0, \<lparr>e_type = ''\"value\"'', e_path = example_path, e_interp = 1,
                        e_keys = Some (ValueKeys [0, 2] [1, 1] 0 [1, 2])\<rparr>),
                   (1, \<lparr>e_type = ''\"value\"'', e_path = example_path, e_interp = 1,
                        e_keys = Some (ValueKeys [0, 1] [1, 1] 0 [3, 4])\<rparr>)]\<rparr> \<and>
   Max (insert 0 (last_frame_time 24 `
     set ([Track ''value'' example_path [0, 48] [1, 2::rat]] @ [Track ''value'' example_path [0, 24] [3, 4]]))) = 2"
proof -
  have run: "add_tracks stub_mathutils 24 (AnimationResource ''Action'')
     ([Track ''value'' example_path [0, 48] [1, 2::rat]] @ [Track ''value'' example_path [0, 24] [3, 4]])
     = Inr \<lparr>res_type = ''Animation'', res_name = ''Action'', step = 1 / 10, anim_length = 2,
         track_count = 2,
         tracks = [(0, \<lparr>e_type = ''\"value\"'', e_path = example_path, e_interp = 1,
                        e_keys = Some (ValueKeys [0, 2] [1, 1] 0 [1, 2])\<rparr>),
                   (1, \<lparr>e_type = ''\"value\"'', e_path = example_path, e_interp = 1,
                        e_keys = Some (ValueKeys [0, 1] [1, 1] 0 [3, 4])\<rparr>)]\<rparr>"
    by (simp add: add_track_def AnimationResource_def Track_def frame_end_def py_truediv_def
        value_frames_to_keys_def same_as_previous_def values_equal_stub py_index_def LINEAR_INTERPOLATION_def)
  from resource_length_is_max_with_zero[OF run] run show ?thesis by auto
qed

text \<open>
  Claim C3 as stated fails for an action keyed at negative frames only: the single track
  below ends at frame -24, one second before time 0 at 24 frames per second, and the
  resource keeps its initial length 0.
\<close>

theorem resource_length_counterexample:
  "map_sum id anim_length
     (add_tracks stub_mathutils 24 (AnimationResource ''Action'')
        [Track ''value'' example_path [-48, -24] [1, 2::rat]]) = Inr 0 \<and>
   Max (last_frame_time 24 ` set [Track ''value'' example_path [-48, -24] [1, 2::rat]]) = - 1"
  by (simp add: add_track_def AnimationResource_def Track_def frame_end_def py_truediv_def
      value_frames_to_keys_def same_as_previous_def values_equal_stub py_index_def LINEAR_INTERPOLATION_def
      last_frame_time_def)

text \<open>
  Claim C10. A track without frames has \<open>frame_end\<close> and \<open>frame_begin\<close> 0, so its
  last-frame time is 0. Added to a resource built by \<open>add_track\<close> calls (at a frame rate
  other than 0, where the division raises), it is accepted, leaves the length as it was and
  takes the next track index.
\<close>

theorem empty_track_adds_no_length:
  assumes "frames t = []" and "fps \<noteq> 0"
    and "add_tracks mx fps (AnimationResource name) ts = Inr r"
  shows "frame_end t = 0 \<and> frame_begin t = 0 \<and> last_frame_time fps t = 0 \<and>
         (\<exists>r'. add_track mx fps r t = Inr r' \<and> anim_length r' = anim_length r \<and>
               track_count r' = Suc (track_count r))"
proof -
  have fe: "frame_end t = 0" "frame_begin t = 0"
    using assms(1) by (simp_all add: frame_end_def frame_begin_def)
  have nonneg: "0 \<le> anim_length r"
    using add_tracks_length[OF assms(3)] by (simp add: AnimationResource_def)
  have "\<exists>r'. add_track mx fps r t = Inr r'"
    using assms(1,2) fe
    by (simp add: add_track_def py_truediv_def Let_def transform_frames_to_keys_def
        value_frames_to_keys_def)
  then obtain r' where r': "add_track mx fps r t = Inr r'" ..
  have "anim_length r' = anim_length r" "track_count r' = Suc (track_count r)"
    using add_track_effect[OF r'] nonneg fe by (simp_all add: last_frame_time_def)
  then show ?thesis using fe r' by (simp add: last_frame_time_def)
qed

theorem empty_track_adds_no_length_witness:
  "frames (Track ''value'' example_path [] ([]::rat list)) = [] \<and> (24::int) \<noteq> 0 \<and>
   add_tracks stub_mathutils 24 (AnimationResource ''Action'')
     [Track ''value'' example_path [0, 48] [1, 2::rat]]
     = Inr \<lparr>res_type = ''Animation'', res_name = ''Action'', step = 1 / 10, anim_length = 2,
         track_count = 1,
         tracks = [(0, \<lparr>e_type = ''\"value\"'', e_path = example_path, e_interp = 1,
                        e_keys = Some (ValueKeys [0, 2] [1, 1] 0 [1, 2])\<rparr>)]\<rparr> \<and>
   map_sum id (\<lambda>r. (anim_length r, track_count r))
     (add_track stub_mathutils 24
        \<lparr>res_type = ''Animation'', res_name = ''Action'', step = 1 / 10, anim_length = 2,
         track_count = 1,
         tracks = [(0, \<lparr>e_type = ''\"value\"'', e_path = example_path, e_interp = 1,
                        e_keys = Some (ValueKeys [0, 2] [1, 1] 0 [1, 2::rat])\<rparr>)]\<rparr>
        (Track ''value'' example_path [] [])) = Inr (2, 2)"
proof -
  have e: "frames (Track ''value'' example_path [] ([]::rat list)) = []"
    by (simp add: Track_def)
  have run: "add_tracks stub_mathutils 24 (AnimationResource ''Action'')
     [Track ''value'' example_path [0, 48] [1, 2::rat]]
     = Inr \<lparr>res_type = ''Animation'', res_name = ''Action'', step = 1 / 10, anim_length = 2,
         track_count = 1,
         tracks = [(0, \<lparr>e_type = ''\"value\"'', e_path = example_path, e_interp = 1,
                        e_keys = Some (ValueKeys [0, 2] [1, 1] 0 [1, 2])\<rparr>)]\<rparr>"
    by (simp add: add_track_def AnimationResource_def Track_def frame_end_def py_truediv_def
        value_frames_to_keys_def same_as_previous_def values_equal_stub py_index_def LINEAR_INTERPOLATION_def)
  have f: "(24::int) \<noteq> 0" by simp
  from empty_track_adds_no_length[OF e f run] e run show ?thesis by auto
qed

section \<open>Properties of transform frames\<close>

lemma mat_mul_4x4:
  "mat_mul [[a0, a1, a2, a3], [b0, b1, b2, b3], [c0, c1, c2, c3], [d0, d1, d2, d3]]
           [[p0, p1, p2, p3], [q0, q1, q2, q3], [r0, r1, r2, r3], [s0, s1, s2, s3]] =
     [[a0 * p0 + a1 * q0 + a2 * r0 + a3 * s0, a0 * p1 + a1 * q1 + a2 * r1 + a3 * s1,
       a0 * p2 + a1 * q2 + a2 * r2 + a3 * s2, a0 * p3 + a1 * q3 + a2 * r3 + a3 * s3],
      [b0 * p0 + b1 * q0 + b2 * r0 + b3 * s0, b0 * p1 + b1 * q1 + b2 * r1 + b3 * s1,
       b0 * p2 + b1 * q2 + b2 * r2 + b3 * s2, b0 * p3 + b1 * q3 + b2 * r3 + b3 * s3],
      [c0 * p0 + c1 * q0 + c2 * r0 + c3 * s0, c0 * p1 + c1 * q1 + c2 * r1 + c3 * s1,
       c0 * p2 + c1 * q2 + c2 * r2 + c3 * s2, c0 * p3 + c1 * q3 + c2 * r3 + c3 * s3],
      [d0 * p0 + d1 * q0 + d2 * r0 + d3 * s0, d0 * p1 + d1 * q1 + d2 * r1 + d3 * s1,
       d0 * p2 + d1 * q2 + d2 * r2 + d3 * s2, d0 * p3 + d1 * q3 + d2 * r3 + d3 * s3]]"
  by (simp add: mat_mul_def transpose.simps)

text \<open>
  Claim C9. \<open>to_matrix\<close> is the matrix product translation * rotation * scale in that
  order (however the two products are grouped), with the rotation matrix taken from the
  quaternion when the rotation mode is \<open>QUATERNION\<close> and from the Euler rotation otherwise,
  and the scale matrix the diagonal of the three scale components. Entry by entry: column
  \<open>j\<close> of the rotation is multiplied by scale component \<open>j\<close>, and the last column is the
  location, neither rotated nor scaled.
\<close>

theorem to_matrix_is_translation_rotation_scale:
  "to_matrix lib self =
     mat_mul
       (mat_mul (Translation (location self))
          (to_4x4 (if rotation_mode self = ''QUATERNION''
                   then quaternion_to_matrix lib (rotation_quaternion self)
                   else euler_to_matrix lib (rotation_euler self))))
       (to_4x4 (Mat3 (vx (scale self)) 0 0 0 (vy (scale self)) 0 0 0 (vz (scale self)))) \<and>
   to_matrix lib self =
     mat_mul (Translation (location self))
       (mat_mul
          (to_4x4 (if rotation_mode self = ''QUATERNION''
                   then quaternion_to_matrix lib (rotation_quaternion self)
                   else euler_to_matrix lib (rotation_euler self)))
          (to_4x4 (Mat3 (vx (scale self)) 0 0 0 (vy (scale self)) 0 0 0 (vz (scale self))))) \<and>
   (case (if rotation_mode self = ''QUATERNION''
          then quaternion_to_matrix lib (rotation_quaternion self)
          else euler_to_matrix lib (rotation_euler self)) of
      Mat3 a b c d e f g h i \<Rightarrow>
        to_matrix lib self =
          [[a * vx (scale self), b * vy (scale self), c * vz (scale self), vx (location self)],
           [d * vx (scale self), e * vy (scale self), f * vz (scale self), vy (location self)],
           [g * vx (scale self), h * vy (scale self), i * vz (scale self), vz (location self)],
           [0, 0, 0, 1]])"
proof (cases "if rotation_mode self = ''QUATERNION''
          then quaternion_to_matrix lib (rotation_quaternion self)
          else euler_to_matrix lib (rotation_euler self)")
  case (Mat3 a b c d e f g h i)
  have tm: "to_matrix lib self =
     mat_mul (mat_mul (Translation (location self)) (to_4x4 (Mat3 a b c d e f g h i)))
       (to_4x4 (Mat3 (vx (scale self)) 0 0 0 (vy (scale self)) 0 0 0 (vz (scale self))))"
    using Mat3 by (simp add: to_matrix_def Let_def split: if_splits)
  show ?thesis
    unfolding tm Mat3
    by (simp add: Translation_def mat_mul_4x4)
qed

section \<open>Properties of the transform exporter\<close>

lemma unsupported_bone_init:
  assumes "startswith object_path ''pose''"
    and "blender_path_to_bone_name object_path = Inr bname"
    and "get_type node \<noteq> ''Skeleton'' \<or> find_bone_id node bname = - 1"
  shows "init_transform_frame_values mx lib object_path blender_obj node first_frame last_frame =
           Inr (None, if get_type node \<noteq> ''Skeleton'' then [skip_bone_warning blender_obj] else [])"
  using assms by (auto simp: init_transform_frame_values_def)

lemma evaluate_fcurve_other_key:
  "evaluate_fcurve fc key attribute first_frame last_frame m = Inr m' \<Longrightarrow> k \<noteq> key \<Longrightarrow>
     map_of m' k = map_of m k"
  by (auto simp: evaluate_fcurve_def update_conv' split: option.splits sum.splits)

lemma collect_keeps_unsupported_out:
  assumes "startswith object_path ''pose''"
    and "blender_path_to_bone_name object_path = Inr bname"
    and "get_type node \<noteq> ''Skeleton'' \<or> find_bone_id node bname = - 1"
  shows "collect_frame_values mx lib blender_obj node first_frame last_frame fcs (m, logged)
           = Inr (m', logged') \<Longrightarrow>
         map_of m object_path = None \<Longrightarrow> map_of m' object_path = None"
proof (induction fcs arbitrary: m logged)
  case Nil
  then show ?case by simp
next
  case (Cons fc rest)
  obtain key attribute where sp: "split_fcurve_data_path (data_path fc) = (key, attribute)"
    by (cases "split_fcurve_data_path (data_path fc)")
  note init = unsupported_bone_init[OF assms, of mx lib blender_obj first_frame last_frame]
  show ?case
  proof (cases "key = object_path")
    case True
    with Cons.prems sp init
    have "collect_frame_values mx lib blender_obj node first_frame last_frame rest
            (m, if attribute \<in> ATTRIBUTES
                then logged @ (if get_type node \<noteq> ''Skeleton''
                               then [skip_bone_warning blender_obj] else [])
                else logged) = Inr (m', logged')"
      by (simp split: if_splits)
    then show ?thesis using Cons.IH Cons.prems(2) by blast
  next
    case False
    from Cons.prems(1) sp obtain m1 logged1 where
      step: "collect_frame_values mx lib blender_obj node first_frame last_frame rest
               (m1, logged1) = Inr (m', logged')"
      and keep: "map_of m1 object_path = map_of m object_path"
      by (auto simp: update_conv' False[symmetric]
          split: if_splits sum.splits prod.splits
          dest: evaluate_fcurve_other_key[where k = object_path])
    then show ?thesis using Cons.IH Cons.prems(2) by simp
  qed
qed

lemma add_track_count:
  "add_track mx fps r t = Inr r' \<Longrightarrow> track_count r' = Suc (track_count r)"
  by (auto simp: add_track_def Let_def split: if_splits sum.splits)

lemma emit_tracks_count:
  "emit_tracks mx lib fps node player_parent_path blender_obj first_frame last_frame m bound res
     = Inr res' \<Longrightarrow> track_count res' = track_count res + length m"
proof (induction m arbitrary: bound res)
  case Nil
  then show ?case by simp
next
  case (Cons entry rest)
  obtain key frame_value_list where e: "entry = (key, frame_value_list)" by (cases entry)
  from Cons.prems obtain b r1 where
    a: "add_track mx fps res (Track ''transform'' (fst b) [first_frame..last_frame - 1] (snd b))
          = Inr r1"
    and r: "emit_tracks mx lib fps node player_parent_path blender_obj first_frame last_frame
              rest (Some b) r1 = Inr res'"
    unfolding e emit_tracks.simps
    by (auto split: sum.splits prod.splits)
  show ?case using Cons.IH[OF r] add_track_count[OF a] by simp
qed

text \<open>
  Claim C7, as amended. For an object path that names a pose bone, when the Godot node is
  not a \<open>Skeleton\<close> or the skeleton does not have the bone: the initialisation returns no
  frame list and raises nothing; a transform curve of that path is passed over, the
  dictionary unchanged; and whenever the export returns, the path is not a key of the
  dictionary the tracks are made from (one track per key). A warning is logged only when
  the node is not a \<open>Skeleton\<close>, once for every transform curve of the path; a bone missing
  from the skeleton is skipped without a warning.
\<close>

theorem unsupported_bone_curves_are_skipped:
  assumes "startswith object_path ''pose''"
    and "blender_path_to_bone_name object_path = Inr bname"
    and "get_type node \<noteq> ''Skeleton'' \<or> find_bone_id node bname = - 1"
  shows
    "init_transform_frame_values mx lib object_path blender_obj node first_frame last_frame =
       Inr (None, if get_type node \<noteq> ''Skeleton'' then [skip_bone_warning blender_obj] else []) \<and>
     (\<forall>(fc::fcurve) rest m logged attribute.
        split_fcurve_data_path (data_path fc) = (object_path, attribute) \<and>
        attribute \<in> ATTRIBUTES \<and> map_of m object_path = None \<longrightarrow>
        collect_frame_values mx lib blender_obj node first_frame last_frame (fc # rest) (m, logged) =
        collect_frame_values mx lib blender_obj node first_frame last_frame rest
          (m, logged @ (if get_type node \<noteq> ''Skeleton''
                        then [skip_bone_warning blender_obj] else []))) \<and>
     (\<forall>res res' logged.
        export_transform_action mx lib fps node player_parent_path blender_obj act res =
          Inr (res', logged) \<longrightarrow>
        (\<exists>m. collect_frame_values mx lib blender_obj node (fst (get_action_frame_range act))
                (snd (get_action_frame_range act)) (fcurves act) ([], []) = Inr (m, logged) \<and>
             map_of m object_path = None \<and>
             track_count res' = track_count res + length m))"
proof (intro conjI allI impI)
  show "init_transform_frame_values mx lib object_path blender_obj node first_frame last_frame =
       Inr (None, if get_type node \<noteq> ''Skeleton'' then [skip_bone_warning blender_obj] else [])"
    by (rule unsupported_bone_init[OF assms])
next
  fix fc :: fcurve and rest :: "fcurve list" and m :: frame_values_map
    and logged :: "string list" and attribute :: string
  assume "split_fcurve_data_path (data_path fc) = (object_path, attribute) \<and>
        attribute \<in> ATTRIBUTES \<and> map_of m object_path = None"
  then show "collect_frame_values mx lib blender_obj node first_frame last_frame (fc # rest) (m, logged) =
        collect_frame_values mx lib blender_obj node first_frame last_frame rest
          (m, logged @ (if get_type node \<noteq> ''Skeleton''
                        then [skip_bone_warning blender_obj] else []))"
    using unsupported_bone_init[OF assms, of mx lib blender_obj first_frame last_frame]
    by simp
next
  fix res res' :: "mat animation_resource" and logged :: "string list"
  assume ex: "export_transform_action mx lib fps node player_parent_path blender_obj act res =
          Inr (res', logged)"
  obtain f l where fl: "get_action_frame_range act = (f, l)"
    by (cases "get_action_frame_range act")
  from ex fl obtain m where
    c: "collect_frame_values mx lib blender_obj node f l (fcurves act) ([], []) = Inr (m, logged)"
    and e: "emit_tracks mx lib fps node player_parent_path blender_obj f l m None res = Inr res'"
    by (auto simp: export_transform_action_def split: sum.splits prod.splits)
  have "map_of m object_path = None"
    using collect_keeps_unsupported_out[OF assms c] by simp
  then show "\<exists>m. collect_frame_values mx lib blender_obj node (fst (get_action_frame_range act))
                (snd (get_action_frame_range act)) (fcurves act) ([], []) = Inr (m, logged) \<and>
             map_of m object_path = None \<and>
             track_count res' = track_count res + length m"
    using c emit_tracks_count[OF e] fl by auto
qed

theorem unsupported_bone_curves_are_skipped_witness:
  "startswith ''pose.bones[\"Arm\"]'' ''pose'' \<and>
   blender_path_to_bone_name ''pose.bones[\"Arm\"]'' = Inr ''Arm'' \<and>
   get_type example_spatial \<noteq> ''Skeleton'' \<and>
   init_transform_frame_values stub_mathutils stub_transform_lib ''pose.bones[\"Arm\"]''
     example_object example_spatial 1 3 = Inr (None, [skip_bone_warning example_object]) \<and>
   map_sum id (\<lambda>(res, logged). (track_count res, logged))
     (export_transform_action stub_mathutils stub_transform_lib 24 example_spatial ''.''
        example_object example_bone_action (AnimationResource ''Wave''))
     = Inr (0, [skip_bone_warning example_object])"
proof -
  have a: "startswith ''pose.bones[\"Arm\"]'' ''pose''"
    by (simp add: startswith_def)
  have b: "blender_path_to_bone_name ''pose.bones[\"Arm\"]'' = Inr ''Arm''"
    by (simp add: blender_path_to_bone_name_def match_bone_def)
  have c: "get_type example_spatial \<noteq> ''Skeleton'' \<or> find_bone_id example_spatial ''Arm'' = - 1"
    by (simp add: example_spatial_def)
  have sp: "split_fcurve_data_path ''pose.bones[\"Arm\"].location'' =
              (''pose.bones[\"Arm\"]'', ''location'')"
    by (simp add: split_fcurve_data_path_def)
  have rng: "get_action_frame_range example_bone_action = (1, 3)"
    by (simp add: get_action_frame_range_def example_bone_action_def py_int_def)
  have fcs: "fcurves example_bone_action =
      [\<lparr>data_path = ''pose.bones[\"Arm\"].location'', array_index = 0,
        evaluate = (\<lambda>frame. of_int frame)\<rparr>]"
    by (simp add: example_bone_action_def)
  note t = unsupported_bone_curves_are_skipped[OF a b c, of stub_mathutils stub_transform_lib
      example_object 1 3]
  have init: "init_transform_frame_values stub_mathutils stub_transform_lib ''pose.bones[\"Arm\"]''
     example_object example_spatial 1 3 = Inr (None, [skip_bone_warning example_object])"
    using t by (simp add: example_spatial_def)
  have "export_transform_action stub_mathutils stub_transform_lib 24 example_spatial ''.''
        example_object example_bone_action (AnimationResource ''Wave'')
        = Inr (AnimationResource ''Wave'', [skip_bone_warning example_object])"
    by (simp add: export_transform_action_def rng fcs sp init ATTRIBUTES_def)
  then show ?thesis using a b init by (simp add: example_spatial_def AnimationResource_def)
qed

text \<open>
  Claim C7 as stated fails where the skeleton does not have the bone: the curve of bone
  \<open>Arm\<close> is skipped and the export returns, but nothing is logged.
\<close>

theorem missing_bone_logs_nothing_counterexample:
  "get_type example_skeleton = ''Skeleton'' \<and> find_bone_id example_skeleton ''Arm'' = - 1 \<and>
   init_transform_frame_values stub_mathutils stub_transform_lib ''pose.bones[\"Arm\"]''
     example_object example_skeleton 1 3 = Inr (None, []) \<and>
   map_sum id (\<lambda>(res, logged). (track_count res, logged))
     (export_transform_action stub_mathutils stub_transform_lib 24 example_skeleton ''.''
        example_object example_bone_action (AnimationResource ''Wave''))
     = Inr (0, [])"
proof -
  have a: "startswith ''pose.bones[\"Arm\"]'' ''pose''"
    by (simp add: startswith_def)
  have b: "blender_path_to_bone_name ''pose.bones[\"Arm\"]'' = Inr ''Arm''"
    by (simp add: blender_path_to_bone_name_def match_bone_def)
  have sp: "split_fcurve_data_path ''pose.bones[\"Arm\"].location'' =
              (''pose.bones[\"Arm\"]'', ''location'')"
    by (simp add: split_fcurve_data_path_def)
  have rng: "get_action_frame_range example_bone_action = (1, 3)"
    by (simp add: get_action_frame_range_def example_bone_action_def py_int_def)
  have fcs: "fcurves example_bone_action =
      [\<lparr>data_path = ''pose.bones[\"Arm\"].location'', array_index = 0,
        evaluate = (\<lambda>frame. of_int frame)\<rparr>]"
    by (simp add: example_bone_action_def)
  have init: "init_transform_frame_values stub_mathutils stub_transform_lib ''pose.bones[\"Arm\"]''
     example_object example_skeleton 1 3 = Inr (None, [])"
    using a b by (simp add: init_transform_frame_values_def example_skeleton_def)
  have "export_transform_action stub_mathutils stub_transform_lib 24 example_skeleton ''.''
        example_object example_bone_action (AnimationResource ''Wave'')
        = Inr (AnimationResource ''Wave'', [])"
    by (simp add: export_transform_action_def rng fcs sp init ATTRIBUTES_def)
  then show ?thesis using init by (simp add: example_skeleton_def AnimationResource_def)
qed

section \<open>Properties of the choice of player\<close>

lemma find_player_from_None:
  "find_player_from i cs = None \<longleftrightarrow> \<not> list_ex (\<lambda>c. sn_type c = ''AnimationPlayer'') cs"
  by (induction cs arbitrary: i) auto

lemma find_player_from_Some:
  "find_player_from i cs = Some j \<Longrightarrow>
     i \<le> j \<and> j - i < length cs \<and> sn_type (cs ! (j - i)) = ''AnimationPlayer''"
proof (induction cs arbitrary: i)
  case Nil
  then show ?case by simp
next
  case (Cons c cs)
  show ?case
  proof (cases "sn_type c = ''AnimationPlayer''")
    case True
    then show ?thesis using Cons.prems by simp
  next
    case False
    then have "find_player_from (Suc i) cs = Some j" using Cons.prems by simp
    from Cons.IH[OF this] have a: "Suc i \<le> j" and b: "j - Suc i < length cs"
      and c: "sn_type (cs ! (j - Suc i)) = ''AnimationPlayer''" by simp_all
    from a have d: "j - i = Suc (j - Suc i)" by simp
    show ?thesis using a b c by (simp add: d)
  qed
qed

lemma find_player_from_snoc:
  "find_player_from i cs = None \<Longrightarrow> sn_type new = ''AnimationPlayer'' \<Longrightarrow>
     find_player_from i (cs @ [new]) = Some (i + length cs)"
  by (induction cs arbitrary: i) (auto split: if_splits)

lemma node_at_update_at_same:
  "node_at scene ref = Some n \<Longrightarrow> node_at (update_at scene ref f) ref = Some (f n)"
proof (induction ref arbitrary: f n)
  case Nil
  then show ?case by simp
next
  case (Cons i parent)
  from Cons.prems obtain p where p: "node_at scene parent = Some p"
    and i: "i < length (children p)" and n: "n = children p ! i"
    by (auto split: option.splits if_splits)
  have "node_at (update_at scene parent (set_child i f)) parent = Some (set_child i f p)"
    by (rule Cons.IH[OF p])
  then show ?case using i n by (simp add: set_child_def)
qed

lemma sum_list_map_update:
  "i < length xs \<Longrightarrow>
     sum_list (map g (xs[i := y])) + g (xs ! i) = sum_list (map g xs) + (g y :: nat)"
  by (induction xs arbitrary: i) (auto simp: nth_Cons split: nat.splits)

lemma count_players_set_child:
  "i < length (children p) \<Longrightarrow>
     count_players (set_child i f p) + count_players (children p ! i) =
     count_players p + count_players (f (children p ! i))"
  using sum_list_map_update[of i "children p" count_players "f (children p ! i)"]
  by (cases p) (simp add: set_child_def)

lemma count_players_update_at:
  "node_at scene ref = Some n \<Longrightarrow>
     count_players (update_at scene ref f) + count_players n =
     count_players scene + count_players (f n)"
proof (induction ref arbitrary: f n)
  case Nil
  then show ?case by simp
next
  case (Cons i parent)
  from Cons.prems obtain p where p: "node_at scene parent = Some p"
    and i: "i < length (children p)" and n: "n = children p ! i"
    by (auto split: option.splits if_splits)
  have "count_players (update_at scene parent (set_child i f)) + count_players p =
        count_players scene + count_players (set_child i f p)"
    by (rule Cons.IH[OF p])
  moreover have "count_players (set_child i f p) + count_players n =
        count_players p + count_players (f n)"
    using count_players_set_child[OF i] n by simp
  ultimately show ?case by simp
qed

lemma count_players_add_player:
  "node_at scene ref = Some n \<Longrightarrow>
     count_players (update_at scene ref (add_child (AnimationPlayer nm))) =
     Suc (count_players scene)"
  using count_players_update_at[of scene ref n "add_child (AnimationPlayer nm)"]
  by (cases n) (simp add: add_child_def AnimationPlayer_def)

lemma has_player_find:
  "has_player n \<longleftrightarrow> find_player_from 0 (children n) \<noteq> None"
  by (simp add: has_player_def find_player_from_None)

lemma scene_root_of_Nil: "scene_root_of ref = []"
  by (induction ref) auto

lemma search_up_result:
  "node_at scene ref = Some n \<Longrightarrow>
     \<exists>r. search_up scene ref = Inr r \<and>
         (r = None \<longleftrightarrow>
            \<not> list_ex (\<lambda>q. case node_at scene q of None \<Rightarrow> False | Some m \<Rightarrow> has_player m)
                 (ancestors_and_self ref)) \<and>
         (\<forall>p. r = Some p \<longrightarrow>
            tl p \<in> set (ancestors_and_self ref) \<and>
            (\<exists>m. node_at scene p = Some m \<and> sn_type m = ''AnimationPlayer''))"
proof (induction ref arbitrary: n)
  case Nil
  then have n: "n = scene" by simp
  show ?case
  proof (cases "find_player_from 0 (children scene)")
    case None
    then show ?thesis by (simp add: has_player_find)
  next
    case (Some i)
    from find_player_from_Some[OF Some] show ?thesis
      using Some by (simp add: has_player_find)
  qed
next
  case (Cons k parent)
  from Cons.prems obtain p where p: "node_at scene parent = Some p"
    by (auto split: option.splits)
  show ?case
  proof (cases "find_player_from 0 (children n)")
    case None
    from Cons.IH[OF p] obtain r where r: "search_up scene parent = Inr r"
      and rn: "r = None \<longleftrightarrow>
            \<not> list_ex (\<lambda>q. case node_at scene q of None \<Rightarrow> False | Some m \<Rightarrow> has_player m)
                 (ancestors_and_self parent)"
      and rs: "\<forall>q. r = Some q \<longrightarrow>
            tl q \<in> set (ancestors_and_self parent) \<and>
            (\<exists>m. node_at scene q = Some m \<and> sn_type m = ''AnimationPlayer'')"
      by blast
    have "search_up scene (k # parent) = Inr r"
      using Cons.prems None r by simp
    moreover have "\<not> has_player n" using None by (simp add: has_player_find)
    ultimately show ?thesis using rn rs Cons.prems by auto
  next
    case (Some i)
    have s: "search_up scene (k # parent) = Inr (Some (i # k # parent))"
      using Cons.prems Some by simp
    have hp: "has_player n" using Some by (simp add: has_player_find)
    from find_player_from_Some[OF Some]
    have "node_at scene (i # k # parent) = Some (children n ! i)"
      and "sn_type (children n ! i) = ''AnimationPlayer''"
      using Cons.prems by simp_all
    then show ?thesis using s hp Cons.prems by auto
  qed
qed

lemma search_up_after_create:
  assumes "node_at scene ref = Some n" and "find_player_from 0 (children n) = None"
  shows "search_up (update_at scene ref (add_child (AnimationPlayer nm))) ref =
           Inr (Some (length (children n) # ref))"
proof -
  have at: "node_at (update_at scene ref (add_child (AnimationPlayer nm))) ref =
              Some (add_child (AnimationPlayer nm) n)"
    by (rule node_at_update_at_same[OF assms(1)])
  have f: "find_player_from 0 (children (add_child (AnimationPlayer nm) n)) =
             Some (length (children n))"
    using find_player_from_snoc[OF assms(2), of "AnimationPlayer nm"]
    by (simp add: add_child_def AnimationPlayer_def)
  show ?thesis
  proof (cases ref)
    case Nil
    then show ?thesis using at f by simp
  next
    case (Cons k parent)
    then show ?thesis using at f by simp
  qed
qed

lemma created_player:
  assumes "node_at (tree escn) base = Some b"
    and "escn' = add_node
           (escn\<lparr>tree := update_at (tree escn) base
                            (add_child (AnimationPlayer ''AnimationPlayer''))\<rparr>)
           (length (children b) # base)"
  shows "node_at (tree escn') (length (children b) # base) =
           Some (AnimationPlayer ''AnimationPlayer'')"
    and "nodes escn' = nodes escn @ [length (children b) # base]"
    and "internal_resources escn' = internal_resources escn"
    and "count_players (tree escn') = Suc (count_players (tree escn))"
proof -
  have t: "tree escn' = update_at (tree escn) base (add_child (AnimationPlayer ''AnimationPlayer''))"
    using assms(2) by (simp add: add_node_def)
  have "node_at (tree escn') base = Some (add_child (AnimationPlayer ''AnimationPlayer'') b)"
    unfolding t by (rule node_at_update_at_same[OF assms(1)])
  then show "node_at (tree escn') (length (children b) # base) =
           Some (AnimationPlayer ''AnimationPlayer'')"
    by (simp add: add_child_def)
  show "nodes escn' = nodes escn @ [length (children b) # base]"
    using assms(2) by (simp add: add_node_def)
  show "internal_resources escn' = internal_resources escn"
    using assms(2) by (simp add: add_node_def)
  show "count_players (tree escn') = Suc (count_players (tree escn))"
    unfolding t by (rule count_players_add_player[OF assms(1)])
qed

lemma self_in_ancestors: "ref \<in> set (ancestors_and_self ref)"
  by (cases ref) auto

text \<open>
  Claim C6, as amended. For a node of the tree, \<open>get_animation_player\<close> returns an
  \<open>AnimationPlayer\<close> node whose parent lies on the search path of the mode. In the modes
  \<open>SCENE_ANIMATION\<close> and \<open>SQUASHED_ACTIONS\<close> (any mode but \<open>ACTIONS\<close>) it returns a player
  that is already there whenever one is a child of a node on the search path, and changes
  nothing; only when there is none it creates exactly one, and a second call for the same
  node in the same mode returns that same player and creates nothing. In the mode
  \<open>ACTIONS\<close> no search is made: every call creates one new player under the node.
\<close>

theorem player_reused_or_created_once:
  assumes "node_at (tree escn) node = Some n"
  shows "\<exists>player escn'.
     get_animation_player escn animation_modes node = Inr (player, escn') \<and>
     (\<exists>p. node_at (tree escn') player = Some p \<and> sn_type p = ''AnimationPlayer'') \<and>
     tl player \<in> set (search_path animation_modes node) \<and>
     (if animation_modes \<noteq> ''ACTIONS'' \<and> player_on_path (tree escn) animation_modes node
      then escn' = escn
      else nodes escn' = nodes escn @ [player] \<and>
           internal_resources escn' = internal_resources escn \<and>
           count_players (tree escn') = Suc (count_players (tree escn))) \<and>
     (animation_modes \<noteq> ''ACTIONS'' \<longrightarrow>
        get_animation_player escn' animation_modes node = Inr (player, escn'))"
proof -
  consider (actions) "animation_modes = ''ACTIONS''"
    | (scene) "animation_modes \<noteq> ''ACTIONS''" "animation_modes = ''SCENE_ANIMATION''"
    | (squashed) "animation_modes \<noteq> ''ACTIONS''" "animation_modes \<noteq> ''SCENE_ANIMATION''"
    by blast
  then show ?thesis
  proof cases
    case actions
    define escn' where "escn' = add_node
           (escn\<lparr>tree := update_at (tree escn) node
                            (add_child (AnimationPlayer ''AnimationPlayer''))\<rparr>)
           (length (children n) # node)"
    have g: "get_animation_player escn animation_modes node =
               Inr (length (children n) # node, escn')"
      using actions assms by (simp add: get_animation_player_def Let_def escn'_def)
    note c = created_player[OF assms escn'_def]
    show ?thesis
      using g c actions by (simp add: search_path_def AnimationPlayer_def)
  next
    case scene
    have r: "scene_root_of node = []" by (rule scene_root_of_Nil)
    have top: "node_at (tree escn) [] = Some (tree escn)" by simp
    have pp: "player_on_path (tree escn) animation_modes node \<longleftrightarrow>
                find_player_from 0 (children (tree escn)) \<noteq> None"
      using scene by (simp add: player_on_path_def search_path_def has_player_find)
    show ?thesis
    proof (cases "find_player_from 0 (children (tree escn))")
      case None
      define escn' where "escn' = add_node
           (escn\<lparr>tree := update_at (tree escn) []
                            (add_child (AnimationPlayer ''AnimationPlayer''))\<rparr>)
           (length (children (tree escn)) # [])"
      have g: "get_animation_player escn animation_modes node =
               Inr ([length (children (tree escn))], escn')"
        using scene None by (simp add: get_animation_player_def Let_def r escn'_def)
      note c = created_player[OF top escn'_def]
      have t: "tree escn' = add_child (AnimationPlayer ''AnimationPlayer'') (tree escn)"
        by (simp add: escn'_def add_node_def)
      have f: "find_player_from 0 (children (tree escn')) = Some (length (children (tree escn)))"
        using find_player_from_snoc[OF None, of "AnimationPlayer ''AnimationPlayer''"]
        by (simp add: t add_child_def AnimationPlayer_def)
      have again: "get_animation_player escn' animation_modes node =
               Inr ([length (children (tree escn))], escn')"
        using scene f by (simp add: get_animation_player_def Let_def r)
      show ?thesis
        using g c again scene pp None by (simp add: search_path_def AnimationPlayer_def)
    next
      case (Some i)
      have g: "get_animation_player escn animation_modes node = Inr ([i], escn)"
        using scene Some by (simp add: get_animation_player_def Let_def r)
      from find_player_from_Some[OF Some]
      have "node_at (tree escn) [i] = Some (children (tree escn) ! i)"
        and "sn_type (children (tree escn) ! i) = ''AnimationPlayer''"
        by simp_all
      then show ?thesis
        using g scene pp Some by (simp add: search_path_def)
    qed
  next
    case squashed
    from search_up_result[OF assms] obtain r where r: "search_up (tree escn) node = Inr r"
      and rn: "r = None \<longleftrightarrow> \<not> player_on_path (tree escn) animation_modes node"
      and rs: "\<forall>p. r = Some p \<longrightarrow>
            tl p \<in> set (ancestors_and_self node) \<and>
            (\<exists>m. node_at (tree escn) p = Some m \<and> sn_type m = ''AnimationPlayer'')"
      using squashed by (auto simp: player_on_path_def search_path_def)
    show ?thesis
    proof (cases r)
      case None
      define escn' where "escn' = add_node
           (escn\<lparr>tree := update_at (tree escn) node
                            (add_child (AnimationPlayer ''AnimationPlayer''))\<rparr>)
           (length (children n) # node)"
      have g: "get_animation_player escn animation_modes node =
               Inr (length (children n) # node, escn')"
        using squashed r None assms by (simp add: get_animation_player_def Let_def escn'_def)
      note c = created_player[OF assms escn'_def]
      have nf: "find_player_from 0 (children n) = None"
      proof -
        have "\<not> has_player n"
          using rn None assms squashed self_in_ancestors[of node]
          by (auto simp: player_on_path_def search_path_def list_ex_iff)
        then show ?thesis by (simp add: has_player_find)
      qed
      have t: "tree escn' = update_at (tree escn) node
                 (add_child (AnimationPlayer ''AnimationPlayer''))"
        by (simp add: escn'_def add_node_def)
      have again: "get_animation_player escn' animation_modes node =
               Inr (length (children n) # node, escn')"
        using squashed search_up_after_create[OF assms nf, of "''AnimationPlayer''"]
        by (simp add: get_animation_player_def Let_def t)
      show ?thesis
        using g c again squashed rn None self_in_ancestors[of node]
        by (simp add: search_path_def AnimationPlayer_def)
    next
      case (Some p)
      have g: "get_animation_player escn animation_modes node = Inr (p, escn)"
        using squashed r Some by (simp add: get_animation_player_def Let_def)
      show ?thesis
        using g rs rn Some squashed by (auto simp: search_path_def)
    qed
  qed
qed

theorem player_reused_or_created_once_witness:
  "node_at (tree (example_escn :: mat escn_file)) [0, 0] =
     Some (SceneNode ''MeshInstance'' ''Cube'' None [] []) \<and>
   get_animation_player (example_escn :: mat escn_file) ''SQUASHED_ACTIONS'' [0, 0] =
     Inr ([0, 0, 0], example_escn_with_player) \<and>
   get_animation_player (example_escn_with_player :: mat escn_file) ''SQUASHED_ACTIONS'' [0, 0] =
     Inr ([0, 0, 0], example_escn_with_player) \<and>
   get_animation_player (example_escn_with_player :: mat escn_file) ''SCENE_ANIMATION'' [0, 0] =
     Inr ([1],
       \<lparr>tree =
          SceneNode ''Spatial'' ''Scene'' None []
            [SceneNode ''Spatial'' ''Armature'' None []
               [SceneNode ''MeshInstance'' ''Cube'' None []
                  [SceneNode ''AnimationPlayer'' ''AnimationPlayer'' None [] []]],
             SceneNode ''AnimationPlayer'' ''AnimationPlayer'' None [] []],
        nodes = [[0, 0, 0], [1]], internal_resources = []\<rparr>)"
proof -
  have h: "node_at (tree (example_escn :: mat escn_file)) [0, 0] =
     Some (SceneNode ''MeshInstance'' ''Cube'' None [] [])"
    by (simp add: example_escn_def example_tree_def)
  from player_reused_or_created_once[OF h, of "''SQUASHED_ACTIONS''"] h
  show ?thesis
    by (simp add: get_animation_player_def Let_def example_escn_def example_tree_def
        example_escn_with_player_def add_node_def add_child_def AnimationPlayer_def
        set_child_def)
qed

text \<open>
  Claim C6 as stated fails in the mode \<open>ACTIONS\<close>: two calls for the same node (an object
  with a transform action and a shape key action is exported twice) create two players
  under it.
\<close>

theorem actions_mode_duplicates_player_counterexample:
  "get_animation_player (example_escn :: mat escn_file) ''ACTIONS'' [0, 0] =
     Inr ([0, 0, 0], example_escn_with_player) \<and>
   get_animation_player (example_escn_with_player :: mat escn_file) ''ACTIONS'' [0, 0] =
     Inr ([1, 0, 0], example_escn_two_players) \<and>
   count_players (tree (example_escn :: mat escn_file)) = 0 \<and>
   count_players (tree (example_escn_two_players :: mat escn_file)) = 2"
  by (simp add: get_animation_player_def Let_def example_escn_def example_tree_def
      example_escn_with_player_def example_escn_two_players_def add_node_def add_child_def
      AnimationPlayer_def set_child_def)

section \<open>Properties of baking\<close>

lemma bake_call_result:
  assumes "bake_constraint_to_action lib blender_obj base_action bake_type in_place w = Inr (ret, w')"
  shows "\<exists>call s b s3 s4.
     trace w' = trace w @ [(call, s)] \<and> bake_action lib call s = Inr (b, s3) \<and>
     bc_do_pose call = (bake_type = ''POSE'') \<and> bc_do_object call = (bake_type \<noteq> ''POSE'') \<and>
     bc_action call = (if in_place then base_action else None) \<and>
     bc_obj call = (if version_le_2_79 lib then None else Some (object_name blender_obj)) \<and>
     bc_frame_step call = 1 \<and> \<not> bc_only_selected call \<and> bc_do_visual_keying call \<and>
     actions s = actions (bpy w) \<and>
     active_object s = (if version_le_2_79 lib then Some (object_name blender_obj)
                        else active_object (bpy w)) \<and>
     s4 = (if version_le_2_79 lib then s3\<lparr>active_object := active_object (bpy w)\<rparr> else s3) \<and>
     ret = (if in_place then base_action else Some b) \<and>
     (if in_place then bpy w' = s4
      else (case base_action of
              None \<Rightarrow>
                set_action_name b (object_name blender_obj @ ''Action'') s4 = Inr (bpy w')
            | Some a \<Rightarrow>
                (\<exists>named. actions s4 a = Some named \<and>
                   set_action_name b (strip_suffix (action_name named)) s4 = Inr (bpy w')))) \<and>
     (case base_action of
        None \<Rightarrow> bc_frame_start call = 1 \<and> bc_frame_end call = 250 \<and>
               animation_data s = animation_data (bpy w)
      | Some a \<Rightarrow>
          (\<exists>act ad. actions (bpy w) a = Some act \<and> animation_data (bpy w) = Some ad \<and>
             animation_data s = Some (ad\<lparr>ad_action := Some a\<rparr>) \<and>
             bc_frame_start call = py_int (fst (frame_range act)) \<and>
             bc_frame_end call = py_int (snd (frame_range act)) + 1))"
proof (cases base_action)
  case None
  with assms show ?thesis
    by (auto simp: bake_constraint_to_action_def Let_def
        split: sum.splits prod.splits if_splits)
next
  case (Some a)
  with assms obtain ad act where ad: "animation_data (bpy w) = Some ad"
    and act: "actions (bpy w) a = Some act"
    by (auto simp: bake_constraint_to_action_def Let_def lookup_action_def
        split: sum.splits prod.splits if_splits option.splits)
  with assms Some show ?thesis
    by (auto simp: bake_constraint_to_action_def Let_def lookup_action_def
        get_action_frame_range_def
        split: sum.splits prod.splits if_splits option.splits)
qed

text \<open>
  Claim C8. Every call of \<open>bake_constraint_to_action\<close> that returns has made one call of
  the library's \<open>bake_action\<close>, and that call returned. Without a base action the call asks
  for the frames from 1 to 250 and the active action of the object is left as it was.
  With a base action the object's active action is that action when the library is
  called, and the frames asked for run from the first frame of the action's range to its
  last frame plus one, both rounded towards zero. What is returned is the base action when
  baking in place and the action the library returned otherwise; Blender's data afterwards
  are the data the library call left, with the active object put back for Blender up to
  2.79 and, when not baking in place, the new action renamed.
\<close>

theorem bake_uses_action_range_or_default:
  assumes "bake_constraint_to_action lib blender_obj base_action bake_type in_place w = Inr (ret, w')"
  shows "\<exists>call s b s3 s4.
     trace w' = trace w @ [(call, s)] \<and> bake_action lib call s = Inr (b, s3) \<and>
     bc_frame_step call = 1 \<and>
     bc_action call = (if in_place then base_action else None) \<and>
     actions s = actions (bpy w) \<and>
     s4 = (if version_le_2_79 lib then s3\<lparr>active_object := active_object (bpy w)\<rparr> else s3) \<and>
     ret = (if in_place then base_action else Some b) \<and>
     (if in_place then bpy w' = s4
      else (case base_action of
              None \<Rightarrow>
                set_action_name b (object_name blender_obj @ ''Action'') s4 = Inr (bpy w')
            | Some a \<Rightarrow>
                (\<exists>named. actions s4 a = Some named \<and>
                   set_action_name b (strip_suffix (action_name named)) s4 = Inr (bpy w')))) \<and>
     (case base_action of
        None \<Rightarrow> bc_frame_start call = 1 \<and> bc_frame_end call = 250 \<and>
               animation_data s = animation_data (bpy w)
      | Some a \<Rightarrow>
          (\<exists>act ad. actions (bpy w) a = Some act \<and> animation_data (bpy w) = Some ad \<and>
             animation_data s = Some (ad\<lparr>ad_action := Some a\<rparr>) \<and>
             (bc_frame_start call, bc_frame_end call) = get_action_frame_range act \<and>
             get_action_frame_range act =
               (py_int (fst (frame_range act)), py_int (snd (frame_range act)) + 1)))"
proof -
  from bake_call_result[OF assms] obtain call s b s3 s4 where
    t: "trace w' = trace w @ [(call, s)]" and l: "bake_action lib call s = Inr (b, s3)"
    and st: "bc_frame_step call = 1"
    and ba: "bc_action call = (if in_place then base_action else None)"
    and sa: "actions s = actions (bpy w)"
    and s4: "s4 = (if version_le_2_79 lib then s3\<lparr>active_object := active_object (bpy w)\<rparr> else s3)"
    and r: "ret = (if in_place then base_action else Some b)"
    and f: "if in_place then bpy w' = s4
      else (case base_action of
              None \<Rightarrow>
                set_action_name b (object_name blender_obj @ ''Action'') s4 = Inr (bpy w')
            | Some a \<Rightarrow>
                (\<exists>named. actions s4 a = Some named \<and>
                   set_action_name b (strip_suffix (action_name named)) s4 = Inr (bpy w')))"
    and c: "case base_action of
        None \<Rightarrow> bc_frame_start call = 1 \<and> bc_frame_end call = 250 \<and>
               animation_data s = animation_data (bpy w)
      | Some a \<Rightarrow>
          (\<exists>act ad. actions (bpy w) a = Some act \<and> animation_data (bpy w) = Some ad \<and>
             animation_data s = Some (ad\<lparr>ad_action := Some a\<rparr>) \<and>
             bc_frame_start call = py_int (fst (frame_range act)) \<and>
             bc_frame_end call = py_int (snd (frame_range act)) + 1)"
    by blast
  have c': "case base_action of
        None \<Rightarrow> bc_frame_start call = 1 \<and> bc_frame_end call = 250 \<and>
               animation_data s = animation_data (bpy w)
      | Some a \<Rightarrow>
          (\<exists>act ad. actions (bpy w) a = Some act \<and> animation_data (bpy w) = Some ad \<and>
             animation_data s = Some (ad\<lparr>ad_action := Some a\<rparr>) \<and>
             (bc_frame_start call, bc_frame_end call) = get_action_frame_range act \<and>
             get_action_frame_range act =
               (py_int (fst (frame_range act)), py_int (snd (frame_range act)) + 1))"
    using c by (cases base_action) (auto simp: get_action_frame_range_def)
  show ?thesis
    using t l st ba sa s4 r f c' by blast
qed

lemma first_free_example: "first_free ((\<lambda>a. None)(0 \<mapsto> x)) = Some 1"
  by (simp add: first_free_def upt_rec)

lemma bake_example_with_action:
  "bake_constraint_to_action plain_library constrained_object (Some 0) ''POSE'' False example_world =
     Inr (Some 1,
       \<lparr>bpy = \<lparr>actions = (\<lambda>a. None)(0 \<mapsto> wave_action,
                   1 \<mapsto> \<lparr>action_name = strip_suffix ''Wave'', frame_range = (1, 21), fcurves = []\<rparr>),
               animation_data = Some \<lparr>ad_action = Some 0, nla_tracks = [[Some 0], [Some 0]]\<rparr>,
               active_object = None\<rparr>,
        trace = [(\<lparr>bc_obj = Some ''Cube'', bc_frame_start = 1, bc_frame_end = 21,
                    bc_frame_step = 1, bc_only_selected = False, bc_action = None,
                    bc_do_pose = True, bc_do_object = False, bc_do_visual_keying = True\<rparr>,
                  \<lparr>actions = (\<lambda>a. None)(0 \<mapsto> wave_action),
                   animation_data = Some \<lparr>ad_action = Some 0, nla_tracks = [[Some 0], [Some 0]]\<rparr>,
                   active_object = None\<rparr>)]\<rparr>)"
  by (simp add: bake_constraint_to_action_def Let_def plain_library_def plain_bake_action_def
      example_world_def example_data_def lookup_action_def first_free_example
      get_action_frame_range_def py_int_def wave_action_def constrained_object_def
      example_object_def set_action_name_def)

lemma bake_example_without_action:
  "bake_constraint_to_action plain_library constrained_object None ''POSE'' False example_world =
     Inr (Some 1,
       \<lparr>bpy = \<lparr>actions = (\<lambda>a. None)(0 \<mapsto> wave_action,
                   1 \<mapsto> \<lparr>action_name = ''CubeAction'', frame_range = (1, 250), fcurves = []\<rparr>),
               animation_data = Some \<lparr>ad_action = None, nla_tracks = [[Some 0], [Some 0]]\<rparr>,
               active_object = None\<rparr>,
        trace = [(\<lparr>bc_obj = Some ''Cube'', bc_frame_start = 1, bc_frame_end = 250,
                    bc_frame_step = 1, bc_only_selected = False, bc_action = None,
                    bc_do_pose = True, bc_do_object = False, bc_do_visual_keying = True\<rparr>,
                  example_data)]\<rparr>)"
  by (simp add: bake_constraint_to_action_def Let_def plain_library_def plain_bake_action_def
      example_world_def example_data_def lookup_action_def first_free_example
      constrained_object_def example_object_def set_action_name_def)

theorem bake_uses_action_range_or_default_witness:
  "map_sum id (\<lambda>(ret, w'). (ret, map (\<lambda>(c, s). (bc_frame_start c, bc_frame_end c,
       map_option ad_action (animation_data s))) (trace w')))
     (bake_constraint_to_action plain_library constrained_object (Some 0) ''POSE'' False
        example_world) = Inr (Some 1, [(1, 21, Some (Some 0))]) \<and>
   map_sum id (\<lambda>(ret, w'). (ret, map (\<lambda>(c, s). (bc_frame_start c, bc_frame_end c,
       map_option ad_action (animation_data s))) (trace w')))
     (bake_constraint_to_action plain_library constrained_object None ''POSE'' False
        example_world) = Inr (Some 1, [(1, 250, Some None)]) \<and>
   frame_range wave_action = (1, 20)"
proof -
  have g: ?thesis
    by (simp add: bake_example_with_action bake_example_without_action example_data_def
        wave_action_def)
  show ?thesis
    using bake_uses_action_range_or_default[OF bake_example_with_action]
      bake_uses_action_range_or_default[OF bake_example_without_action]
    by - (rule g)
qed

text \<open>
  Claim C5. With both an object constraint and a pose constraint, \<open>action_baker\<close> calls the
  library twice and both calls return. The first is an object bake (\<open>do_object\<close> and not
  \<open>do_pose\<close>) with no action to bake into, so that the library makes a new one; that
  action is renamed and is among Blender's actions afterwards. The second is a pose bake
  into that same action, over the frame range the action got from the first bake, made
  while it is the object's active action and on the data the first bake left. The function
  returns that one action, and Blender's data at the end are the data the second library
  call left.
\<close>

theorem both_constraints_bake_object_then_pose:
  assumes "action_baker lib blender_obj True True action_to_bake w = Inr (ret, w')"
  shows "\<exists>c1 s1 tmp s1' s1'' nm (w1::world) made c2 s2 ad b2 s2'.
     trace w' = trace w @ [(c1, s1), (c2, s2)] \<and>
     \<not> bc_do_pose c1 \<and> bc_do_object c1 \<and> bc_action c1 = None \<and>
     actions s1 = actions (bpy w) \<and>
     bake_action lib c1 s1 = Inr (tmp, s1') \<and>
     s1'' = (if version_le_2_79 lib then s1'\<lparr>active_object := active_object (bpy w)\<rparr>
             else s1') \<and>
     set_action_name tmp nm s1'' = Inr (bpy w1) \<and>
     actions (bpy w1) tmp = Some made \<and>
     bc_do_pose c2 \<and> \<not> bc_do_object c2 \<and> bc_action c2 = Some tmp \<and>
     (bc_frame_start c2, bc_frame_end c2) = get_action_frame_range made \<and>
     actions s2 = actions (bpy w1) \<and>
     animation_data (bpy w1) = Some ad \<and>
     animation_data s2 = Some (ad\<lparr>ad_action := Some tmp\<rparr>) \<and>
     bake_action lib c2 s2 = Inr (b2, s2') \<and>
     bpy w' = (if version_le_2_79 lib then s2'\<lparr>active_object := active_object (bpy w1)\<rparr>
               else s2') \<and>
     ret = Some tmp"
proof -
  from assms obtain tmp w1 where
    b1: "bake_constraint_to_action lib blender_obj action_to_bake ''OBJECT'' False w = Inr (tmp, w1)"
    and b2: "bake_constraint_to_action lib blender_obj tmp ''POSE'' True w1 = Inr (ret, w')"
    by (auto simp: action_baker_def split: sum.splits)
  from bake_call_result[OF b1] obtain c1 s1 b s1' s1'' where
    t1: "trace w1 = trace w @ [(c1, s1)]" and l1: "bake_action lib c1 s1 = Inr (b, s1')"
    and q1: "bc_do_pose c1 = (''OBJECT'' = ''POSE'')" "bc_do_object c1 = (''OBJECT'' \<noteq> ''POSE'')"
      "bc_action c1 = (if False then action_to_bake else None)"
    and a1: "actions s1 = actions (bpy w)"
    and e1: "s1'' = (if version_le_2_79 lib then s1'\<lparr>active_object := active_object (bpy w)\<rparr>
             else s1')"
    and u1: "tmp = (if False then action_to_bake else Some b)"
    and h1: "if False then bpy w1 = s1''
      else (case action_to_bake of
        None \<Rightarrow> set_action_name b (object_name blender_obj @ ''Action'') s1'' = Inr (bpy w1)
      | Some a \<Rightarrow>
          (\<exists>named. actions s1'' a = Some named \<and>
             set_action_name b (strip_suffix (action_name named)) s1'' = Inr (bpy w1)))"
    by blast
  from q1 have p1: "\<not> bc_do_pose c1" "bc_do_object c1" "bc_action c1 = None"
    by simp_all
  from u1 have r1: "tmp = Some b" by simp
  from h1 obtain nm where n1: "set_action_name b nm s1'' = Inr (bpy w1)"
    by (cases action_to_bake) auto
  from bake_call_result[OF b2[unfolded r1]] obtain c2 s2 b2 s2' s2'' where
    t2: "trace w' = trace w1 @ [(c2, s2)]" and l2: "bake_action lib c2 s2 = Inr (b2, s2')"
    and q2: "bc_do_pose c2 = (''POSE'' = ''POSE'')" "bc_do_object c2 = (''POSE'' \<noteq> ''POSE'')"
      "bc_action c2 = (if True then Some b else None)"
    and a2: "actions s2 = actions (bpy w1)"
    and e2: "s2'' = (if version_le_2_79 lib then s2'\<lparr>active_object := active_object (bpy w1)\<rparr>
             else s2')"
    and u2: "ret = (if True then Some b else Some b2)"
    and h2: "if True then bpy w' = s2''
      else (case Some b of
        None \<Rightarrow> set_action_name b2 (object_name blender_obj @ ''Action'') s2'' = Inr (bpy w')
      | Some a \<Rightarrow>
          (\<exists>named. actions s2'' a = Some named \<and>
             set_action_name b2 (strip_suffix (action_name named)) s2'' = Inr (bpy w')))"
    and k2: "case Some b of
        None \<Rightarrow> bc_frame_start c2 = 1 \<and> bc_frame_end c2 = 250 \<and>
               animation_data s2 = animation_data (bpy w1)
      | Some a \<Rightarrow>
          (\<exists>act ad. actions (bpy w1) a = Some act \<and> animation_data (bpy w1) = Some ad \<and>
             animation_data s2 = Some (ad\<lparr>ad_action := Some a\<rparr>) \<and>
             bc_frame_start c2 = py_int (fst (frame_range act)) \<and>
             bc_frame_end c2 = py_int (snd (frame_range act)) + 1)"
    by blast
  from q2 have p2: "bc_do_pose c2" "\<not> bc_do_object c2" "bc_action c2 = Some b"
    by simp_all
  from u2 have r2: "ret = Some b" by simp
  from h2 e2 have f2: "bpy w' = (if version_le_2_79 lib
                       then s2'\<lparr>active_object := active_object (bpy w1)\<rparr> else s2')"
    by simp
  from k2 obtain made ad where
    m: "actions (bpy w1) b = Some made" and d: "animation_data (bpy w1) = Some ad"
    and d2: "animation_data s2 = Some (ad\<lparr>ad_action := Some b\<rparr>)"
    and g: "bc_frame_start c2 = py_int (fst (frame_range made))"
           "bc_frame_end c2 = py_int (snd (frame_range made)) + 1"
    by auto
  have g': "(bc_frame_start c2, bc_frame_end c2) = get_action_frame_range made"
    using g by (simp add: get_action_frame_range_def)
  have t: "trace w' = trace w @ [(c1, s1), (c2, s2)]"
    using t1 t2 by simp
  show ?thesis
    apply (intro exI conjI)
    apply (rule t)
    apply (rule p1(1))
    apply (rule p1(2))
    apply (rule p1(3))
    apply (rule a1)
    apply (rule l1)
    apply (rule e1)
    apply (rule n1)
    apply (rule m)
    apply (rule p2(1))
    apply (rule p2(2))
    apply (rule p2(3))
    apply (rule g')
    apply (rule a2)
    apply (rule d)
    apply (rule d2)
    apply (rule l2)
    apply (rule f2)
    apply (rule r2)
    done
qed

theorem both_constraints_bake_object_then_pose_witness:
  "map_sum id (\<lambda>(ret, w'). (ret, map (\<lambda>(c, s). (bc_do_pose c, bc_do_object c, bc_action c,
       map_option ad_action (animation_data s))) (trace w')))
     (action_baker plain_library constrained_object True True (Some 0) example_world)
   = Inr (Some 1, [(False, True, None, Some (Some 0)), (True, False, Some 1, Some (Some 1))])"
proof -
  have "\<exists>ret w'. action_baker plain_library constrained_object True True (Some 0) example_world
          = Inr (ret, w')"
    by (simp add: action_baker_def bake_constraint_to_action_def Let_def plain_library_def
        plain_bake_action_def example_world_def example_data_def lookup_action_def
        first_free_example get_action_frame_range_def py_int_def wave_action_def
        constrained_object_def example_object_def set_action_name_def)
  then obtain ret w' where
    run: "action_baker plain_library constrained_object True True (Some 0) example_world
          = Inr (ret, w')" by blast
  have g: ?thesis
    by (simp add: action_baker_def bake_constraint_to_action_def Let_def plain_library_def
        plain_bake_action_def example_world_def example_data_def lookup_action_def
        first_free_example get_action_frame_range_def py_int_def wave_action_def
        constrained_object_def example_object_def set_action_name_def)
  from both_constraints_bake_object_then_pose[OF run]
  show ?thesis
    by - (rule g)
qed

section \<open>Properties of the dispatcher\<close>

lemma create_animation_resource_length:
  "create_animation_resource self escn act = Inr (i, escn') \<Longrightarrow>
     i = length (internal_resources escn) \<and>
     length (internal_resources escn') = Suc (length (internal_resources escn))"
  by (auto simp: create_animation_resource_def force_add_internal_resource_def Let_def
      split: option.splits)

lemma run_exporter_length:
  "run_exporter exporter_func node player blender_obj act i escn = Inr escn' \<Longrightarrow>
     length (internal_resources escn') = length (internal_resources escn)"
  by (auto simp: run_exporter_def split: sum.splits)

lemma export_nla_action_effect:
  assumes "export_nla_action lib exporter_func node player blender_obj need_bake has_obj_cst
             has_pose_cst a (w, escn, exported) = Inr (w', escn', exported')"
  shows "exported' = insert a exported \<and>
         length (internal_resources escn') = Suc (length (internal_resources escn))"
proof -
  from assms obtain act i escn1 chosen w1 where
    c: "create_animation_resource player escn act = Inr (i, escn1)"
    and r: "run_exporter exporter_func node player blender_obj act i escn1 = Inr escn'"
    and e: "exported' = insert a exported"
    by (auto simp: export_nla_action_def split: sum.splits if_splits prod.splits)
  show ?thesis
    using create_animation_resource_length[OF c] run_exporter_length[OF r] e by simp
qed

lemma export_nla_strips_dedup:
  "export_nla_strips lib exporter_func node player blender_obj need_bake has_obj_cst
     has_pose_cst strips st =
   export_each lib exporter_func node player blender_obj need_bake has_obj_cst has_pose_cst
     (first_new (snd (snd st)) strips) st"
proof (induction strips arbitrary: st)
  case Nil
  then show ?case by simp
next
  case (Cons strip rest)
  obtain w escn exported where st: "st = (w, escn, exported)" by (cases st)
  show ?case
  proof (cases strip)
    case None
    then show ?thesis using Cons.IH by simp
  next
    case (Some a)
    show ?thesis
    proof (cases "a \<in> exported")
      case True
      then show ?thesis using Some st Cons.IH by simp
    next
      case False
      show ?thesis
      proof (cases "export_nla_action lib exporter_func node player blender_obj need_bake
                      has_obj_cst has_pose_cst a st")
        case (Inl e)
        then show ?thesis using Some False st by simp
      next
        case (Inr st')
        obtain w' escn' exported' where st': "st' = (w', escn', exported')" by (cases st')
        have "exported' = insert a exported"
          using export_nla_action_effect Inr st st' by blast
        then show ?thesis using Some False st Inr st' Cons.IH[of st'] by simp
      qed
    qed
  qed
qed

lemma export_each_effect:
  "export_each lib exporter_func node player blender_obj need_bake has_obj_cst has_pose_cst
     as (w, escn, exported) = Inr (w', escn', exported') \<Longrightarrow>
   length (internal_resources escn') = length (internal_resources escn) + length as \<and>
   exported' = exported \<union> set as"
proof (induction as arbitrary: w escn exported)
  case Nil
  then show ?case by simp
next
  case (Cons a as)
  from Cons.prems obtain w1 escn1 exported1 where
    s: "export_nla_action lib exporter_func node player blender_obj need_bake has_obj_cst
          has_pose_cst a (w, escn, exported) = Inr (w1, escn1, exported1)"
    and r: "export_each lib exporter_func node player blender_obj need_bake has_obj_cst
          has_pose_cst as (w1, escn1, exported1) = Inr (w', escn', exported')"
    by (auto split: sum.splits)
  show ?case
    using export_nla_action_effect[OF s] Cons.IH[OF r] by auto
qed

lemma first_new_set: "set (first_new exported strips) = {a. Some a \<in> set strips} - exported"
  by (induction exported strips rule: first_new.induct) auto

lemma first_new_distinct: "distinct (first_new exported strips)"
  by (induction exported strips rule: first_new.induct) (auto simp: first_new_set)

lemma export_active_action_exported:
  assumes "export_active_action lib exporter_func node player blender_obj need_bake has_obj_cst
             has_pose_cst active_action (w, escn, exported) = Inr (w', escn', exported')"
  shows "exported' = (if need_bake then exported \<union> set_option active_action else exported)"
proof (cases need_bake)
  case False
  with assms show ?thesis
    by (auto simp: export_active_action_def split: sum.splits prod.splits option.splits)
next
  case True
  show ?thesis
  proof (cases active_action)
    case None
    with assms True show ?thesis
      by (auto simp: export_active_action_def split: sum.splits prod.splits option.splits)
  next
    case (Some a)
    with assms True show ?thesis
      by (auto simp: export_active_action_def split: sum.splits prod.splits option.splits)
  qed
qed

text \<open>
  The loop over the NLA strips does what calling \<open>export_nla_action\<close> once for each action
  of \<open>first_new\<close> does, in that order: an action that is not yet in the set of exported
  actions is exported at its first strip, which creates exactly one resource and records
  the action; every later strip of the same action is skipped. The actions exported are
  distinct, they are the actions of the strips that were not in the set before, and the
  file has one more resource for each. The export of the active action, which comes before
  the loop, records the active action only when it bakes.
\<close>

lemma nla_action_exported_once:
  assumes "export_nla_strips lib exporter_func node player blender_obj need_bake has_obj_cst
             has_pose_cst strips (w, escn, exported) = Inr (w', escn', exported')"
  shows "export_nla_strips lib exporter_func node player blender_obj need_bake has_obj_cst
           has_pose_cst strips (w, escn, exported) =
         export_each lib exporter_func node player blender_obj need_bake has_obj_cst
           has_pose_cst (first_new exported strips) (w, escn, exported) \<and>
         distinct (first_new exported strips) \<and>
         set (first_new exported strips) = {a. Some a \<in> set strips} - exported \<and>
         length (internal_resources escn') =
           length (internal_resources escn) + length (first_new exported strips) \<and>
         exported' = exported \<union> {a. Some a \<in> set strips} \<and>
         (\<forall>active_action w0 (escn0 :: 'a escn_file) exported0 w1 escn1 exported1.
            export_active_action lib exporter_func node player blender_obj need_bake
              has_obj_cst has_pose_cst active_action (w0, escn0, exported0)
              = Inr (w1, escn1, exported1) \<longrightarrow>
            exported1 =
              (if need_bake then exported0 \<union> set_option active_action else exported0))"
proof -
  have d: "export_nla_strips lib exporter_func node player blender_obj need_bake has_obj_cst
           has_pose_cst strips (w, escn, exported) =
         export_each lib exporter_func node player blender_obj need_bake has_obj_cst
           has_pose_cst (first_new exported strips) (w, escn, exported)"
    using export_nla_strips_dedup[of lib exporter_func node player blender_obj need_bake
        has_obj_cst has_pose_cst strips "(w, escn, exported)"] by simp
  with assms have "export_each lib exporter_func node player blender_obj need_bake has_obj_cst
           has_pose_cst (first_new exported strips) (w, escn, exported) = Inr (w', escn', exported')"
    by simp
  from export_each_effect[OF this]
  have c: "length (internal_resources escn') =
             length (internal_resources escn) + length (first_new exported strips)"
    and x: "exported' = exported \<union> {a. Some a \<in> set strips}"
    by (auto simp: first_new_set)
  have a: "\<forall>active_action w0 (escn0 :: 'a escn_file) exported0 w1 escn1 exported1.
            export_active_action lib exporter_func node player blender_obj need_bake
              has_obj_cst has_pose_cst active_action (w0, escn0, exported0)
              = Inr (w1, escn1, exported1) \<longrightarrow>
            exported1 =
              (if need_bake then exported0 \<union> set_option active_action else exported0)"
    by (intro allI impI) (rule export_active_action_exported)
  show ?thesis
    using d c x a first_new_set[of exported strips] first_new_distinct[of exported strips]
    by (intro conjI)
qed

lemmas dispatcher_example_defs =
  export_animation_data_def has_pose_constraint_def has_object_constraint_def needs_bake_def
  get_animation_player_def export_active_action_def action_to_export_def lookup_action_def
  add_default_animation_resource_def create_animation_resource_def
  force_add_internal_resource_def run_exporter_def py_index_def export_nla_action_def
  active_action_of_def example_settings_def example_world_active_def example_world_def
  example_data_def wave_action_def example_object_def example_escn_def example_tree_def
  example_escn_with_player_def set_anim_def set_default_animation_def AnimationResource_def
  add_node_def add_child_def AnimationPlayer_def set_child_def no_tracks_def Let_def

lemma nla_action_exported_once_example:
  "map_sum id (\<lambda>(w', escn', exported'). (map res_name (internal_resources escn'), exported'))
     (export_nla_strips plain_library no_tracks [0, 0] [0, 0, 0] example_object False False False
        [Some 0, Some 0] (example_world, example_escn_with_player :: mat escn_file, {}))
     = Inr ([''Wave''], {0}) \<and>
   first_new {} [Some 0, Some 0] = [0]"
proof -
  have g: ?thesis
    by (simp add: dispatcher_example_defs)
  have "\<exists>w' escn' exported'.
      export_nla_strips plain_library no_tracks [0, 0] [0, 0, 0] example_object False False False
        [Some 0, Some 0] (example_world, example_escn_with_player :: mat escn_file, {})
      = Inr (w', escn', exported')"
    by (simp add: dispatcher_example_defs)
  then obtain w' escn' exported' where
    run: "export_nla_strips plain_library no_tracks [0, 0] [0, 0, 0] example_object False False False
        [Some 0, Some 0] (example_world, example_escn_with_player :: mat escn_file, {})
      = Inr (w', escn', exported')"
    by blast
  from nla_action_exported_once[OF run] show ?thesis
    by - (rule g)
qed

text \<open>
  Claim C4, at an input where the code does not do what it says. The action of the two
  strips is also the active action and nothing is baked. The active action is exported as
  the default animation of the player and is not recorded in the set of exported actions:
  the line that records it is inside \<open>if need_bake\<close>. The first of the two strips then
  exports it again, and two resources are made from the one action, where the claim says
  one.
\<close>

theorem active_action_exported_twice:
  "active_action_of (bpy example_world_active) = Some 0 \<and>
   map_option nla_tracks (animation_data (bpy example_world_active)) =
     Some [[Some 0], [Some 0]] \<and>
   map_sum id (\<lambda>(w', escn'). map res_name (internal_resources escn'))
     (export_animation_data plain_library (\<lambda>action_type. Some no_tracks) example_settings
        [0, 0] example_object ''transform''
        (example_world_active, example_escn :: mat escn_file))
     = Inr [''Wave'', ''Wave'']"
  by (simp add: dispatcher_example_defs)

theorem active_action_exported_twice_witness:
  "map_sum id (\<lambda>(w', escn'). length (internal_resources escn'))
     (export_animation_data plain_library (\<lambda>action_type. Some no_tracks) example_settings
        [0, 0] example_object ''transform''
        (example_world_active, example_escn :: mat escn_file))
     = Inr 2"
proof -
  let ?r = "export_animation_data plain_library (\<lambda>action_type. Some no_tracks)
        example_settings [0, 0] example_object ''transform''
        (example_world_active, example_escn :: mat escn_file)"
  from active_action_exported_twice
  have e: "map_sum id (\<lambda>(w', escn'). map res_name (internal_resources escn')) ?r
             = Inr [''Wave'', ''Wave'']"
    by simp
  show ?thesis
  proof (cases ?r)
    case (Inl err)
    with e show ?thesis by simp
  next
    case (Inr p)
    with e show ?thesis
      by (cases p) (auto simp: map_eq_Cons_conv)
  qed
qed

text \<open>
  The same object with a constraint, so that the active action is baked: it is recorded,
  both strips are skipped, and the one action gives one resource.
\<close>

lemma baked_active_action_exported_once:
  "map_sum id (\<lambda>(w', escn'). map res_name (internal_resources escn'))
     (export_animation_data plain_library (\<lambda>action_type. Some no_tracks) example_settings
        [0, 0] constrained_object ''transform''
        (example_world_active, example_escn :: mat escn_file))
     = Inr [''Wave'']"
  by (simp add: dispatcher_example_defs action_baker_def bake_constraint_to_action_def
      plain_library_def plain_bake_action_def plain_remove_def first_free_example
      get_action_frame_range_def py_int_def set_action_name_def add_baking_suffix_def
      remove_baking_suffix_def remove_baked_def strip_suffix_def BAKING_SUFFIX_def
      constrained_object_def)

section \<open>Properties of the dispatcher: names and the active action\<close>

lemma set_action_name_names:
  "set_action_name a nm s = Inr s' \<Longrightarrow>
     action_names s' = (action_names s)(a \<mapsto> nm) \<and> animation_data s' = animation_data s"
  by (auto simp: set_action_name_def action_names_def fun_eq_iff split: option.splits)

lemma add_baking_suffix_names:
  "add_baking_suffix a s = Inr s' \<Longrightarrow>
     \<exists>n. action_names s a = Some n \<and> action_names s' = (action_names s)(a \<mapsto> n @ BAKING_SUFFIX)"
  by (auto simp: add_baking_suffix_def lookup_action_def action_names_def
      dest!: set_action_name_names split: option.splits sum.splits)

lemma remove_baking_suffix_names:
  "remove_baking_suffix a s = Inr s' \<Longrightarrow>
     \<exists>n. action_names s a = Some n \<and> action_names s' = (action_names s)(a \<mapsto> strip_suffix n)"
  by (auto simp: remove_baking_suffix_def lookup_action_def action_names_def
      dest!: set_action_name_names split: option.splits sum.splits)

lemma strip_suffix_append: "strip_suffix (n @ BAKING_SUFFIX) = n"
  by (simp add: strip_suffix_def)

lemma library_keeps_names_bake:
  "library_keeps_names lib \<Longrightarrow> bake_action lib call s = Inr (b, s') \<Longrightarrow>
     (case bc_action call of
        None \<Rightarrow> actions s b = None
      | Some t \<Rightarrow> b = t \<and> action_names s' b = action_names s b) \<and>
     (\<forall>a. a \<noteq> b \<longrightarrow> action_names s' a = action_names s a)"
  unfolding library_keeps_names_def by blast

lemma library_keeps_names_remove:
  "library_keeps_names lib \<Longrightarrow> actions_remove lib b s = Inr s' \<Longrightarrow>
     action_names s' = (action_names s)(b := None)"
  unfolding library_keeps_names_def by blast

lemma bake_decomposed_new:
  assumes "bake_constraint_to_action lib blender_obj base_action bake_type False w = Inr (ret, w')"
  shows "\<exists>call s b s3 s4 nm.
     bake_action lib call s = Inr (b, s3) \<and> bc_action call = None \<and>
     actions s = actions (bpy w) \<and> ret = Some b \<and>
     set_action_name b nm s4 = Inr (bpy w') \<and> actions s4 = actions s3"
proof (cases base_action)
  case None
  with assms show ?thesis
    apply (auto simp: bake_constraint_to_action_def Let_def
        split: sum.splits prod.splits if_splits)
     apply (intro exI conjI, assumption, simp, simp, assumption, simp)
    apply (intro exI conjI, assumption, simp, simp, assumption, simp)
    done
next
  case (Some a)
  with assms obtain ad act where ad: "animation_data (bpy w) = Some ad"
    and act: "actions (bpy w) a = Some act"
    by (auto simp: bake_constraint_to_action_def Let_def lookup_action_def
        split: sum.splits prod.splits if_splits option.splits)
  with assms Some show ?thesis
    apply (auto simp: bake_constraint_to_action_def Let_def lookup_action_def
        split: sum.splits prod.splits if_splits)
     apply (intro exI conjI, assumption, simp, simp, assumption, simp)
    apply (intro exI conjI, assumption, simp, simp, assumption, simp)
    done
qed

lemma bake_decomposed_in_place:
  assumes "bake_constraint_to_action lib blender_obj (Some t) bake_type True w = Inr (ret, w')"
  shows "\<exists>call s b s3.
     bake_action lib call s = Inr (b, s3) \<and> bc_action call = Some t \<and>
     actions s = actions (bpy w) \<and> ret = Some t \<and>
     actions (bpy w') = actions s3"
proof -
  from assms obtain ad act where ad: "animation_data (bpy w) = Some ad"
    and act: "actions (bpy w) t = Some act"
    by (auto simp: bake_constraint_to_action_def Let_def lookup_action_def
        split: sum.splits prod.splits if_splits option.splits)
  with assms show ?thesis
    apply (auto simp: bake_constraint_to_action_def Let_def lookup_action_def
        split: sum.splits prod.splits if_splits)
     apply (intro exI conjI, assumption, simp, simp, simp)
    apply (intro exI conjI, assumption, simp, simp, simp)
    done
qed

lemma bake_names_new:
  assumes "library_keeps_names lib"
    and "bake_constraint_to_action lib blender_obj base_action bake_type False w = Inr (ret, w')"
  shows "\<exists>b nm. ret = Some b \<and> action_names (bpy w) b = None \<and>
           action_names (bpy w') = (action_names (bpy w))(b \<mapsto> nm)"
proof -
  from bake_decomposed_new[OF assms(2)] obtain call s b s3 s4 nm where
    l: "bake_action lib call s = Inr (b, s3)" and c: "bc_action call = None"
    and a: "actions s = actions (bpy w)" and r: "ret = Some b"
    and a4: "actions s4 = actions s3"
    and sn: "set_action_name b nm s4 = Inr (bpy w')"
    by blast
  have "action_names s4 = action_names s3"
    using a4 by (simp add: action_names_def fun_eq_iff)
  with set_action_name_names[OF sn]
  have n: "action_names (bpy w') = (action_names s3)(b \<mapsto> nm)"
    by simp
  from library_keeps_names_bake[OF assms(1) l] c have fresh: "actions s b = None"
    and keep: "\<forall>x. x \<noteq> b \<longrightarrow> action_names s3 x = action_names s x"
    by simp_all
  have same: "action_names s = action_names (bpy w)"
    using a by (simp add: action_names_def fun_eq_iff)
  have "action_names (bpy w) b = None"
    using fresh a by (simp add: action_names_def)
  moreover have "action_names (bpy w') = (action_names (bpy w))(b \<mapsto> nm)"
    using n keep same by (auto simp: fun_eq_iff)
  ultimately show ?thesis using r by blast
qed

lemma bake_names_in_place:
  assumes "library_keeps_names lib"
    and "bake_constraint_to_action lib blender_obj (Some t) bake_type True w = Inr (ret, w')"
  shows "ret = Some t \<and> action_names (bpy w') = action_names (bpy w)"
proof -
  from bake_decomposed_in_place[OF assms(2)] obtain call s b s3 where
    l: "bake_action lib call s = Inr (b, s3)" and c: "bc_action call = Some t"
    and a: "actions s = actions (bpy w)" and r: "ret = Some t"
    and a3: "actions (bpy w') = actions s3"
    by blast
  have n: "action_names (bpy w') = action_names s3"
    using a3 by (simp add: action_names_def fun_eq_iff)
  from library_keeps_names_bake[OF assms(1) l] c
  have "b = t" "action_names s3 b = action_names s b"
    and keep: "\<forall>x. x \<noteq> b \<longrightarrow> action_names s3 x = action_names s x"
    by auto
  then have "action_names s3 = action_names s"
    by (auto simp: fun_eq_iff)
  moreover have "action_names s = action_names (bpy w)"
    using a by (simp add: action_names_def fun_eq_iff)
  ultimately show ?thesis using r n by simp
qed

lemma action_baker_names:
  assumes "library_keeps_names lib"
    and "action_baker lib blender_obj has_obj_cst has_pose_cst action_to_bake w = Inr (ret, w')"
  shows "\<exists>b nm. ret = Some b \<and> action_names (bpy w) b = None \<and>
           action_names (bpy w') = (action_names (bpy w))(b \<mapsto> nm)"
proof (cases "has_obj_cst \<and> has_pose_cst")
  case True
  with assms(2) obtain tmp w1 where
    b1: "bake_constraint_to_action lib blender_obj action_to_bake ''OBJECT'' False w = Inr (tmp, w1)"
    and b2: "bake_constraint_to_action lib blender_obj tmp ''POSE'' True w1 = Inr (ret, w')"
    by (auto simp: action_baker_def split: sum.splits)
  from bake_names_new[OF assms(1) b1] obtain b nm where
    t: "tmp = Some b" and f: "action_names (bpy w) b = None"
    and n: "action_names (bpy w1) = (action_names (bpy w))(b \<mapsto> nm)"
    by blast
  from bake_names_in_place[OF assms(1) b2[unfolded t]]
  show ?thesis using f n by auto
next
  case False
  with assms(2) have
    "bake_constraint_to_action lib blender_obj action_to_bake ''POSE'' False w = Inr (ret, w')"
    by (auto simp: action_baker_def split: if_splits)
  from bake_names_new[OF assms(1) this] show ?thesis .
qed

lemma remove_baked_names:
  assumes "library_keeps_names lib" and "remove_baked lib (Some b) w = Inr w'"
  shows "action_names (bpy w') = (action_names (bpy w))(b := None)"
proof -
  from assms(2) obtain s' where "actions_remove lib b (bpy w) = Inr s'" and "bpy w' = s'"
    by (auto simp: remove_baked_def split: sum.splits)
  with library_keeps_names_remove[OF assms(1)] show ?thesis by simp
qed

lemma export_nla_action_no_bake:
  "export_nla_action lib exporter_func node player blender_obj False has_obj_cst has_pose_cst a
     (w, escn, exported) = Inr (w', escn', exported') \<Longrightarrow> w' = w"
  by (auto simp: export_nla_action_def split: sum.splits prod.splits)

lemma export_active_action_no_bake:
  "export_active_action lib exporter_func node player blender_obj False has_obj_cst has_pose_cst
     active_action (w, escn, exported) = Inr (w', escn', exported') \<Longrightarrow> w' = w"
  by (auto simp: export_active_action_def split: sum.splits prod.splits option.splits)

lemma export_nla_strips_no_bake:
  "export_nla_strips lib exporter_func node player blender_obj False has_obj_cst has_pose_cst
     strips st = Inr st' \<Longrightarrow> fst st' = fst st"
proof (induction strips arbitrary: st)
  case Nil
  then show ?case by simp
next
  case (Cons strip_action strips)
  show ?case
  proof (cases strip_action)
    case None
    with Cons show ?thesis by simp
  next
    case (Some a)
    show ?thesis
    proof (cases "a \<in> snd (snd st)")
      case True
      with Cons Some show ?thesis by simp
    next
      case False
      with Cons.prems Some obtain st1 where
        one: "export_nla_action lib exporter_func node player blender_obj False has_obj_cst
                has_pose_cst a st = Inr st1"
        and more: "export_nla_strips lib exporter_func node player blender_obj False has_obj_cst
                has_pose_cst strips st1 = Inr st'"
        by (auto split: sum.splits)
      from one have "fst st1 = fst st"
        by (cases st, cases st1) (auto dest: export_nla_action_no_bake)
      with Cons.IH[OF more] show ?thesis by simp
    qed
  qed
qed

lemma export_nla_action_names:
  assumes "library_keeps_names lib"
    and run: "export_nla_action lib exporter_func node player blender_obj need_bake has_obj_cst
                has_pose_cst a (w, escn, exported) = Inr (w', escn', exported')"
  shows "action_names (bpy w') = action_names (bpy w)"
proof (cases need_bake)
  case False
  with run have "w' = w" by (auto dest: export_nla_action_no_bake)
  then show ?thesis by simp
next
  case True
  with run obtain s0 chosen w1 w2 s3 where
    suffixed: "add_baking_suffix a (bpy w) = Inr s0"
    and baked: "action_baker lib blender_obj has_obj_cst has_pose_cst (Some a) (w\<lparr>bpy := s0\<rparr>)
                  = Inr (chosen, w1)"
    and removed: "remove_baked lib chosen w1 = Inr w2"
    and unsuffixed: "remove_baking_suffix a (bpy w2) = Inr s3"
    and final: "w' = w2\<lparr>bpy := s3\<rparr>"
    by (auto simp: export_nla_action_def split: sum.splits prod.splits)
  from add_baking_suffix_names[OF suffixed] obtain n where
    n0: "action_names (bpy w) a = Some n"
    and n1: "action_names s0 = (action_names (bpy w))(a \<mapsto> n @ BAKING_SUFFIX)"
    by blast
  from action_baker_names[OF assms(1) baked] obtain b nm where
    c: "chosen = Some b" and fresh: "action_names s0 b = None"
    and n2: "action_names (bpy w1) = (action_names s0)(b \<mapsto> nm)"
    by auto
  from remove_baked_names[OF assms(1) removed[unfolded c]]
  have n3: "action_names (bpy w2) = (action_names (bpy w1))(b := None)" .
  have undone: "action_names (bpy w2) = action_names s0"
    using n2 n3 fresh by (auto simp: fun_eq_iff)
  from remove_baking_suffix_names[OF unsuffixed] obtain n' where
    n4: "action_names (bpy w2) a = Some n'"
    and n5: "action_names s3 = (action_names (bpy w2))(a \<mapsto> strip_suffix n')"
    by blast
  from n4 undone n1 have "n' = n @ BAKING_SUFFIX" by simp
  then have "action_names s3 = (action_names (bpy w))(a \<mapsto> n)"
    using n5 undone n1 by (simp add: strip_suffix_append)
  with n0 final show ?thesis by (auto simp: fun_eq_iff)
qed

lemma export_active_action_names:
  assumes "library_keeps_names lib"
    and run: "export_active_action lib exporter_func node player blender_obj need_bake
                has_obj_cst has_pose_cst active_action (w, escn, exported)
              = Inr (w', escn', exported')"
  shows "action_names (bpy w') = action_names (bpy w)"
proof (cases need_bake)
  case False
  with run have "w' = w" by (auto dest: export_active_action_no_bake)
  then show ?thesis by simp
next
  case True
  show ?thesis
  proof (cases active_action)
    case None
    with run True obtain chosen w1 where
      baked: "action_baker lib blender_obj has_obj_cst has_pose_cst None w = Inr (chosen, w1)"
      and removed: "remove_baked lib chosen w1 = Inr w'"
      by (auto simp: export_active_action_def split: sum.splits prod.splits option.splits)
    from action_baker_names[OF assms(1) baked] obtain b nm where
      c: "chosen = Some b" and fresh: "action_names (bpy w) b = None"
      and n2: "action_names (bpy w1) = (action_names (bpy w))(b \<mapsto> nm)"
      by auto
    from remove_baked_names[OF assms(1) removed[unfolded c]]
    have "action_names (bpy w') = (action_names (bpy w1))(b := None)" .
    then show ?thesis using n2 fresh by (auto simp: fun_eq_iff)
  next
    case (Some a)
    with run True obtain s0 chosen w1 w2 s3 where
      suffixed: "add_baking_suffix a (bpy w) = Inr s0"
      and baked: "action_baker lib blender_obj has_obj_cst has_pose_cst (Some a) (w\<lparr>bpy := s0\<rparr>)
                    = Inr (chosen, w1)"
      and removed: "remove_baked lib chosen w1 = Inr w2"
      and unsuffixed: "remove_baking_suffix a (bpy w2) = Inr s3"
      and final: "w' = w2\<lparr>bpy := s3\<rparr>"
      by (auto simp: export_active_action_def split: sum.splits prod.splits option.splits)
    from add_baking_suffix_names[OF suffixed] obtain n where
      n0: "action_names (bpy w) a = Some n"
      and n1: "action_names s0 = (action_names (bpy w))(a \<mapsto> n @ BAKING_SUFFIX)"
      by blast
    from action_baker_names[OF assms(1) baked] obtain b nm where
      c: "chosen = Some b" and fresh: "action_names s0 b = None"
      and n2: "action_names (bpy w1) = (action_names s0)(b \<mapsto> nm)"
      by auto
    from remove_baked_names[OF assms(1) removed[unfolded c]]
    have n3: "action_names (bpy w2) = (action_names (bpy w1))(b := None)" .
    have undone: "action_names (bpy w2) = action_names s0"
      using n2 n3 fresh by (auto simp: fun_eq_iff)
    from remove_baking_suffix_names[OF unsuffixed] obtain n' where
      n4: "action_names (bpy w2) a = Some n'"
      and n5: "action_names s3 = (action_names (bpy w2))(a \<mapsto> strip_suffix n')"
      by blast
    from n4 undone n1 have "n' = n @ BAKING_SUFFIX" by simp
    then have "action_names s3 = (action_names (bpy w))(a \<mapsto> n)"
      using n5 undone n1 by (simp add: strip_suffix_append)
    with n0 final show ?thesis by (auto simp: fun_eq_iff)
  qed
qed

lemma export_nla_strips_names:
  assumes "library_keeps_names lib"
  shows "export_nla_strips lib exporter_func node player blender_obj need_bake has_obj_cst
           has_pose_cst strips st = Inr st' \<Longrightarrow>
         action_names (bpy (fst st')) = action_names (bpy (fst st))"
proof (induction strips arbitrary: st)
  case Nil
  then show ?case by simp
next
  case (Cons strip_action strips)
  show ?case
  proof (cases strip_action)
    case None
    with Cons show ?thesis by simp
  next
    case (Some a)
    show ?thesis
    proof (cases "a \<in> snd (snd st)")
      case True
      with Cons Some show ?thesis by simp
    next
      case False
      with Cons.prems Some obtain st1 where
        one: "export_nla_action lib exporter_func node player blender_obj need_bake has_obj_cst
                has_pose_cst a st = Inr st1"
        and more: "export_nla_strips lib exporter_func node player blender_obj need_bake
                has_obj_cst has_pose_cst strips st1 = Inr st'"
        by (auto split: sum.splits)
      from one have "action_names (bpy (fst st1)) = action_names (bpy (fst st))"
        by (cases st, cases st1) (auto dest: export_nla_action_names[OF assms])
      with Cons.IH[OF more] show ?thesis by simp
    qed
  qed
qed

lemma export_animation_data_run:
  assumes run: "export_animation_data lib exporter_map settings node blender_obj action_type
                  (w, escn) = Inr (w', escn')"
  obtains (skipped) "w' = w"
  | (exported) hp player escn1 ef w2 escn2 done2 ad2 w3 done3 where
      "has_pose_constraint blender_obj = Inr hp"
      "if active_action_of (bpy w) \<noteq> None
          \<or> (animation_data (bpy w) = None \<and> needs_bake blender_obj action_type hp)
       then export_active_action lib ef node player blender_obj
              (needs_bake blender_obj action_type hp) (has_object_constraint blender_obj) hp
              (active_action_of (bpy w)) (w, escn1, {}) = Inr (w2, escn2, done2)
       else w2 = w"
      "animation_data (bpy w2) = Some ad2"
      "export_nla_strips lib ef node player blender_obj
         (needs_bake blender_obj action_type hp) (has_object_constraint blender_obj) hp
         (concat (nla_tracks ad2)) (w2, escn2, done2) = Inr (w3, escn', done3)"
      "case active_action_of (bpy w) of
         None \<Rightarrow> w' = w3
       | Some a \<Rightarrow>
           (\<exists>ad3. animation_data (bpy w3) = Some ad3 \<and>
              w' = w3\<lparr>bpy := (bpy w3)\<lparr>animation_data := Some (ad3\<lparr>ad_action := Some a\<rparr>)\<rparr>\<rparr>)"
proof (cases "use_export_animation settings")
  case False
  with run have "w' = w" by (simp add: export_animation_data_def)
  then show thesis by (rule skipped)
next
  case use: True
  from run use obtain hp where hp: "has_pose_constraint blender_obj = Inr hp"
    by (auto simp: export_animation_data_def split: sum.splits)
  show thesis
  proof (cases "animation_data (bpy w) = None \<and> \<not> needs_bake blender_obj action_type hp")
    case True
    with run use hp have "w' = w" by (auto simp: export_animation_data_def Let_def)
    then show thesis by (rule skipped)
  next
    case False
    with run use hp obtain player escn1 ef where
      p: "get_animation_player escn (setting_animation_modes settings) node = Inr (player, escn1)"
      and e: "exporter_map action_type = Some ef"
      by (auto simp: export_animation_data_def Let_def split: sum.splits option.splits)
    define first_step where "first_step =
      (if active_action_of (bpy w) \<noteq> None
          \<or> (animation_data (bpy w) = None \<and> needs_bake blender_obj action_type hp)
       then export_active_action lib ef node player blender_obj
              (needs_bake blender_obj action_type hp) (has_object_constraint blender_obj) hp
              (active_action_of (bpy w)) (w, escn1, {})
       else Inr (w, escn1, {}))"
    from run use hp False p e obtain w2 escn2 done2 where
      f: "first_step = Inr (w2, escn2, done2)"
      unfolding first_step_def
      by (auto simp: export_animation_data_def Let_def split: sum.splits)
    with run use hp False p e obtain ad2 where
      ad2: "animation_data (bpy w2) = Some ad2"
      unfolding first_step_def
      by (auto simp: export_animation_data_def Let_def split: option.splits)
    with run use hp False p e f obtain w3 escn3 done3 where
      l: "export_nla_strips lib ef node player blender_obj
            (needs_bake blender_obj action_type hp) (has_object_constraint blender_obj) hp
            (concat (nla_tracks ad2)) (w2, escn2, done2) = Inr (w3, escn3, done3)"
      unfolding first_step_def
      by (auto simp: export_animation_data_def Let_def split: sum.splits)
    from run use hp False p e f ad2 l have
      r: "escn3 = escn' \<and>
          (case active_action_of (bpy w) of
             None \<Rightarrow> w' = w3
           | Some a \<Rightarrow>
               (\<exists>ad3. animation_data (bpy w3) = Some ad3 \<and>
                  w' = w3\<lparr>bpy := (bpy w3)\<lparr>animation_data := Some (ad3\<lparr>ad_action := Some a\<rparr>)\<rparr>\<rparr>))"
      unfolding first_step_def
      by (auto simp: export_animation_data_def Let_def split: option.splits)
    have "if active_action_of (bpy w) \<noteq> None
            \<or> (animation_data (bpy w) = None \<and> needs_bake blender_obj action_type hp)
          then export_active_action lib ef node player blender_obj
              (needs_bake blender_obj action_type hp) (has_object_constraint blender_obj) hp
              (active_action_of (bpy w)) (w, escn1, {}) = Inr (w2, escn2, done2)
          else w2 = w"
      using f unfolding first_step_def by (auto split: if_splits)
    from exported[OF hp this ad2 l[unfolded conjunct1[OF r]] conjunct2[OF r]]
    show thesis .
  qed
qed

section \<open>The active action through baking\<close>

lemma library_unlinks_bake:
  "library_unlinks lib \<Longrightarrow> bake_action lib call s = Inr (b, s') \<Longrightarrow>
     (case bc_action call of None \<Rightarrow> True | Some t \<Rightarrow> b = t) \<and> active_action_of s' = Some b"
  unfolding library_unlinks_def by blast

lemma library_unlinks_remove:
  "library_unlinks lib \<Longrightarrow> actions_remove lib b s = Inr s' \<Longrightarrow>
     active_action_of s' = (if active_action_of s = Some b then None else active_action_of s)"
  unfolding library_unlinks_def by blast

lemma add_baking_suffix_animation_data:
  "add_baking_suffix a s = Inr s' \<Longrightarrow> animation_data s' = animation_data s"
  by (auto simp: add_baking_suffix_def dest!: set_action_name_names split: sum.splits)

lemma remove_baking_suffix_animation_data:
  "remove_baking_suffix a s = Inr s' \<Longrightarrow> animation_data s' = animation_data s"
  by (auto simp: remove_baking_suffix_def dest!: set_action_name_names split: sum.splits)

lemma bake_slot:
  assumes u: "library_unlinks lib"
    and run: "bake_constraint_to_action lib blender_obj base_action bake_type in_place w
                = Inr (ret, w')"
    and given: "in_place \<Longrightarrow> base_action \<noteq> None"
  shows "\<exists>b. ret = Some b \<and> active_action_of (bpy w') = Some b"
proof -
  from bake_call_result[OF run] obtain call s b s3 s4 where
    l: "bake_action lib call s = Inr (b, s3)"
    and ba: "bc_action call = (if in_place then base_action else None)"
    and s4: "s4 = (if version_le_2_79 lib then s3\<lparr>active_object := active_object (bpy w)\<rparr>
                   else s3)"
    and r: "ret = (if in_place then base_action else Some b)"
    and f: "if in_place then bpy w' = s4
      else (case base_action of
              None \<Rightarrow>
                set_action_name b (object_name blender_obj @ ''Action'') s4 = Inr (bpy w')
            | Some a \<Rightarrow>
                (\<exists>named. actions s4 a = Some named \<and>
                   set_action_name b (strip_suffix (action_name named)) s4 = Inr (bpy w')))"
    by blast
  from library_unlinks_bake[OF u l]
  have same: "case bc_action call of None \<Rightarrow> True | Some t \<Rightarrow> b = t"
    and act: "active_action_of s3 = Some b"
    by simp_all
  have act4: "active_action_of s4 = Some b"
    using act s4 by (simp add: active_action_of_def)
  show ?thesis
  proof (cases in_place)
    case True
    with given obtain t where t: "base_action = Some t" by auto
    with True ba same have "b = t" by simp
    with True t r f act4 show ?thesis by simp
  next
    case False
    with f obtain nm where "set_action_name b nm s4 = Inr (bpy w')"
      by (cases base_action) auto
    from set_action_name_names[OF this] act4
    have "active_action_of (bpy w') = Some b"
      by (simp add: active_action_of_def)
    with False r show ?thesis by simp
  qed
qed

lemma action_baker_slot:
  assumes u: "library_unlinks lib"
    and run: "action_baker lib blender_obj has_obj_cst has_pose_cst action_to_bake w
                = Inr (ret, w')"
  shows "\<exists>b. ret = Some b \<and> active_action_of (bpy w') = Some b"
proof (cases "has_obj_cst \<and> has_pose_cst")
  case True
  with run obtain tmp w1 where
    b1: "bake_constraint_to_action lib blender_obj action_to_bake ''OBJECT'' False w = Inr (tmp, w1)"
    and b2: "bake_constraint_to_action lib blender_obj tmp ''POSE'' True w1 = Inr (ret, w')"
    by (auto simp: action_baker_def split: sum.splits)
  from bake_slot[OF u b1] obtain b where "tmp = Some b" by auto
  then show ?thesis using bake_slot[OF u b2] by simp
next
  case False
  with run have
    "bake_constraint_to_action lib blender_obj action_to_bake ''POSE'' False w = Inr (ret, w')"
    by (auto simp: action_baker_def split: if_splits)
  from bake_slot[OF u this] show ?thesis by simp
qed

lemma remove_baked_slot:
  assumes "library_unlinks lib" and "remove_baked lib (Some b) w = Inr w'"
    and "active_action_of (bpy w) = Some b"
  shows "active_action_of (bpy w') = None"
proof -
  from assms(2) obtain s' where "actions_remove lib b (bpy w) = Inr s'" and "bpy w' = s'"
    by (auto simp: remove_baked_def split: sum.splits)
  with library_unlinks_remove[OF assms(1)] assms(3) show ?thesis by simp
qed

lemma export_nla_action_slot:
  assumes u: "library_unlinks lib"
    and run: "export_nla_action lib exporter_func node player blender_obj True has_obj_cst
                has_pose_cst a (w, escn, exported) = Inr (w', escn', exported')"
  shows "active_action_of (bpy w') = None"
proof -
  from run obtain s0 chosen w1 w2 s3 where
    baked: "action_baker lib blender_obj has_obj_cst has_pose_cst (Some a) (w\<lparr>bpy := s0\<rparr>)
                  = Inr (chosen, w1)"
    and removed: "remove_baked lib chosen w1 = Inr w2"
    and unsuffixed: "remove_baking_suffix a (bpy w2) = Inr s3"
    and final: "w' = w2\<lparr>bpy := s3\<rparr>"
    by (auto simp: export_nla_action_def split: sum.splits prod.splits)
  from action_baker_slot[OF u baked] obtain b where
    c: "chosen = Some b" and "active_action_of (bpy w1) = Some b"
    by auto
  from remove_baked_slot[OF u removed[unfolded c] this(2)]
  have "active_action_of (bpy w2) = None" .
  with remove_baking_suffix_animation_data[OF unsuffixed] final
  show ?thesis by (simp add: active_action_of_def)
qed

lemma export_active_action_slot:
  assumes u: "library_unlinks lib"
    and run: "export_active_action lib exporter_func node player blender_obj True
                has_obj_cst has_pose_cst active_action (w, escn, exported)
              = Inr (w', escn', exported')"
  shows "active_action_of (bpy w') = None"
proof (cases active_action)
  case None
  with run obtain chosen w1 where
    baked: "action_baker lib blender_obj has_obj_cst has_pose_cst None w = Inr (chosen, w1)"
    and removed: "remove_baked lib chosen w1 = Inr w'"
    by (auto simp: export_active_action_def split: sum.splits prod.splits option.splits)
  from action_baker_slot[OF u baked] obtain b where
    c: "chosen = Some b" and "active_action_of (bpy w1) = Some b"
    by auto
  from remove_baked_slot[OF u removed[unfolded c] this(2)] show ?thesis .
next
  case (Some a)
  with run obtain s0 chosen w1 w2 s3 where
    baked: "action_baker lib blender_obj has_obj_cst has_pose_cst (Some a) (w\<lparr>bpy := s0\<rparr>)
                  = Inr (chosen, w1)"
    and removed: "remove_baked lib chosen w1 = Inr w2"
    and unsuffixed: "remove_baking_suffix a (bpy w2) = Inr s3"
    and final: "w' = w2\<lparr>bpy := s3\<rparr>"
    by (auto simp: export_active_action_def split: sum.splits prod.splits option.splits)
  from action_baker_slot[OF u baked] obtain b where
    c: "chosen = Some b" and "active_action_of (bpy w1) = Some b"
    by auto
  from remove_baked_slot[OF u removed[unfolded c] this(2)]
  have "active_action_of (bpy w2) = None" .
  with remove_baking_suffix_animation_data[OF unsuffixed] final
  show ?thesis by (simp add: active_action_of_def)
qed

lemma export_nla_strips_slot:
  assumes u: "library_unlinks lib"
  shows "export_nla_strips lib exporter_func node player blender_obj need_bake has_obj_cst
           has_pose_cst strips st = Inr st' \<Longrightarrow>
         active_action_of (bpy (fst st')) = active_action_of (bpy (fst st)) \<or>
         active_action_of (bpy (fst st')) = None"
proof (induction strips arbitrary: st)
  case Nil
  then show ?case by simp
next
  case (Cons strip_action strips)
  show ?case
  proof (cases strip_action)
    case None
    with Cons show ?thesis by simp
  next
    case (Some a)
    show ?thesis
    proof (cases "a \<in> snd (snd st)")
      case True
      with Cons Some show ?thesis by simp
    next
      case False
      with Cons.prems Some obtain st1 where
        one: "export_nla_action lib exporter_func node player blender_obj need_bake has_obj_cst
                has_pose_cst a st = Inr st1"
        and more: "export_nla_strips lib exporter_func node player blender_obj need_bake
                has_obj_cst has_pose_cst strips st1 = Inr st'"
        by (auto split: sum.splits)
      have "active_action_of (bpy (fst st1)) = active_action_of (bpy (fst st)) \<or>
            active_action_of (bpy (fst st1)) = None"
      proof (cases need_bake)
        case True
        with one show ?thesis
          by (cases st, cases st1) (auto dest: export_nla_action_slot[OF u])
      next
        case False
        with one show ?thesis
          by (cases st, cases st1) (auto dest: export_nla_action_no_bake)
      qed
      with Cons.IH[OF more] show ?thesis by auto
    qed
  qed
qed

section \<open>The libraries of the examples\<close>

lemma first_free_is_free: "first_free acts = Some b \<Longrightarrow> acts b = None"
  by (auto simp: first_free_def find_Some_iff)

lemma plain_library_keeps_names: "library_keeps_names plain_library"
  by (auto simp: library_keeps_names_def plain_library_def plain_bake_action_def
      plain_remove_def action_names_def fun_eq_iff
      dest: first_free_is_free split: option.splits)

lemma linking_library_keeps_names: "library_keeps_names linking_library"
  by (auto simp: library_keeps_names_def linking_library_def linking_bake_action_def
      plain_bake_action_def unlinking_remove_def action_names_def fun_eq_iff
      dest: first_free_is_free split: option.splits sum.splits)

lemma linking_library_unlinks: "library_unlinks linking_library"
  by (auto simp: library_unlinks_def linking_library_def linking_bake_action_def
      plain_bake_action_def unlinking_remove_def active_action_of_def
      split: option.splits sum.splits)

section \<open>The active action and the names after the dispatcher\<close>

lemma restore_active_action_same:
  assumes "animation_data s = Some ad" and "active_action_of s = Some a"
  shows "s\<lparr>animation_data := Some (ad\<lparr>ad_action := Some a\<rparr>)\<rparr> = s"
proof -
  from assms have "ad_action ad = Some a" by (simp add: active_action_of_def)
  then have "ad\<lparr>ad_action := Some a\<rparr> = ad" by simp
  with assms(1) show ?thesis by simp
qed

text \<open>
  Claim C2. After a call of \<open>export_animation_data\<close> that returns, the active action of the
  object is the one it had before the call, and the actions have the names they had before
  the call, so that no name carries the baking suffix unless it did before. The function
  writes the active action back itself when there was one, whatever the library does, and
  it changes nothing at all in Blender's data when nothing is baked. When there was no
  active action and something is baked, the function writes nothing back: that the object
  has no active action again is the work of the library, whose \<open>bake_action\<close> makes the
  baked action the active one and whose \<open>remove\<close> unlinks it (\<open>library_unlinks\<close>). For the
  names the library is asked to leave the names of the actions alone
  (\<open>library_keeps_names\<close>).
\<close>

theorem active_action_and_names_restored:
  assumes run: "export_animation_data lib exporter_map settings node blender_obj action_type
                  (w, escn) = Inr (w', escn')"
  shows "(active_action_of (bpy w) \<noteq> None \<longrightarrow>
            active_action_of (bpy w') = active_action_of (bpy w)) \<and>
         (\<forall>hp. has_pose_constraint blender_obj = Inr hp \<longrightarrow>
            \<not> needs_bake blender_obj action_type hp \<longrightarrow> w' = w) \<and>
         (library_unlinks lib \<longrightarrow> active_action_of (bpy w') = active_action_of (bpy w)) \<and>
         (library_keeps_names lib \<longrightarrow>
            action_names (bpy w') = action_names (bpy w) \<and>
            ((\<forall>a n. action_names (bpy w) a = Some n \<longrightarrow> \<not> endswith n BAKING_SUFFIX) \<longrightarrow>
             (\<forall>a n. action_names (bpy w') a = Some n \<longrightarrow> \<not> endswith n BAKING_SUFFIX)))"
  using run
proof (cases rule: export_animation_data_run)
  case skipped
  then show ?thesis by simp
next
  case (exported hp player escn1 ef w2 escn2 done2 ad2 w3 done3)
  note pose = exported(1) and first = exported(2) and loop = exported(4)
    and final = exported(5)
  let ?nb = "needs_bake blender_obj action_type hp"
  have set: "active_action_of (bpy w') = Some a" if "active_action_of (bpy w) = Some a" for a
    using final that by (auto simp: active_action_of_def)
  have a: "active_action_of (bpy w) \<noteq> None \<longrightarrow>
            active_action_of (bpy w') = active_action_of (bpy w)"
    using set by auto
  have b: "\<forall>hp'. has_pose_constraint blender_obj = Inr hp' \<longrightarrow>
            \<not> needs_bake blender_obj action_type hp' \<longrightarrow> w' = w"
  proof (intro allI impI)
    fix hp'
    assume "has_pose_constraint blender_obj = Inr hp'"
      and "\<not> needs_bake blender_obj action_type hp'"
    with pose have nb: "\<not> ?nb" by simp
    have w2: "w2 = w"
      using first nb by (auto dest: export_active_action_no_bake split: if_splits)
    from loop nb have "fst (w3, escn', done3) = fst (w2, escn2, done2)"
      by (auto dest: export_nla_strips_no_bake)
    with w2 have w3: "w3 = w" by simp
    show "w' = w"
    proof (cases "active_action_of (bpy w)")
      case None
      with final w3 show ?thesis by simp
    next
      case (Some act)
      with final w3 obtain ad3 where ad3: "animation_data (bpy w) = Some ad3"
        and e: "w' = w\<lparr>bpy := (bpy w)\<lparr>animation_data := Some (ad3\<lparr>ad_action := Some act\<rparr>)\<rparr>\<rparr>"
        by auto
      from restore_active_action_same[OF ad3 Some] e show ?thesis by simp
    qed
  qed
  have c: "library_unlinks lib \<longrightarrow> active_action_of (bpy w') = active_action_of (bpy w)"
  proof
    assume u: "library_unlinks lib"
    show "active_action_of (bpy w') = active_action_of (bpy w)"
    proof (cases "active_action_of (bpy w)")
      case (Some act)
      with set show ?thesis by simp
    next
      case None
      have s2: "active_action_of (bpy w2) = None"
      proof (cases "animation_data (bpy w) = None \<and> ?nb")
        case True
        with first None have
          "export_active_action lib ef node player blender_obj True
             (has_object_constraint blender_obj) hp None (w, escn1, {})
           = Inr (w2, escn2, done2)"
          by simp
        from export_active_action_slot[OF u this] show ?thesis .
      next
        case False
        with first None have "w2 = w" by auto
        with None show ?thesis by simp
      qed
      from export_nla_strips_slot[OF u loop] s2
      have "active_action_of (bpy w3) = None" by auto
      with final None show ?thesis by simp
    qed
  qed
  have d: "library_keeps_names lib \<longrightarrow>
            action_names (bpy w') = action_names (bpy w) \<and>
            ((\<forall>a n. action_names (bpy w) a = Some n \<longrightarrow> \<not> endswith n BAKING_SUFFIX) \<longrightarrow>
             (\<forall>a n. action_names (bpy w') a = Some n \<longrightarrow> \<not> endswith n BAKING_SUFFIX))"
  proof
    assume k: "library_keeps_names lib"
    have n2: "action_names (bpy w2) = action_names (bpy w)"
      using first by (auto dest: export_active_action_names[OF k] split: if_splits)
    from export_nla_strips_names[OF k loop]
    have n3: "action_names (bpy w3) = action_names (bpy w2)" by simp
    have "actions (bpy w') = actions (bpy w3)"
      using final by (cases "active_action_of (bpy w)") auto
    then have "action_names (bpy w') = action_names (bpy w3)"
      by (simp add: action_names_def fun_eq_iff)
    with n2 n3 have "action_names (bpy w') = action_names (bpy w)" by simp
    then show "action_names (bpy w') = action_names (bpy w) \<and>
            ((\<forall>a n. action_names (bpy w) a = Some n \<longrightarrow> \<not> endswith n BAKING_SUFFIX) \<longrightarrow>
             (\<forall>a n. action_names (bpy w') a = Some n \<longrightarrow> \<not> endswith n BAKING_SUFFIX))"
      by simp
  qed
  show ?thesis
    using a b c d by (intro conjI)
qed

lemmas baking_example_defs =
  action_baker_def bake_constraint_to_action_def plain_bake_action_def first_free_example
  get_action_frame_range_def py_int_def set_action_name_def add_baking_suffix_def
  remove_baking_suffix_def remove_baked_def strip_suffix_def BAKING_SUFFIX_def
  constrained_object_def action_names_def

theorem active_action_and_names_restored_witness:
  "library_unlinks linking_library \<and> library_keeps_names linking_library \<and>
   active_action_of (bpy example_world_active) = Some 0 \<and>
   action_names (bpy example_world_active) 0 = Some ''Wave'' \<and>
   map_sum id (\<lambda>(w', escn').
       (active_action_of (bpy w'), action_names (bpy w') 0, action_names (bpy w') 1))
     (export_animation_data linking_library (\<lambda>action_type. Some no_tracks) example_settings
        [0, 0] constrained_object ''transform''
        (example_world_active, example_escn :: mat escn_file))
     = Inr (Some 0, Some ''Wave'', None) \<and>
   active_action_of (bpy example_world) = None \<and>
   map_sum id (\<lambda>(w', escn').
       (active_action_of (bpy w'), action_names (bpy w') 0, action_names (bpy w') 1))
     (export_animation_data linking_library (\<lambda>action_type. Some no_tracks) example_settings
        [0, 0] constrained_object ''transform''
        (example_world, example_escn :: mat escn_file))
     = Inr (None, Some ''Wave'', None)"
proof -
  have g: ?thesis
    by (intro conjI linking_library_unlinks linking_library_keeps_names)
      (simp_all add: dispatcher_example_defs baking_example_defs linking_library_def
        linking_bake_action_def unlinking_remove_def)
  have "\<exists>w' escn'.
      export_animation_data linking_library (\<lambda>action_type. Some no_tracks) example_settings
        [0, 0] constrained_object ''transform''
        (example_world_active, example_escn :: mat escn_file) = Inr (w', escn')"
    by (simp add: dispatcher_example_defs baking_example_defs linking_library_def
        linking_bake_action_def unlinking_remove_def)
  then obtain w' escn' where
    run: "export_animation_data linking_library (\<lambda>action_type. Some no_tracks) example_settings
        [0, 0] constrained_object ''transform''
        (example_world_active, example_escn :: mat escn_file) = Inr (w', escn')"
    by blast
  from active_action_and_names_restored[OF run] show ?thesis
    by - (rule g)
qed

text \<open>
  The library is needed for the case without an active action. With \<open>plain_library\<close>,
  whose \<open>bake_action\<close> and \<open>remove\<close> leave the active action of the object alone, the action
  of the strip that baking made active is still the active action when the dispatcher
  returns: nothing in the dispatcher writes \<open>None\<close> back.
\<close>

lemma plain_library_does_not_unlink:
  "\<not> library_unlinks plain_library \<and>
   active_action_of (bpy example_world) = None \<and>
   map_sum id (\<lambda>(w', escn'). active_action_of (bpy w'))
     (export_animation_data plain_library (\<lambda>action_type. Some no_tracks) example_settings
        [0, 0] constrained_object ''transform''
        (example_world, example_escn :: mat escn_file))
     = Inr (Some 0)"
proof -
  have "bake_action plain_library
          \<lparr>bc_obj = None, bc_frame_start = 1, bc_frame_end = 2, bc_frame_step = 1,
           bc_only_selected = False, bc_action = None, bc_do_pose = True,
           bc_do_object = False, bc_do_visual_keying = True\<rparr> example_data
        = Inr (1, example_data\<lparr>actions := (actions example_data)(1 \<mapsto>
                \<lparr>action_name = ''Action'', frame_range = (1, 2), fcurves = []\<rparr>)\<rparr>)"
    by (simp add: plain_library_def plain_bake_action_def example_data_def first_free_example)
  moreover have "active_action_of (example_data\<lparr>actions := (actions example_data)(1 \<mapsto>
                \<lparr>action_name = ''Action'', frame_range = (1, 2), fcurves = []\<rparr>)\<rparr>) = None"
    by (simp add: active_action_of_def example_data_def)
  ultimately have "\<not> library_unlinks plain_library"
    unfolding library_unlinks_def by (metis option.distinct(1))
  moreover have "active_action_of (bpy example_world) = None \<and>
   map_sum id (\<lambda>(w', escn'). active_action_of (bpy w'))
     (export_animation_data plain_library (\<lambda>action_type. Some no_tracks) example_settings
        [0, 0] constrained_object ''transform''
        (example_world, example_escn :: mat escn_file))
     = Inr (Some 0)"
    by (simp add: dispatcher_example_defs baking_example_defs plain_library_def
        plain_remove_def)
  ultimately show ?thesis by simp
qed

end
